theory Spec2Isabelle
  imports Complex_Main "HOL-Library.Multiset"
begin

text \<open>
  A model of the three notebooks of the repository (linear regression, neural-network
  regression and classification of crystal structures over a table of element properties):
  the table and its manual patches, the train/test slices, the standard-score
  normalization, the training call, the aggregate errors and the charts. The libraries the
  notebooks call (NumPy, pandas, scikit-learn, Keras, Plotly) are modelled by the documented
  behaviour of the calls the notebooks make.
\<close>

section \<open>Numbers: NumPy float arrays\<close>

text \<open>
  The notebooks hold their data in NumPy arrays of dtype float. A cell of such an array is
  a finite number, an infinity or NaN (a missing database value, Python's \<open>None\<close>,
  becomes NaN when the table is turned into a float array). Finite numbers are modelled
  as real numbers, and there is no negative zero. The operations of this section are the
  exact ones: what the formulas of the notebooks denote. The rounding that NumPy performs
  after every operation is added in the section on binary64 arithmetic. Division by zero,
  infinities and NaN follow IEEE 754, which is what NumPy does (it prints a warning and
  goes on).
\<close>

datatype fval = Fin real | PInf | NInf | NaN

fun is_finite :: "fval \<Rightarrow> bool" where
  "is_finite (Fin r) = True"
| "is_finite PInf = False"
| "is_finite NInf = False"
| "is_finite NaN = False"

fun fneg :: "fval \<Rightarrow> fval" where
  "fneg (Fin r) = Fin (- r)"
| "fneg PInf = NInf"
| "fneg NInf = PInf"
| "fneg NaN = NaN"

fun fadd :: "fval \<Rightarrow> fval \<Rightarrow> fval" where
  "fadd NaN y = NaN"
| "fadd x NaN = NaN"
| "fadd (Fin a) (Fin b) = Fin (a + b)"
| "fadd (Fin a) PInf = PInf"
| "fadd (Fin a) NInf = NInf"
| "fadd PInf (Fin b) = PInf"
| "fadd NInf (Fin b) = NInf"
| "fadd PInf PInf = PInf"
| "fadd NInf NInf = NInf"
| "fadd PInf NInf = NaN"
| "fadd NInf PInf = NaN"

definition fsub :: "fval \<Rightarrow> fval \<Rightarrow> fval" where
  "fsub x y = fadd x (fneg y)"

text \<open>\<open>x * x\<close>, the square NumPy's variance takes of each deviation.\<close>

fun fsq :: "fval \<Rightarrow> fval" where
  "fsq (Fin r) = Fin (r * r)"
| "fsq PInf = PInf"
| "fsq NInf = PInf"
| "fsq NaN = NaN"

fun fabs :: "fval \<Rightarrow> fval" where
  "fabs (Fin r) = Fin \<bar>r\<bar>"
| "fabs PInf = PInf"
| "fabs NInf = PInf"
| "fabs NaN = NaN"

fun fsqrt :: "fval \<Rightarrow> fval" where
  "fsqrt (Fin r) = (if 0 \<le> r then Fin (sqrt r) else NaN)"
| "fsqrt PInf = PInf"
| "fsqrt NInf = NaN"
| "fsqrt NaN = NaN"

text \<open>
  Division. A finite number over zero is an infinity of the dividend's sign, zero over
  zero is NaN, infinity over infinity is NaN, a finite number over an infinity is zero.
  (The divisors of the notebooks are standard deviations, whose zero is the positive one.)
\<close>

fun fdiv :: "fval \<Rightarrow> fval \<Rightarrow> fval" where
  "fdiv NaN y = NaN"
| "fdiv x NaN = NaN"
| "fdiv (Fin a) (Fin b) =
     (if b \<noteq> 0 then Fin (a / b)
      else if a = 0 then NaN
      else if 0 < a then PInf else NInf)"
| "fdiv (Fin a) PInf = Fin 0"
| "fdiv (Fin a) NInf = Fin 0"
| "fdiv PInf (Fin b) = (if 0 \<le> b then PInf else NInf)"
| "fdiv NInf (Fin b) = (if 0 \<le> b then NInf else PInf)"
| "fdiv PInf PInf = NaN"
| "fdiv PInf NInf = NaN"
| "fdiv NInf PInf = NaN"
| "fdiv NInf NInf = NaN"

text \<open>\<open>np.sum\<close> of a one-dimensional array.\<close>

fun fsum :: "fval list \<Rightarrow> fval" where
  "fsum [] = Fin 0"
| "fsum (x # xs) = fadd x (fsum xs)"

text \<open>
  \<open>np.mean\<close>: the sum over the number of entries (NaN for an empty array, zero over
  zero). \<open>np.std\<close>: the square root of the mean of the squared deviations from the
  mean (population standard deviation, \<open>ddof = 0\<close>).
\<close>

definition np_mean :: "fval list \<Rightarrow> fval" where
  "np_mean xs = fdiv (fsum xs) (Fin (real (length xs)))"

definition np_std :: "fval list \<Rightarrow> fval" where
  "np_std xs = (let m = np_mean xs in fsqrt (np_mean (map (\<lambda>x. fsq (fsub x m)) xs)))"

text \<open>
  \<open>np.nanmean\<close> and \<open>np.nanstd\<close>: the same over the entries that are not NaN
  (NaN when none is left).
\<close>

definition np_nanmean :: "fval list \<Rightarrow> fval" where
  "np_nanmean xs = np_mean (filter (\<lambda>x. x \<noteq> NaN) xs)"

definition np_nanstd :: "fval list \<Rightarrow> fval" where
  "np_nanstd xs = np_std (filter (\<lambda>x. x \<noteq> NaN) xs)"

section \<open>Two-dimensional arrays\<close>

text \<open>
  A two-dimensional array is the list of its rows; \<open>ncols\<close> is its \<open>shape[1]\<close>.
  A reduction along \<open>axis = 0\<close> applies the function to every column.
\<close>

type_synonym matrix = "fval list list"

definition column :: "matrix \<Rightarrow> nat \<Rightarrow> fval list" where
  "column rows j = map (\<lambda>row. row ! j) rows"

definition axis0 :: "(fval list \<Rightarrow> fval) \<Rightarrow> nat \<Rightarrow> matrix \<Rightarrow> fval list" where
  "axis0 f ncols rows = map (\<lambda>j. f (column rows j)) [0..<ncols]"

section \<open>Partitioning: Python slices\<close>

text \<open>
  \<open>xs[:k]\<close> and \<open>xs[k:]\<close> for an integer \<open>k\<close>: a negative bound counts from
  the end, and a bound out of range is clamped.
\<close>

definition slice_bound :: "'a list \<Rightarrow> int \<Rightarrow> nat" where
  "slice_bound xs k = (if k < 0 then nat (int (length xs) + k) else nat k)"

definition slice_to :: "'a list \<Rightarrow> int \<Rightarrow> 'a list" where
  "slice_to xs k = take (slice_bound xs k) xs"

definition slice_from :: "'a list \<Rightarrow> int \<Rightarrow> 'a list" where
  "slice_from xs k = drop (slice_bound xs k) xs"

text \<open>
  The train/test cell: \<open>train = all[:training_count]\<close>, \<open>test = all[-testing_count:]\<close>.
  The notebooks write the counts as literals: 44 and 5 (neural-network regression),
  40 and 7 (classification), 45 and 6 (linear regression).
\<close>

definition partition_rows :: "nat \<Rightarrow> nat \<Rightarrow> 'a list \<Rightarrow> 'a list \<times> 'a list" where
  "partition_rows training_count testing_count all_rows =
     (slice_to all_rows (int training_count), slice_from all_rows (- int testing_count))"

section \<open>Normalization\<close>

text \<open>
  \<open>(values - mean) / std\<close> with \<open>mean\<close> and \<open>std\<close> one-dimensional: NumPy
  broadcasts them over the rows.
\<close>

definition scale_row :: "fval list \<Rightarrow> fval list \<Rightarrow> fval list \<Rightarrow> fval list" where
  "scale_row mean std row = map2 fdiv (map2 fsub row mean) std"

definition input_scaling :: "fval list \<Rightarrow> fval list \<Rightarrow> matrix \<Rightarrow> matrix" where
  "input_scaling mean std values = map (scale_row mean std) values"

text \<open>
  The normalization cell of the regression notebook:
  \<^verbatim>\<open>mean = np.mean(train_values, axis = 0)\<close>,
  \<^verbatim>\<open>std = np.std(train_values, axis = 0)\<close>,
  \<^verbatim>\<open>train_values = (train_values - mean) / std\<close>,
  \<^verbatim>\<open>test_values = (test_values - mean) / std\<close>.
  The classification notebook does the same with \<open>np.nanmean\<close> and \<open>np.nanstd\<close>.
\<close>

definition normalize_regression :: "nat \<Rightarrow> matrix \<Rightarrow> matrix \<Rightarrow> matrix \<times> matrix" where
  "normalize_regression ncols train_values test_values =
     (let mean = axis0 np_mean ncols train_values;
          std = axis0 np_std ncols train_values
      in (input_scaling mean std train_values, input_scaling mean std test_values))"

definition normalize_classification :: "nat \<Rightarrow> matrix \<Rightarrow> matrix \<Rightarrow> matrix \<times> matrix" where
  "normalize_classification ncols train_values test_values =
     (let mean = axis0 np_nanmean ncols train_values;
          std = axis0 np_nanstd ncols train_values
      in (input_scaling mean std train_values, input_scaling mean std test_values))"

text \<open>
  The whole "sets and normalization" cell, from the full array: slice, then normalize.
\<close>

definition sets_and_normalization_regression :: "nat \<Rightarrow> nat \<Rightarrow> nat \<Rightarrow> matrix \<Rightarrow> matrix \<times> matrix" where
  "sets_and_normalization_regression training_count testing_count ncols all_values =
     (let (train_values, test_values) = partition_rows training_count testing_count all_values
      in normalize_regression ncols train_values test_values)"

definition sets_and_normalization_classification :: "nat \<Rightarrow> nat \<Rightarrow> nat \<Rightarrow> matrix \<Rightarrow> matrix \<times> matrix" where
  "sets_and_normalization_classification training_count testing_count ncols all_values =
     (let (train_values, test_values) = partition_rows training_count testing_count all_values
      in normalize_classification ncols train_values test_values)"

section \<open>Binary64 arithmetic\<close>

text \<open>
  The operations above are exact. The arrays of the notebooks have dtype float, IEEE 754
  binary64, and NumPy computes in it: every operation gives the exact result rounded to the
  nearest binary64 number, and to the one with the even significand when two are equally
  near. A binary64 number is \<open>m * 2^e\<close> with \<open>|m| < 2^53\<close> and \<open>-1074 \<le> e\<close>,
  below \<open>2^1024\<close> in magnitude; a result that rounds to \<open>2^1024\<close> or beyond is an
  infinity. There is still no negative zero: the sign of a zero only decides the sign of an
  infinite quotient, and the divisors of the notebooks are square roots.
\<close>

text \<open>The number of binary digits of a natural number (Python's \<open>int.bit_length\<close>).\<close>

fun bit_length :: "nat \<Rightarrow> nat" where
  "bit_length n = (if n = 0 then 0 else Suc (bit_length (n div 2)))"

declare bit_length.simps [simp del]

definition pow2 :: "int \<Rightarrow> real" where
  "pow2 e = (if 0 \<le> e then 2 ^ nat e else 1 / 2 ^ nat (- e))"

text \<open>
  The binary exponent of a nonzero number, \<open>floor (log2 |x|)\<close>: from the digits of the
  integer part when \<open>1 \<le> |x|\<close>, of the reciprocal otherwise.
\<close>

definition ilog2 :: "real \<Rightarrow> int" where
  "ilog2 x = (if 1 \<le> \<bar>x\<bar> then int (bit_length (nat \<lfloor>\<bar>x\<bar>\<rfloor>)) - 1
              else - int (bit_length (nat (\<lceil>1 / \<bar>x\<bar>\<rceil> - 1))))"

text \<open>
  The spacing of the binary64 numbers at \<open>x\<close>: 52 binary places below the leading digit,
  and \<open>2^-1074\<close> for the subnormal numbers.
\<close>

definition quantum :: "real \<Rightarrow> real" where
  "quantum x = pow2 (max (ilog2 x - 52) (- 1074))"

text \<open>The nearest integer, the even one at a tie.\<close>

definition round_half_even :: "real \<Rightarrow> int" where
  "round_half_even y =
     (let f = \<lfloor>y\<rfloor>; d = y - real_of_int f
      in if d < 1 / 2 then f else if 1 / 2 < d then f + 1 else if even f then f else f + 1)"

text \<open>The binary64 number nearest to a real number, or the infinity it overflows to.\<close>

definition f64 :: "real \<Rightarrow> fval" where
  "f64 x =
     (if x = 0 then Fin 0
      else (let r = real_of_int (round_half_even (x / quantum x)) * quantum x
            in if 2 ^ 1024 \<le> \<bar>r\<bar> then (if 0 < x then PInf else NInf) else Fin r))"

text \<open>Rounding leaves the infinities and NaN alone.\<close>

fun rnd :: "fval \<Rightarrow> fval" where
  "rnd (Fin r) = f64 r"
| "rnd PInf = PInf"
| "rnd NInf = NInf"
| "rnd NaN = NaN"

text \<open>The binary64 operations: the exact result, rounded.\<close>

definition fadd64 :: "fval \<Rightarrow> fval \<Rightarrow> fval" where
  "fadd64 x y = rnd (fadd x y)"

definition fsub64 :: "fval \<Rightarrow> fval \<Rightarrow> fval" where
  "fsub64 x y = rnd (fsub x y)"

definition fsq64 :: "fval \<Rightarrow> fval" where
  "fsq64 x = rnd (fsq x)"

definition fdiv64 :: "fval \<Rightarrow> fval \<Rightarrow> fval" where
  "fdiv64 x y = rnd (fdiv x y)"

definition fsqrt64 :: "fval \<Rightarrow> fval" where
  "fsqrt64 x = rnd (fsqrt x)"

text \<open>
  \<open>np.sum(a, axis = 0)\<close> of a two-dimensional array in row-major order (what
  \<open>np.array\<close> makes of a list of rows, and a slice of its rows): NumPy adds the rows
  one after the other into the result, so that every column is summed from its first entry
  to its last, with a rounding after every addition.
\<close>

definition fsum64 :: "fval list \<Rightarrow> fval" where
  "fsum64 xs = foldl fadd64 (Fin 0) xs"

text \<open>
  \<open>np.mean\<close> and \<open>np.std\<close> in binary64. NumPy computes the standard deviation as
  written here: the mean, the deviations, their squares, the sum of the squares, its
  quotient by the number of entries, the square root.
\<close>

definition np_mean_f64 :: "fval list \<Rightarrow> fval" where
  "np_mean_f64 xs = fdiv64 (fsum64 xs) (Fin (real (length xs)))"

definition np_std_f64 :: "fval list \<Rightarrow> fval" where
  "np_std_f64 xs =
     (let m = np_mean_f64 xs in fsqrt64 (np_mean_f64 (map (\<lambda>x. fsq64 (fsub64 x m)) xs)))"

definition np_nanmean_f64 :: "fval list \<Rightarrow> fval" where
  "np_nanmean_f64 xs = np_mean_f64 (filter (\<lambda>x. x \<noteq> NaN) xs)"

definition np_nanstd_f64 :: "fval list \<Rightarrow> fval" where
  "np_nanstd_f64 xs = np_std_f64 (filter (\<lambda>x. x \<noteq> NaN) xs)"

text \<open>The normalization cells in binary64: the same cells, every operation rounded.\<close>

definition scale_row_f64 :: "fval list \<Rightarrow> fval list \<Rightarrow> fval list \<Rightarrow> fval list" where
  "scale_row_f64 mean std row = map2 fdiv64 (map2 fsub64 row mean) std"

definition input_scaling_f64 :: "fval list \<Rightarrow> fval list \<Rightarrow> matrix \<Rightarrow> matrix" where
  "input_scaling_f64 mean std values = map (scale_row_f64 mean std) values"

definition normalize_regression_f64 :: "nat \<Rightarrow> matrix \<Rightarrow> matrix \<Rightarrow> matrix \<times> matrix" where
  "normalize_regression_f64 ncols train_values test_values =
     (let mean = axis0 np_mean_f64 ncols train_values;
          std = axis0 np_std_f64 ncols train_values
      in (input_scaling_f64 mean std train_values, input_scaling_f64 mean std test_values))"

definition normalize_classification_f64 :: "nat \<Rightarrow> matrix \<Rightarrow> matrix \<Rightarrow> matrix \<times> matrix" where
  "normalize_classification_f64 ncols train_values test_values =
     (let mean = axis0 np_nanmean_f64 ncols train_values;
          std = axis0 np_nanstd_f64 ncols train_values
      in (input_scaling_f64 mean std train_values, input_scaling_f64 mean std test_values))"

text \<open>A binary64 number: a real number that the rounding leaves as it is.\<close>

definition is_binary64 :: "real \<Rightarrow> bool" where
  "is_binary64 x \<longleftrightarrow> f64 x = Fin x"

section \<open>Building the property table\<close>

text \<open>
  The two databases (Mendeleev and Pymatgen) are outside the repository. A lookup takes an
  element symbol and a property name and gives the value; a property the database does not
  know (Python's \<open>None\<close>) is NaN in the table.
\<close>

type_synonym lookup = "string \<Rightarrow> string \<Rightarrow> fval"

subsection \<open>The element and property lists of the notebooks\<close>

definition fcc_elements :: "string list" where
  "fcc_elements =
     [''Ag'', ''Al'', ''Au'', ''Cu'', ''Ir'', ''Ni'', ''Pb'', ''Pd'', ''Pt'', ''Rh'', ''Th'', ''Yb'']"

text \<open>Neural-network regression notebook.\<close>

definition bcc_elements_regression :: "string list" where
  "bcc_elements_regression =
     [''Ba'', ''Cr'', ''Cs'', ''Eu'', ''Fe'', ''Li'', ''Mn'', ''Mo'', ''Na'', ''Nb'', ''Rb'', ''Ta'',
      ''V'', ''W'']"

definition hcp_elements_regression :: "string list" where
  "hcp_elements_regression =
     [''Be'', ''Ca'', ''Cd'', ''Co'', ''Dy'', ''Er'', ''Gd'', ''Hf'', ''Ho'', ''Lu'', ''Mg'', ''Re'',
      ''Ru'', ''Sc'', ''Tb'', ''Ti'', ''Tl'', ''Tm'', ''Y'', ''Zn'', ''Zr'']"

definition others_regression :: "string list" where
  "others_regression = [''Si'', ''Ge'']"

definition elements_regression :: "string list" where
  "elements_regression =
     fcc_elements @ others_regression @ bcc_elements_regression @ hcp_elements_regression"

definition querable_mendeleev_regression :: "string list" where
  "querable_mendeleev_regression =
     [''atomic_number'', ''atomic_volume'', ''boiling_point'', ''en_ghosh'', ''evaporation_heat'',
      ''heat_of_formation'', ''lattice_constant'', ''specific_heat'']"

definition querable_pymatgen :: "string list" where
  "querable_pymatgen =
     [''atomic_mass'', ''atomic_radius'', ''electrical_resistivity'', ''molar_volume'',
      ''bulk_modulus'', ''youngs_modulus'', ''average_ionic_radius'', ''density_of_solid'',
      ''coefficient_of_linear_thermal_expansion'']"

text \<open>Classification notebook.\<close>

definition bcc_elements_classification :: "string list" where
  "bcc_elements_classification =
     [''Ba'', ''Ca'', ''Cr'', ''Cs'', ''Eu'', ''Fe'', ''Li'', ''Mn'', ''Mo'', ''Na'', ''Nb'', ''Rb'',
      ''Ta'', ''V'', ''W'']"

definition hcp_elements_classification :: "string list" where
  "hcp_elements_classification =
     [''Be'', ''Cd'', ''Co'', ''Dy'', ''Er'', ''Gd'', ''Hf'', ''Ho'', ''Lu'', ''Mg'', ''Re'',
      ''Ru'', ''Sc'', ''Tb'', ''Ti'', ''Tl'', ''Tm'', ''Y'', ''Zn'', ''Zr'']"

text \<open>
  \<open>elements = fcc_elements + bcc_elements + hcp_elements\<close>, before
  \<open>random.Random(1).shuffle(elements)\<close> reorders it.
\<close>

definition elements_classification :: "string list" where
  "elements_classification =
     fcc_elements @ bcc_elements_classification @ hcp_elements_classification"

definition querable_mendeleev_classification :: "string list" where
  "querable_mendeleev_classification =
     [''atomic_number'', ''atomic_volume'', ''boiling_point'', ''en_ghosh'', ''evaporation_heat'',
      ''heat_of_formation'', ''lattice_constant'', ''melting_point'', ''specific_heat'']"

subsection \<open>The query loops\<close>

text \<open>
  One row per element: the Mendeleev properties in their declared order, then the Pymatgen
  ones.
\<close>

definition element_values :: "lookup \<Rightarrow> lookup \<Rightarrow> string list \<Rightarrow> string list \<Rightarrow> string \<Rightarrow> fval list" where
  "element_values mendel pymat querable_mendeleev querable_pymat item =
     map (mendel item) querable_mendeleev @ map (pymat item) querable_pymat"

text \<open>
  The regression loop appends one row per element to \<open>all_values\<close>.
\<close>

fun query_loop_regression :: "lookup \<Rightarrow> lookup \<Rightarrow> string list \<Rightarrow> matrix \<Rightarrow> matrix" where
  "query_loop_regression mendel pymat [] all_values = all_values"
| "query_loop_regression mendel pymat (item # rest) all_values =
     query_loop_regression mendel pymat rest
       (all_values @ [element_values mendel pymat querable_mendeleev_regression querable_pymatgen item])"

text \<open>
  The classification loop also appends the crystal-structure label, by an
  \<open>if\<close>/\<open>elif\<close>/\<open>elif\<close> chain with no \<open>else\<close>: an element of none of the three
  lists gets a feature row and no label.
\<close>

fun query_loop_classification ::
  "lookup \<Rightarrow> lookup \<Rightarrow> string list \<Rightarrow> matrix \<times> int list list \<Rightarrow> matrix \<times> int list list" where
  "query_loop_classification mendel pymat [] (all_values, all_labels) = (all_values, all_labels)"
| "query_loop_classification mendel pymat (item # rest) (all_values, all_labels) =
     query_loop_classification mendel pymat rest
       (all_values @ [element_values mendel pymat querable_mendeleev_classification querable_pymatgen item],
        (if item \<in> set fcc_elements then all_labels @ [[1, 0, 0]]
         else if item \<in> set bcc_elements_classification then all_labels @ [[0, 1, 0]]
         else if item \<in> set hcp_elements_classification then all_labels @ [[0, 0, 1]]
         else all_labels))"

subsection \<open>The data frame and the manual patches\<close>

datatype error = KeyError string | IndexError | ValueError

record dataframe =
  columns :: "string list"
  table :: matrix

text \<open>\<open>df.columns.get_loc(name)\<close>: the position of a column, \<open>KeyError\<close> without it.\<close>

fun get_loc :: "string list \<Rightarrow> string \<Rightarrow> error + nat" where
  "get_loc [] name = Inl (KeyError name)"
| "get_loc (c # cs) name =
     (if c = name then Inr 0
      else (case get_loc cs name of Inl e \<Rightarrow> Inl e | Inr i \<Rightarrow> Inr (Suc i)))"

text \<open>
  \<open>df.iloc[index, c] = v\<close>: the cell of column \<open>c\<close> is overwritten in every row of
  \<open>index\<close>.
\<close>

definition iloc_set :: "matrix \<Rightarrow> nat list \<Rightarrow> nat \<Rightarrow> fval \<Rightarrow> matrix" where
  "iloc_set t index c v = foldl (\<lambda>t i. t[i := (t ! i)[c := v]]) t index"

text \<open>
  One patch:
  \<^verbatim>\<open>index = df.index[df['atomic_number'] == Z]\<close>,
  \<^verbatim>\<open>df.iloc[index, df.columns.get_loc(name)] = value\<close>.
  The rows are found by the atomic number that the lookup returned.
\<close>

definition patch :: "dataframe \<Rightarrow> real \<Rightarrow> string \<Rightarrow> real \<Rightarrow> error + dataframe" where
  "patch df atomic_number name v =
     (case get_loc (columns df) ''atomic_number'' of
        Inl e \<Rightarrow> Inl e
      | Inr an \<Rightarrow>
          (let index = filter (\<lambda>i. table df ! i ! an = Fin atomic_number) [0..<length (table df)]
           in case get_loc (columns df) name of
                Inl e \<Rightarrow> Inl e
              | Inr c \<Rightarrow> Inr (df\<lparr>table := iloc_set (table df) index c (Fin v)\<rparr>)))"

fun apply_patches :: "dataframe \<Rightarrow> (real \<times> string \<times> real) list \<Rightarrow> error + dataframe" where
  "apply_patches df [] = Inr df"
| "apply_patches df ((atomic_number, name, v) # ps) =
     (case patch df atomic_number name v of
        Inl e \<Rightarrow> Inl e
      | Inr df' \<Rightarrow> apply_patches df' ps)"

text \<open>
  The patch lists, in the order of the cells: atomic number, column, literal value.
  The regression notebook patches Cs, Rb, Ru, Zr and twice Ge; the classification notebook
  the first four.
\<close>

definition patches_classification :: "(real \<times> string \<times> real) list" where
  "patches_classification =
     [(55, ''coefficient_of_linear_thermal_expansion'', 97 / 1000000),
      (37, ''coefficient_of_linear_thermal_expansion'', 90 / 1000000),
      (44, ''evaporation_heat'', 595),
      (40, ''bulk_modulus'', 94)]"

definition patches_regression :: "(real \<times> string \<times> real) list" where
  "patches_regression =
     patches_classification @
     [(32, ''bulk_modulus'', 772 / 10),
      (32, ''youngs_modulus'', 1027 / 10)]"

text \<open>
  The Builder of each notebook: query every element, make the data frame, apply the
  patches. \<open>elements\<close> is the notebook's element list (in the classification notebook,
  after the shuffle).
\<close>

definition builder_regression :: "lookup \<Rightarrow> lookup \<Rightarrow> string list \<Rightarrow> error + dataframe" where
  "builder_regression mendel pymat elements =
     apply_patches
       \<lparr>columns = querable_mendeleev_regression @ querable_pymatgen,
        table = query_loop_regression mendel pymat elements []\<rparr>
       patches_regression"

definition builder_classification :: "lookup \<Rightarrow> lookup \<Rightarrow> string list \<Rightarrow> error + dataframe" where
  "builder_classification mendel pymat elements =
     apply_patches
       \<lparr>columns = querable_mendeleev_classification @ querable_pymatgen,
        table = fst (query_loop_classification mendel pymat elements ([], []))\<rparr>
       patches_classification"

text \<open>A table holds no missing value when none of its cells is NaN.\<close>

definition no_missing :: "matrix \<Rightarrow> bool" where
  "no_missing t = list_all (list_all (\<lambda>x. x \<noteq> NaN)) t"

section \<open>Organizing the data of the regression notebook\<close>

text \<open>
  \<open>xs[order]\<close> and \<open>[xs[i] for i in order]\<close>: the entries at the positions of
  \<open>order\<close>, \<open>IndexError\<close> when a position is out of range.
\<close>

definition take_rows :: "'a list \<Rightarrow> nat list \<Rightarrow> error + 'a list" where
  "take_rows xs order =
     (if list_all (\<lambda>i. i < length xs) order then Inr (map (\<lambda>i. xs ! i) order)
      else Inl IndexError)"

text \<open>What the "sets and normalization" cell of the regression notebook leaves behind.\<close>

record regression_sets =
  rs_all_labels :: "fval list"
  rs_train_labels :: "fval list"
  rs_test_labels :: "fval list"
  rs_train_values :: matrix
  rs_test_values :: matrix
  rs_elements :: "string list"
  rs_labeled_elements :: "string list"

text \<open>
  The cell, with its literals as parameters: \<open>order = np.arange(nrows)\<close> (49 in the
  notebook), the slices \<open>[:training_count]\<close> and \<open>[-testing_count:]\<close> (44 and 5),
  \<open>labeled_elements = [elements[x] for x in order[-testing_count:]]\<close>,
  \<open>elements = [elements[x] for x in order]\<close>, then the normalization.
  \<open>ncols\<close> is the number of feature columns.
\<close>

definition organize_regression ::
  "nat \<Rightarrow> nat \<Rightarrow> nat \<Rightarrow> nat \<Rightarrow> string list \<Rightarrow> matrix \<Rightarrow> fval list \<Rightarrow> error + regression_sets" where
  "organize_regression nrows training_count testing_count ncols elems values labels =
     (let order = [0..<nrows] in
      case take_rows values order of Inl e \<Rightarrow> Inl e | Inr values' \<Rightarrow>
      case take_rows labels order of Inl e \<Rightarrow> Inl e | Inr labels' \<Rightarrow>
      case take_rows elems (slice_from order (- int testing_count)) of Inl e \<Rightarrow> Inl e | Inr labeled \<Rightarrow>
      case take_rows elems order of Inl e \<Rightarrow> Inl e | Inr elems' \<Rightarrow>
        (let (train_l, test_l) = partition_rows training_count testing_count labels';
             (train_v, test_v) = partition_rows training_count testing_count values';
             (train_n, test_n) = normalize_regression ncols train_v test_v
         in Inr \<lparr>rs_all_labels = labels', rs_train_labels = train_l, rs_test_labels = test_l,
                 rs_train_values = train_n, rs_test_values = test_n,
                 rs_elements = elems', rs_labeled_elements = labeled\<rparr>))"

section \<open>Predictions and charts\<close>

text \<open>
  A fitted network is opaque: a function from a feature row to its prediction.
  \<open>model.predict(values)\<close> gives one prediction per row, in row order.
\<close>

definition predict :: "(fval list \<Rightarrow> 'a) \<Rightarrow> matrix \<Rightarrow> 'a list" where
  "predict net values = map net values"

text \<open>A scatter series of a chart: its points, their hover texts, its legend name and colour.\<close>

record scatter =
  trace_x :: "fval list"
  trace_y :: "fval list"
  trace_text :: "string list"
  trace_name :: string
  trace_color :: string

text \<open>
  The prediction and plotting cells of the regression notebook:
  \<^verbatim>\<open>test_predictions = model.predict(test_values).flatten()\<close>,
  \<^verbatim>\<open>values = np.concatenate((train_values, test_values), axis=0)\<close>,
  \<^verbatim>\<open>predictions = model.predict(values).flatten()\<close>,
  \<^verbatim>\<open>trace0 = go.Scatter(x = all_labels, y = predictions, text = elements, name = '... (Training)')\<close>,
  \<^verbatim>\<open>trace1 = go.Scatter(x = test_labels, y = test_predictions, text = labeled_elements, name = '... (Testing)')\<close>.
  The result is the pair \<open>(trace0, trace1)\<close>; the third trace is the fixed line \<open>x = y\<close>.
\<close>

definition plot_regression :: "(fval list \<Rightarrow> fval) \<Rightarrow> regression_sets \<Rightarrow> scatter \<times> scatter" where
  "plot_regression net d =
     (let test_predictions = predict net (rs_test_values d);
          values = rs_train_values d @ rs_test_values d;
          predictions = predict net values;
          trace0 = \<lparr>trace_x = rs_all_labels d, trace_y = predictions, trace_text = rs_elements d,
                    trace_name = ''Young's Modulus (Training)'', trace_color = ''blue''\<rparr>;
          trace1 = \<lparr>trace_x = rs_test_labels d, trace_y = test_predictions,
                    trace_text = rs_labeled_elements d,
                    trace_name = ''Young's Modulus (Testing)'', trace_color = ''red''\<rparr>
      in (trace0, trace1))"

text \<open>
  The \<open>plot\<close> function of the linear-regression notebook: the training series, the
  testing series and the model line over all the x values.
\<close>

definition plot_linreg ::
  "fval list \<Rightarrow> fval list \<Rightarrow> fval list \<Rightarrow> fval list \<Rightarrow> fval list \<Rightarrow> scatter \<times> scatter \<times> scatter" where
  "plot_linreg x_train x_test y_train y_test predictions =
     (let full_x_list = x_train @ x_test;
          training = \<lparr>trace_x = x_train, trace_y = y_train, trace_text = [],
                      trace_name = ''Training Data'', trace_color = ''green''\<rparr>;
          actual = \<lparr>trace_x = x_test, trace_y = y_test, trace_text = [],
                    trace_name = ''Testing Data'', trace_color = ''red''\<rparr>;
          prediction = \<lparr>trace_x = full_x_list, trace_y = predictions, trace_text = [],
                        trace_name = ''Model'', trace_color = ''blue''\<rparr>
      in (training, actual, prediction))"

section \<open>Aggregate errors\<close>

subsection \<open>Linear regression: the \<open>regression\<close> function\<close>

text \<open>
  scikit-learn's \<open>LinearRegression\<close> with one feature: ordinary least squares with an
  intercept. The slope is the covariance over the variance of \<open>x\<close> (zero when \<open>x\<close> is
  constant: the least-squares solution of least norm), the intercept makes the line pass
  through the means.
\<close>

definition mean_list :: "real list \<Rightarrow> real" where
  "mean_list xs = sum_list xs / real (length xs)"

record linear_model =
  coef :: real
  intercept :: real

definition ols_fit :: "real list \<Rightarrow> real list \<Rightarrow> linear_model" where
  "ols_fit xs ys =
     (let mx = mean_list xs; my = mean_list ys;
          sxy = sum_list (map2 (\<lambda>x y. (x - mx) * (y - my)) xs ys);
          sxx = sum_list (map (\<lambda>x. (x - mx) * (x - mx)) xs);
          slope = (if sxx = 0 then 0 else sxy / sxx)
      in \<lparr>coef = slope, intercept = my - slope * mx\<rparr>)"

definition linear_predict :: "linear_model \<Rightarrow> real list \<Rightarrow> real list" where
  "linear_predict m xs = map (\<lambda>x. coef m * x + intercept m) xs"

text \<open>\<open>sklearn.metrics.mean_squared_error\<close> and the mean absolute error.\<close>

definition mean_squared_error :: "real list \<Rightarrow> real list \<Rightarrow> real" where
  "mean_squared_error y_true y_pred = mean_list (map2 (\<lambda>t p. (t - p) * (t - p)) y_true y_pred)"

definition mean_absolute_error :: "real list \<Rightarrow> real list \<Rightarrow> real" where
  "mean_absolute_error y_true y_pred = mean_list (map2 (\<lambda>t p. \<bar>t - p\<bar>) y_true y_pred)"

text \<open>
  scikit-learn refuses an array that holds NaN or an infinity, an empty training set, and
  \<open>x\<close> and \<open>y\<close> of different lengths, with a \<open>ValueError\<close>.
\<close>

fun finite_values :: "fval list \<Rightarrow> error + real list" where
  "finite_values [] = Inr []"
| "finite_values (Fin r # xs) = (case finite_values xs of Inl e \<Rightarrow> Inl e | Inr rs \<Rightarrow> Inr (r # rs))"
| "finite_values (x # xs) = Inl ValueError"

text \<open>
  What \<open>regression(x_train, x_test, y_train, y_test)\<close> prints and returns: the fitted
  line, the mean squared error of the predictions over the training rows followed by the
  testing rows, and the predictions themselves. (It also prints the variance score of the
  same predictions, which is left out here.)
\<close>

record regression_report =
  printed_equation :: linear_model
  printed_mean_squared_error :: real
  returned_predictions :: "real list"

definition regression :: "fval list \<Rightarrow> fval list \<Rightarrow> fval list \<Rightarrow> fval list \<Rightarrow> error + regression_report" where
  "regression x_train x_test y_train y_test =
     (case finite_values x_train of Inl e \<Rightarrow> Inl e | Inr xtr \<Rightarrow>
      case finite_values y_train of Inl e \<Rightarrow> Inl e | Inr ytr \<Rightarrow>
      if xtr = [] \<or> length xtr \<noteq> length ytr then Inl ValueError
      else
        (let model = ols_fit xtr ytr in
         case finite_values (x_train @ x_test) of Inl e \<Rightarrow> Inl e | Inr full_x \<Rightarrow>
         case finite_values (y_train @ y_test) of Inl e \<Rightarrow> Inl e | Inr full_y \<Rightarrow>
           (let predictions = linear_predict model full_x in
            if length full_y \<noteq> length predictions then Inl ValueError
            else Inr \<lparr>printed_equation = model,
                      printed_mean_squared_error = mean_squared_error full_y predictions,
                      returned_predictions = predictions\<rparr>)))"

subsection \<open>Neural networks: \<open>model.evaluate\<close>\<close>

text \<open>
  Keras computes the metrics named when the model was compiled. The regression notebook
  compiles with \<open>loss='mae', metrics=['mae']\<close>, so both entries of
  \<open>[loss, mae] = model.evaluate(...)\<close> are the mean, over the rows, of the absolute
  difference between prediction and label.
\<close>

definition keras_mae :: "(fval list \<Rightarrow> fval) \<Rightarrow> matrix \<Rightarrow> fval list \<Rightarrow> fval" where
  "keras_mae net values labels =
     np_mean (map2 (\<lambda>p t. fabs (fsub t p)) (predict net values) labels)"

text \<open>
  \<open>model.evaluate(values, labels)\<close> refuses features and labels of different row
  counts with a \<open>ValueError\<close>.
\<close>

definition evaluate_regression ::
  "(fval list \<Rightarrow> fval) \<Rightarrow> matrix \<Rightarrow> fval list \<Rightarrow> error + fval \<times> fval" where
  "evaluate_regression net values labels =
     (if length values \<noteq> length labels then Inl ValueError
      else Inr (keras_mae net values labels, keras_mae net values labels))"

text \<open>
  The order of floats: NaN compares false with everything. \<open>argmax\<close> is the index of the
  first greatest entry, a NaN counting as greatest (as \<open>np.argmax\<close> does); it is 0 for
  an empty row, which no notebook evaluates.
\<close>

fun fless :: "fval \<Rightarrow> fval \<Rightarrow> bool" where
  "fless NaN y = False"
| "fless x NaN = False"
| "fless (Fin a) (Fin b) = (a < b)"
| "fless (Fin a) PInf = True"
| "fless (Fin a) NInf = False"
| "fless PInf y = False"
| "fless NInf NInf = False"
| "fless NInf y = True"

fun argmax_scan :: "nat \<Rightarrow> fval \<Rightarrow> nat \<Rightarrow> fval list \<Rightarrow> nat" where
  "argmax_scan best bv i [] = best"
| "argmax_scan best bv i (v # vs) =
     (if bv \<noteq> NaN \<and> (v = NaN \<or> fless bv v) then argmax_scan i v (Suc i) vs
      else argmax_scan best bv (Suc i) vs)"

definition argmax :: "fval list \<Rightarrow> nat" where
  "argmax xs = (case xs of [] \<Rightarrow> 0 | v # vs \<Rightarrow> argmax_scan 0 v 1 vs)"

text \<open>
  The classification notebook compiles with \<open>metrics=['accuracy']\<close> and one-hot labels:
  the accuracy is the mean, over the rows, of 1 where the arg-max of the predicted scores
  is the arg-max of the label row, and of 0 elsewhere. \<open>loss, acc = model.evaluate(...)\<close>;
  the loss (the categorical cross-entropy) is not modelled.
\<close>

definition keras_accuracy :: "(fval list \<Rightarrow> fval list) \<Rightarrow> matrix \<Rightarrow> int list list \<Rightarrow> fval" where
  "keras_accuracy net values labels =
     np_mean (map2 (\<lambda>p t. if argmax p = argmax (map (\<lambda>z. Fin (real_of_int z)) t) then Fin 1 else Fin 0)
                (predict net values) labels)"

text \<open>The accuracy that \<open>model.evaluate\<close> returns in the classification notebook.\<close>

definition evaluate_classification ::
  "(fval list \<Rightarrow> fval list) \<Rightarrow> matrix \<Rightarrow> int list list \<Rightarrow> error + fval" where
  "evaluate_classification net values labels =
     (if length values \<noteq> length labels then Inl ValueError
      else Inr (keras_accuracy net values labels))"

section \<open>Training the networks\<close>

text \<open>
  The training loop is Keras' \<open>Model.fit\<close>, outside the repository; the notebooks only
  choose its arguments and supply one callback. What follows is the contract of
  \<open>fit(x, y, batch_size, epochs, validation_split, shuffle, callbacks)\<close> for array
  inputs, as far as the notebooks use it:
  \<^item> the last \<open>validation_split\<close> fraction of the rows is set apart before any shuffling:
    the rows before \<open>split_at = floor(n * (1 - validation_split))\<close> are trained on, the
    others are only evaluated after every epoch; \<open>split_at = 0\<close> or \<open>split_at = n\<close>
    is a \<open>ValueError\<close>;
  \<^item> in every epoch the rows to train on are put in that epoch's order (their own order
    with \<open>shuffle=False\<close>), cut into batches of \<open>batch_size\<close> rows, and the weights
    are updated once per batch;
  \<^item> after every epoch the epoch is recorded in the history, with the metric of the
    rows set apart, and the callbacks run; the loop ends after \<open>epochs\<close> epochs, or
    earlier when a callback has set \<open>stop_training\<close>.
  The network and its optimizer are opaque: \<open>step\<close> is one update of the weights on a
  batch, \<open>val_metric\<close> the evaluation of the rows set apart.
\<close>

record ('m, 'l, 'v) fit_state =
  weights :: 'm
  stop_training :: bool
  stdout :: "nat list"
  history_epoch :: "nat list"
  history_val :: "'v list"
  update_log :: "(nat \<times> matrix \<times> 'l list) list"

definition validation_split_at :: "real \<Rightarrow> nat \<Rightarrow> nat" where
  "validation_split_at validation_split n = nat \<lfloor>real n * (1 - validation_split)\<rfloor>"

text \<open>Batches of \<open>batch_size\<close> rows (positive in the notebooks), the last one shorter.\<close>

definition make_batches :: "nat \<Rightarrow> 'a list \<Rightarrow> 'a list list" where
  "make_batches batch_size xs =
     map (\<lambda>k. take batch_size (drop (k * batch_size) xs))
       [0..<(length xs + batch_size - 1) div batch_size]"

text \<open>One epoch of updates: every batch in turn, each recorded in the update log.\<close>

definition run_batches ::
  "('m \<Rightarrow> matrix \<Rightarrow> 'l list \<Rightarrow> 'm) \<Rightarrow> nat \<Rightarrow> (matrix \<times> 'l list) list
     \<Rightarrow> ('m, 'l, 'v) fit_state \<Rightarrow> ('m, 'l, 'v) fit_state" where
  "run_batches step epoch batches st =
     foldl (\<lambda>s (b_x, b_y). s\<lparr>weights := step (weights s) b_x b_y,
                              update_log := update_log s @ [(epoch, b_x, b_y)]\<rparr>) st batches"

fun fit_loop ::
  "('m \<Rightarrow> matrix \<Rightarrow> 'l list \<Rightarrow> 'm) \<Rightarrow> ('m \<Rightarrow> matrix \<Rightarrow> 'l list \<Rightarrow> 'v)
     \<Rightarrow> (nat \<Rightarrow> nat list) \<Rightarrow> nat
     \<Rightarrow> (nat \<Rightarrow> ('m, 'l, 'v) fit_state \<Rightarrow> ('m, 'l, 'v) fit_state) list
     \<Rightarrow> matrix \<Rightarrow> 'l list \<Rightarrow> matrix \<Rightarrow> 'l list
     \<Rightarrow> nat \<Rightarrow> nat \<Rightarrow> ('m, 'l, 'v) fit_state \<Rightarrow> ('m, 'l, 'v) fit_state" where
  "fit_loop step val_metric order batch_size callbacks x y x_val y_val epoch 0 st = st"
| "fit_loop step val_metric order batch_size callbacks x y x_val y_val epoch (Suc remaining) st =
     (let xs = map (\<lambda>i. x ! i) (order epoch);
          ys = map (\<lambda>i. y ! i) (order epoch);
          st1 = run_batches step epoch (zip (make_batches batch_size xs) (make_batches batch_size ys)) st;
          st2 = st1\<lparr>history_epoch := history_epoch st1 @ [epoch],
                    history_val := history_val st1 @ [val_metric (weights st1) x_val y_val]\<rparr>;
          st3 = foldl (\<lambda>s callback. callback epoch s) st2 callbacks
      in if stop_training st3 then st3
         else fit_loop step val_metric order batch_size callbacks x y x_val y_val (Suc epoch) remaining st3)"

definition fit ::
  "('m \<Rightarrow> matrix \<Rightarrow> 'l list \<Rightarrow> 'm) \<Rightarrow> ('m \<Rightarrow> matrix \<Rightarrow> 'l list \<Rightarrow> 'v) \<Rightarrow> 'm
     \<Rightarrow> matrix \<Rightarrow> 'l list \<Rightarrow> nat \<Rightarrow> nat \<Rightarrow> real \<Rightarrow> (nat \<Rightarrow> nat list)
     \<Rightarrow> (nat \<Rightarrow> ('m, 'l, 'v) fit_state \<Rightarrow> ('m, 'l, 'v) fit_state) list
     \<Rightarrow> error + ('m, 'l, 'v) fit_state" where
  "fit step val_metric w0 x y batch_size epochs validation_split order callbacks =
     (let split_at = validation_split_at validation_split (length x) in
      if length x \<noteq> length y \<or> split_at = 0 \<or> split_at = length x then Inl ValueError
      else Inr (fit_loop step val_metric order batch_size callbacks
                  (take split_at x) (take split_at y) (drop split_at x) (drop split_at y)
                  0 epochs
                  \<lparr>weights = w0, stop_training = False, stdout = [], history_epoch = [],
                   history_val = [], update_log = []\<rparr>))"

text \<open>
  The callback of the notebooks:
  \<^verbatim>\<open>def on_epoch_end(self, epoch, logs): sys.stdout.write("Current Epoch: " + str(epoch+1) + ...)\<close>.
  It writes the number of the epoch (and, in the regression notebook, the training loss)
  and touches nothing else; the written line is kept here as its epoch number.
\<close>

definition PrintEpNum :: "nat \<Rightarrow> ('m, 'l, 'v) fit_state \<Rightarrow> ('m, 'l, 'v) fit_state" where
  "PrintEpNum epoch st = st\<lparr>stdout := stdout st @ [epoch + 1]\<rparr>"

text \<open>
  The training cell of the regression notebook:
  \<^verbatim>\<open>model.fit(train_values, train_labels, batch_size=train_values.shape[0], epochs=EPOCHS, shuffle=False, validation_split=0.1, callbacks=[PrintEpNum()])\<close>
  with \<open>EPOCHS = 2000\<close>.
\<close>

definition train_regression ::
  "('m \<Rightarrow> matrix \<Rightarrow> fval list \<Rightarrow> 'm) \<Rightarrow> ('m \<Rightarrow> matrix \<Rightarrow> fval list \<Rightarrow> 'v) \<Rightarrow> 'm
     \<Rightarrow> matrix \<Rightarrow> fval list \<Rightarrow> error + ('m, fval, 'v) fit_state" where
  "train_regression step val_metric w0 train_values train_labels =
     fit step val_metric w0 train_values train_labels (length train_values) 2000 (1 / 10)
       (\<lambda>epoch. [0..<validation_split_at (1 / 10) (length train_values)]) [PrintEpNum]"

text \<open>
  The training cell of the classification notebook: \<open>EPOCHS = 300\<close>, and no
  \<open>shuffle\<close> argument, so that Keras reorders the rows to train on in every epoch;
  \<open>shuffled epoch\<close> is that epoch's order, a permutation of their positions.
\<close>

definition train_classification ::
  "('m \<Rightarrow> matrix \<Rightarrow> int list list \<Rightarrow> 'm) \<Rightarrow> ('m \<Rightarrow> matrix \<Rightarrow> int list list \<Rightarrow> 'v) \<Rightarrow> 'm
     \<Rightarrow> (nat \<Rightarrow> nat list) \<Rightarrow> matrix \<Rightarrow> int list list \<Rightarrow> error + ('m, int list, 'v) fit_state" where
  "train_classification step val_metric w0 shuffled train_values train_labels =
     fit step val_metric w0 train_values train_labels (length train_values) 300 (1 / 10)
       shuffled [PrintEpNum]"

section \<open>Properties of the partition\<close>

lemma slice_to_nat: "slice_to xs (int k) = take k xs"
  by (simp add: slice_to_def slice_bound_def)

lemma slice_from_neg:
  assumes "0 < k"
  shows "slice_from xs (- int k) = drop (length xs - k) xs"
proof -
  have "nat (int (length xs) - int k) = length xs - k" by simp
  with assms show ?thesis by (simp add: slice_from_def slice_bound_def)
qed

lemma slice_from_zero: "slice_from xs (- int 0) = xs"
  by (simp add: slice_from_def slice_bound_def)

lemma fst_partition_rows: "fst (partition_rows a b xs) = take a xs"
  by (simp add: partition_rows_def slice_to_nat)

text \<open>
  Claim C3, as amended. For all counts with \<open>training_count + testing_count \<le> row_count\<close>
  and \<open>testing_count \<ge> 1\<close>, the training partition is the first
  \<open>training_count\<close> rows, the testing partition is the last \<open>testing_count\<close> rows,
  they have exactly that many rows, and no row index is in both. The same slices applied to
  the index list \<open>[0..<row_count]\<close> give the row indices of each partition. The literal
  counts of the notebooks (44 and 5 of 49 rows, 40 and 7 of 47, 45 and 6 of 51) are instances.
\<close>

theorem partition_rows_prefix_suffix:
  assumes le: "training_count + testing_count \<le> length all_rows"
    and pos: "0 < testing_count"
  shows "fst (partition_rows training_count testing_count all_rows) = take training_count all_rows
    \<and> snd (partition_rows training_count testing_count all_rows)
        = drop (length all_rows - testing_count) all_rows
    \<and> length (fst (partition_rows training_count testing_count all_rows)) = training_count
    \<and> length (snd (partition_rows training_count testing_count all_rows)) = testing_count
    \<and> fst (partition_rows training_count testing_count [0..<length all_rows]) = [0..<training_count]
    \<and> snd (partition_rows training_count testing_count [0..<length all_rows])
        = [length all_rows - testing_count..<length all_rows]
    \<and> set (fst (partition_rows training_count testing_count [0..<length all_rows]))
        \<inter> set (snd (partition_rows training_count testing_count [0..<length all_rows])) = {}"
proof -
  let ?n = "length all_rows"
  have tr: "\<And>xs::'b list. fst (partition_rows training_count testing_count xs) = take training_count xs"
    by (simp add: partition_rows_def slice_to_nat)
  have te: "\<And>xs::'b list. snd (partition_rows training_count testing_count xs) = drop (length xs - testing_count) xs"
    using pos by (simp add: partition_rows_def slice_from_neg)
  have tr': "\<And>xs::nat list. fst (partition_rows training_count testing_count xs) = take training_count xs"
    by (simp add: partition_rows_def slice_to_nat)
  have te': "\<And>xs::nat list. snd (partition_rows training_count testing_count xs) = drop (length xs - testing_count) xs"
    using pos by (simp add: partition_rows_def slice_from_neg)
  have i1: "take training_count [0..<?n] = [0..<training_count]"
    using le by (simp add: take_upt)
  have i2: "drop (?n - testing_count) [0..<?n] = [?n - testing_count..<?n]"
    by (simp add: drop_upt)
  have disj: "set [0..<training_count] \<inter> set [?n - testing_count..<?n] = {}"
    using le by auto
  show ?thesis
    using le by (simp add: tr te tr' te' i1 i2 disj del: set_upt)
qed

theorem partition_rows_witness:
  "partition_rows 2 1 [10, 20, 30, 40 :: nat] = ([10, 20], [40])
   \<and> set (fst (partition_rows 2 1 [0..<length [10, 20, 30, 40 :: nat]]))
       \<inter> set (snd (partition_rows 2 1 [0..<length [10, 20, 30, 40 :: nat]])) = {}"
proof -
  have le: "2 + 1 \<le> length [10, 20, 30, 40 :: nat]" by simp
  have pos: "(0::nat) < 1" by simp
  from partition_rows_prefix_suffix[OF le pos]
  show ?thesis by (simp add: prod_eq_iff)
qed

text \<open>
  Claim C3 as stated also covers \<open>testing_count = 0\<close>. There the slice
  \<open>all[-0:]\<close> is \<open>all[0:]\<close>, the whole array: the testing partition has
  \<open>row_count\<close> rows, not none, and shares row 0 with the training partition.
\<close>

theorem partition_rows_zero_testing_count_counterexample:
  "1 + 0 \<le> length [10, 20 :: nat]
   \<and> partition_rows 1 0 [10, 20 :: nat] = ([10], [10, 20])
   \<and> length (snd (partition_rows 1 0 [10, 20 :: nat])) \<noteq> 0
   \<and> set (fst (partition_rows 1 0 [0..<length [10, 20 :: nat]]))
       \<inter> set (snd (partition_rows 1 0 [0..<length [10, 20 :: nat]])) = {0}"
  by (simp add: partition_rows_def slice_to_def slice_from_def slice_bound_def)

section \<open>Properties of the float operations and of NumPy's statistics\<close>















subsection \<open>The standard score over the reals\<close>





section \<open>Properties of the normalization\<close>

lemma length_axis0: "length (axis0 f ncols rows) = ncols"
  by (simp add: axis0_def)

lemma axis0_nth: "j < ncols \<Longrightarrow> axis0 f ncols rows ! j = f (column rows j)"
  by (simp add: axis0_def)

lemma scale_row_nth:
  assumes "length mean = k" "length std = k" "length row = k" "j < k"
  shows "scale_row mean std row ! j = fdiv (fsub (row ! j) (mean ! j)) (std ! j)"
  using assms by (simp add: scale_row_def)

lemma length_input_scaling: "length (input_scaling mean std values) = length values"
  by (simp add: input_scaling_def)

lemma input_scaling_nth:
  assumes "length mean = k" "length std = k" "i < length values" "length (values ! i) = k" "j < k"
  shows "input_scaling mean std values ! i ! j = fdiv (fsub (values ! i ! j) (mean ! j)) (std ! j)"
  using assms by (simp add: input_scaling_def scale_row_nth)


lemma normalize_regression_nth:
  assumes "\<forall>row\<in>set train. length row = k" "\<forall>row\<in>set test. length row = k" "j < k"
  shows "(\<forall>i<length train. fst (normalize_regression k train test) ! i ! j
            = fdiv (fsub (train ! i ! j) (np_mean (column train j))) (np_std (column train j)))
       \<and> (\<forall>i<length test. snd (normalize_regression k train test) ! i ! j
            = fdiv (fsub (test ! i ! j) (np_mean (column train j))) (np_std (column train j)))"
  using assms
  by (simp add: normalize_regression_def Let_def input_scaling_nth[where k = k] length_axis0 axis0_nth)

lemma normalize_classification_nth:
  assumes "\<forall>row\<in>set train. length row = k" "\<forall>row\<in>set test. length row = k" "j < k"
  shows "(\<forall>i<length train. fst (normalize_classification k train test) ! i ! j
            = fdiv (fsub (train ! i ! j) (np_nanmean (column train j))) (np_nanstd (column train j)))
       \<and> (\<forall>i<length test. snd (normalize_classification k train test) ! i ! j
            = fdiv (fsub (test ! i ! j) (np_nanmean (column train j))) (np_nanstd (column train j)))"
  using assms
  by (simp add: normalize_classification_def Let_def input_scaling_nth[where k = k] length_axis0 axis0_nth)

subsection \<open>Constant columns in exact arithmetic\<close>

text \<open>
  Without rounding, the standard deviation of a constant column is zero (NaN when the
  constant is not a finite number or the column is empty).
\<close>

lemma fsum_replicate_Fin: "fsum (replicate n (Fin r)) = Fin (real n * r)"
  by (induction n) (simp_all add: algebra_simps)

lemma fsum_replicate_NaN: "0 < n \<Longrightarrow> fsum (replicate n NaN) = NaN"
  by (cases n) simp_all

lemma fsum_replicate_Suc_PInf: "fsum (replicate (Suc n) PInf) = PInf"
  by (induction n) simp_all

lemma fsum_replicate_PInf: "0 < n \<Longrightarrow> fsum (replicate n PInf) = PInf"
  using fsum_replicate_Suc_PInf[of "n - 1"] by simp

lemma fsum_replicate_Suc_NInf: "fsum (replicate (Suc n) NInf) = NInf"
  by (induction n) simp_all

lemma fsum_replicate_NInf: "0 < n \<Longrightarrow> fsum (replicate n NInf) = NInf"
  using fsum_replicate_Suc_NInf[of "n - 1"] by simp

lemma np_std_replicate: "np_std (replicate n c) = Fin 0 \<or> np_std (replicate n c) = NaN"
proof (cases "n = 0")
  case True
  then show ?thesis by (simp add: np_std_def np_mean_def)
next
  case False
  then have n: "0 < n" by simp
  show ?thesis
  proof (cases c)
    case (Fin r)
    with n have "np_mean (replicate n c) = Fin r"
      by (simp add: np_mean_def fsum_replicate_Fin)
    with n Fin show ?thesis
      by (simp add: np_std_def Let_def fsub_def np_mean_def fsum_replicate_Fin)
  next
    case PInf
    with n have "np_mean (replicate n c) = PInf"
      by (simp add: np_mean_def fsum_replicate_PInf)
    with n PInf show ?thesis
      by (simp add: np_std_def Let_def fsub_def np_mean_def fsum_replicate_NaN)
  next
    case NInf
    with n have "np_mean (replicate n c) = NInf"
      by (simp add: np_mean_def fsum_replicate_NInf)
    with n NInf show ?thesis
      by (simp add: np_std_def Let_def fsub_def np_mean_def fsum_replicate_NaN)
  next
    case NaN
    with n have "np_mean (replicate n c) = NaN"
      by (simp add: np_mean_def fsum_replicate_NaN)
    with n NaN show ?thesis
      by (simp add: np_std_def Let_def fsub_def np_mean_def fsum_replicate_NaN)
  qed
qed

lemma constant_replicate: "(\<forall>x\<in>set xs. x = c) \<Longrightarrow> xs = replicate (length xs) c"
  by (induction xs) simp_all

lemma np_std_constant:
  assumes "\<forall>x\<in>set xs. x = c"
  shows "np_std xs = Fin 0 \<or> np_std xs = NaN"
proof -
  from assms have "xs = replicate (length xs) c" by (rule constant_replicate)
  then show ?thesis using np_std_replicate[of "length xs" c] by simp
qed

lemma np_nanstd_constant:
  assumes "\<forall>x\<in>set xs. x = c"
  shows "np_nanstd xs = Fin 0 \<or> np_nanstd xs = NaN"
proof -
  from assms have "\<forall>x\<in>set (filter (\<lambda>x. x \<noteq> NaN) xs). x = c" by simp
  then show ?thesis unfolding np_nanstd_def by (rule np_std_constant)
qed

lemma fdiv_zero_not_finite: "\<not> is_finite (fdiv y (Fin 0))"
  by (cases y) simp_all

lemma fdiv_NaN_not_finite: "\<not> is_finite (fdiv y NaN)"
  by (cases y) simp_all

lemma fdiv_degenerate: "s = Fin 0 \<or> s = NaN \<Longrightarrow> \<not> is_finite (fdiv y s)"
  using fdiv_zero_not_finite fdiv_NaN_not_finite by auto

text \<open>
  Claim C1. In both normalization cells (\<open>np.mean\<close>/\<open>np.std\<close> and
  \<open>np.nanmean\<close>/\<open>np.nanstd\<close>) the training partition is the first
  \<open>training_count\<close> rows, and every entry of column \<open>j\<close> of the normalized
  training features and of the normalized testing features is \<open>(x - mean) / std\<close>, where
  \<open>mean\<close> and \<open>std\<close> are the statistics of column \<open>j\<close> of the training rows
  alone: no row outside the training partition enters them.
\<close>

theorem normalization_uses_training_statistics:
  assumes rows: "\<forall>row\<in>set all_values. length row = ncols" and j: "j < ncols"
  shows "fst (partition_rows training_count testing_count all_values) = take training_count all_values
    \<and> (\<forall>i<length (fst (partition_rows training_count testing_count all_values)).
          fst (sets_and_normalization_regression training_count testing_count ncols all_values) ! i ! j
          = fdiv (fsub (fst (partition_rows training_count testing_count all_values) ! i ! j)
                       (np_mean (column (take training_count all_values) j)))
                 (np_std (column (take training_count all_values) j)))
    \<and> (\<forall>i<length (snd (partition_rows training_count testing_count all_values)).
          snd (sets_and_normalization_regression training_count testing_count ncols all_values) ! i ! j
          = fdiv (fsub (snd (partition_rows training_count testing_count all_values) ! i ! j)
                       (np_mean (column (take training_count all_values) j)))
                 (np_std (column (take training_count all_values) j)))
    \<and> (\<forall>i<length (fst (partition_rows training_count testing_count all_values)).
          fst (sets_and_normalization_classification training_count testing_count ncols all_values) ! i ! j
          = fdiv (fsub (fst (partition_rows training_count testing_count all_values) ! i ! j)
                       (np_nanmean (column (take training_count all_values) j)))
                 (np_nanstd (column (take training_count all_values) j)))
    \<and> (\<forall>i<length (snd (partition_rows training_count testing_count all_values)).
          snd (sets_and_normalization_classification training_count testing_count ncols all_values) ! i ! j
          = fdiv (fsub (snd (partition_rows training_count testing_count all_values) ! i ! j)
                       (np_nanmean (column (take training_count all_values) j)))
                 (np_nanstd (column (take training_count all_values) j)))"
proof -
  let ?p = "partition_rows training_count testing_count all_values"
  have tr: "fst ?p = take training_count all_values" by (rule fst_partition_rows)
  have "set (fst ?p) \<subseteq> set all_values"
    unfolding tr by (rule set_take_subset)
  with rows have r1: "\<forall>row\<in>set (fst ?p). length row = ncols" by blast
  have "set (snd ?p) \<subseteq> set all_values"
    by (simp add: partition_rows_def slice_from_def set_drop_subset)
  with rows have r2: "\<forall>row\<in>set (snd ?p). length row = ncols" by blast
  have reg: "sets_and_normalization_regression training_count testing_count ncols all_values
      = normalize_regression ncols (fst ?p) (snd ?p)"
    by (simp add: sets_and_normalization_regression_def split_beta)
  have cls: "sets_and_normalization_classification training_count testing_count ncols all_values
      = normalize_classification ncols (fst ?p) (snd ?p)"
    by (simp add: sets_and_normalization_classification_def split_beta)
  note a = normalize_regression_nth[OF r1 r2 j, unfolded tr]
  note b = normalize_classification_nth[OF r1 r2 j, unfolded tr]
  show ?thesis
    unfolding reg cls using a b by (simp add: tr)
qed

theorem normalization_uses_training_statistics_witness:
  "sets_and_normalization_regression 2 1 2 [[Fin 1, Fin 10], [Fin 3, Fin 14], [Fin 5, Fin 16]]
     = ([[Fin (- 1), Fin (- 1)], [Fin 1, Fin 1]], [[Fin 3, Fin 2]])
   \<and> snd (sets_and_normalization_regression 2 1 2 [[Fin 1, Fin 10], [Fin 3, Fin 14], [Fin 5, Fin 16]]) ! 0 ! 1
     = fdiv (fsub (Fin 16) (np_mean [Fin 10, Fin 14])) (np_std [Fin 10, Fin 14])"
proof -
  let ?A = "[[Fin 1, Fin 10], [Fin 3, Fin 14], [Fin 5, Fin 16]]"
  have rows: "\<forall>row\<in>set ?A. length row = 2" by simp
  have j: "(1::nat) < 2" by simp
  have p: "partition_rows 2 1 ?A = ([[Fin 1, Fin 10], [Fin 3, Fin 14]], [[Fin 5, Fin 16]])"
    by (simp add: partition_rows_def slice_to_def slice_from_def slice_bound_def)
  have n: "normalize_regression 2 [[Fin 1, Fin 10], [Fin 3, Fin 14]] [[Fin 5, Fin 16]]
     = ([[Fin (- 1), Fin (- 1)], [Fin 1, Fin 1]], [[Fin 3, Fin 2]])"
    by (simp add: normalize_regression_def axis0_def
        column_def np_std_def np_mean_def fsub_def input_scaling_def scale_row_def numeral_2_eq_2)
  have out: "sets_and_normalization_regression 2 1 2 ?A
     = ([[Fin (- 1), Fin (- 1)], [Fin 1, Fin 1]], [[Fin 3, Fin 2]])"
    unfolding sets_and_normalization_regression_def p by (simp add: n)
  from normalization_uses_training_statistics[OF rows j, of 2 1]
  have "snd (sets_and_normalization_regression 2 1 2 ?A) ! 0 ! 1
     = fdiv (fsub (Fin 16) (np_mean (column (take 2 ?A) 1))) (np_std (column (take 2 ?A) 1))"
    unfolding p by simp
  with out show ?thesis by (simp add: column_def)
qed

subsection \<open>Mean 0 and standard deviation 1\<close>






section \<open>Properties of the binary64 rounding\<close>

lemma pow2_powi: "pow2 e = 2 powi e"
  by (simp add: pow2_def power_int_def power_inverse inverse_eq_divide power_one_over)

lemma pow2_pos: "0 < pow2 e"
  by (simp add: pow2_powi zero_less_power_int)

lemma pow2_add: "pow2 (a + b) = pow2 a * pow2 b"
  by (simp add: pow2_powi power_int_add)

lemma pow2_less: "a < b \<Longrightarrow> pow2 a < pow2 b"
  by (simp add: pow2_powi power_int_strict_increasing)

lemma pow2_le: "a \<le> b \<Longrightarrow> pow2 a \<le> pow2 b"
  using pow2_less[of a b] by (cases "a = b") auto

lemma pow2_nat: "pow2 (int n) = 2 ^ n"
  by (simp add: pow2_def)

lemma pow2_neg_nat: "pow2 (- int n) = 1 / 2 ^ n"
  by (cases "n = 0") (simp_all add: pow2_def)

text \<open>
  \<open>ilog2\<close> is the binary exponent: \<open>2^(ilog2 x) \<le> |x| < 2^(ilog2 x + 1)\<close>, and no
  other integer satisfies this.
\<close>

lemma bit_length_pos: "0 < n \<Longrightarrow> bit_length n = Suc (bit_length (n div 2))"
  by (subst bit_length.simps) simp

lemma bit_length_bounds: "0 < n \<Longrightarrow> 2 ^ (bit_length n - 1) \<le> n \<and> n < 2 ^ bit_length n"
proof (induction n rule: bit_length.induct)
  case (1 n)
  show ?case
  proof (cases "n div 2 = 0")
    case True
    with 1(2) have n: "n = 1" by (cases n) auto
    have "bit_length (Suc 0) = Suc (bit_length 0)" using bit_length_pos[of "Suc 0"] by simp
    also have "bit_length 0 = 0" by (subst bit_length.simps) simp
    finally show ?thesis using n by simp
  next
    case False
    then have k: "0 < n div 2" by simp
    with 1 have IH: "2 ^ (bit_length (n div 2) - 1) \<le> n div 2"
      "n div 2 < 2 ^ bit_length (n div 2)" by simp_all
    have b: "bit_length n = Suc (bit_length (n div 2))" using 1(2) by (rule bit_length_pos)
    have p: "0 < bit_length (n div 2)" using bit_length_pos[OF k] by simp
    then have "(2::nat) ^ bit_length (n div 2) = 2 * 2 ^ (bit_length (n div 2) - 1)"
      by (cases "bit_length (n div 2)") simp_all
    with IH(1) have lo: "2 ^ bit_length (n div 2) \<le> n" by arith
    from IH(2) have hi: "n < 2 * 2 ^ bit_length (n div 2)" by arith
    show ?thesis unfolding b using lo hi by simp
  qed
qed

lemma bit_length_bounds_real:
  assumes "0 < n"
  shows "2 ^ (bit_length n - 1) \<le> real n" "real n + 1 \<le> 2 ^ bit_length n"
proof -
  note bb = bit_length_bounds[OF assms]
  from bb have "real (2 ^ (bit_length n - 1)) \<le> real n" by (intro of_nat_mono) simp
  then show "2 ^ (bit_length n - 1) \<le> real n" by simp
  from bb have "real (n + 1) \<le> real (2 ^ bit_length n)" by (intro of_nat_mono) simp
  then show "real n + 1 \<le> 2 ^ bit_length n" by simp
qed

lemma ilog2_bounds:
  assumes "x \<noteq> 0"
  shows "pow2 (ilog2 x) \<le> \<bar>x\<bar> \<and> \<bar>x\<bar> < pow2 (ilog2 x + 1)"
proof (cases "1 \<le> \<bar>x\<bar>")
  case True
  define n where "n = nat \<lfloor>\<bar>x\<bar>\<rfloor>"
  have n1: "0 < n" using True by (simp add: n_def)
  have fl: "real n \<le> \<bar>x\<bar>" "\<bar>x\<bar> < real n + 1"
    using True by (simp_all add: n_def)
  note bb = bit_length_bounds_real[OF n1]
  have bp: "0 < bit_length n" using bit_length_pos[OF n1] by simp
  have e: "ilog2 x = int (bit_length n - 1)"
    using True bp by (simp add: ilog2_def n_def)
  have e1: "ilog2 x + 1 = int (bit_length n)" using e bp by simp
  have lo: "pow2 (ilog2 x) \<le> \<bar>x\<bar>" unfolding e pow2_nat using fl bb by linarith
  have hi: "\<bar>x\<bar> < pow2 (ilog2 x + 1)" unfolding e1 pow2_nat using fl bb by linarith
  from lo hi show ?thesis ..
next
  case False
  define y where "y = 1 / \<bar>x\<bar>"
  define n where "n = nat (\<lceil>y\<rceil> - 1)"
  have ax: "0 < \<bar>x\<bar>" "\<bar>x\<bar> < 1" using assms False by simp_all
  then have y1: "1 < y" by (simp add: y_def)
  then have c2: "2 \<le> \<lceil>y\<rceil>" by linarith
  then have n1: "0 < n" by (simp add: n_def)
  have cl: "real n < y" "y \<le> real n + 1"
    using c2 ceiling_correct[of y] by (simp_all add: n_def)
  note bb = bit_length_bounds_real[OF n1]
  have bp: "0 < bit_length n" using bit_length_pos[OF n1] by simp
  have e: "ilog2 x = - int (bit_length n)"
    using False by (simp add: ilog2_def n_def y_def)
  have e1: "ilog2 x + 1 = - int (bit_length n - 1)" using e bp by simp
  have xy: "\<bar>x\<bar> = 1 / y" using ax by (simp add: y_def)
  have "y \<le> 2 ^ bit_length n" using cl bb by linarith
  then have lo: "pow2 (ilog2 x) \<le> \<bar>x\<bar>"
    unfolding e pow2_neg_nat xy using y1 by (intro frac_le) simp_all
  have "2 ^ (bit_length n - 1) < y" using cl bb by linarith
  then have hi: "\<bar>x\<bar> < pow2 (ilog2 x + 1)"
    unfolding e1 pow2_neg_nat xy by (intro frac_less2) simp_all
  from lo hi show ?thesis ..
qed

lemma ilog2_eqI:
  assumes "pow2 E \<le> \<bar>x\<bar>" "\<bar>x\<bar> < pow2 (E + 1)"
  shows "ilog2 x = E"
proof -
  have "x \<noteq> 0" using assms(1) pow2_pos[of E] by auto
  note b = ilog2_bounds[OF this]
  have "\<not> ilog2 x < E"
  proof
    assume "ilog2 x < E"
    then have "pow2 (ilog2 x + 1) \<le> pow2 E" by (intro pow2_le) simp
    with b assms show False by simp
  qed
  moreover have "\<not> E < ilog2 x"
  proof
    assume "E < ilog2 x"
    then have "pow2 (E + 1) \<le> pow2 (ilog2 x)" by (intro pow2_le) simp
    with b assms show False by simp
  qed
  ultimately show ?thesis by simp
qed

text \<open>\<open>round_half_even\<close> gives a nearest integer.\<close>

lemma round_half_even_of_int: "round_half_even (real_of_int k) = k"
  by (simp add: round_half_even_def)

lemma round_half_even_near:
  assumes "\<bar>y - real_of_int n\<bar> < 1 / 2"
  shows "round_half_even y = n"
proof (cases "real_of_int n \<le> y")
  case True
  with assms have "\<lfloor>y\<rfloor> = n" by (intro floor_unique) simp_all
  with assms True show ?thesis by (simp add: round_half_even_def)
next
  case False
  with assms have f: "\<lfloor>y\<rfloor> = n - 1" by (intro floor_unique) simp_all
  with assms False show ?thesis by (simp add: round_half_even_def Let_def)
qed

lemma round_half_even_error: "\<bar>y - real_of_int (round_half_even y)\<bar> \<le> 1 / 2"
proof -
  have "real_of_int \<lfloor>y\<rfloor> \<le> y" "y < real_of_int \<lfloor>y\<rfloor> + 1" by linarith+
  then show ?thesis by (simp add: round_half_even_def Let_def)
qed

text \<open>
  Rounding leaves \<open>m * 2^e\<close> as it is when \<open>|m| < 2^53\<close>, \<open>-1074 \<le> e\<close> and
  the number is below \<open>2^1024\<close> in magnitude.
\<close>

lemma f64_zero: "f64 0 = Fin 0"
  by (simp add: f64_def)

lemma quantum_pos: "0 < quantum x"
  by (simp add: quantum_def pow2_pos)

lemma f64_exact:
  assumes m: "\<bar>m\<bar> < 2 ^ 53" and e: "- 1074 \<le> e"
    and r: "\<bar>real_of_int m * pow2 e\<bar> < 2 ^ 1024"
  shows "f64 (real_of_int m * pow2 e) = Fin (real_of_int m * pow2 e)"
proof (cases "m = 0")
  case True
  then show ?thesis by (simp add: f64_zero)
next
  case False
  define x where "x = real_of_int m * pow2 e"
  have x0: "x \<noteq> 0" using False pow2_pos[of e] by (simp add: x_def)
  note b = ilog2_bounds[OF x0]
  have "real_of_int \<bar>m\<bar> < real_of_int (2 ^ 53)" using m by (simp only: of_int_less_iff)
  then have "\<bar>real_of_int m\<bar> < pow2 53" by (simp add: pow2_def)
  then have "\<bar>x\<bar> < pow2 53 * pow2 e"
    using pow2_pos[of e] by (simp add: x_def abs_mult)
  then have "\<bar>x\<bar> < pow2 (e + 53)" by (simp add: pow2_add[symmetric] add.commute)
  with b have "pow2 (ilog2 x) < pow2 (e + 53)" by simp
  then have "ilog2 x < e + 53" using pow2_le[of "e + 53" "ilog2 x"] by (cases "ilog2 x < e + 53") auto
  with e have q: "max (ilog2 x - 52) (- 1074) \<le> e" by simp
  define q where "q = max (ilog2 x - 52) (- 1074)"
  define k where "k = nat (e - q)"
  have "e = q + int k" using q by (simp add: k_def q_def)
  then have pe: "pow2 e = pow2 q * 2 ^ k" by (simp add: pow2_add pow2_nat)
  have qx: "quantum x = pow2 q" by (simp add: quantum_def q_def)
  have "x / pow2 q = real_of_int (m * 2 ^ k)"
    using pow2_pos[of q] by (simp add: x_def pe)
  then have "round_half_even (x / quantum x) = m * 2 ^ k"
    unfolding qx by (simp only: round_half_even_of_int)
  then have "real_of_int (round_half_even (x / quantum x)) * quantum x = x"
    unfolding qx by (simp add: x_def pe)
  then have "f64 x = Fin x"
    using x0 r by (simp add: f64_def Let_def x_def[symmetric])
  then show ?thesis by (simp add: x_def)
qed

text \<open>
  The rounding is to a nearest binary64 number: the result is at most half a spacing away,
  and is a binary64 number itself.
\<close>

lemma f64_error:
  assumes "f64 x = Fin r"
  shows "\<bar>r - x\<bar> \<le> quantum x / 2"
proof (cases "x = 0")
  case True
  with assms show ?thesis using quantum_pos[of 0] by (simp add: f64_zero)
next
  case False
  define n where "n = round_half_even (x / quantum x)"
  from assms False have r: "r = real_of_int n * quantum x"
    by (simp add: f64_def Let_def n_def split: if_splits)
  have "\<bar>x / quantum x - real_of_int n\<bar> \<le> 1 / 2"
    unfolding n_def by (rule round_half_even_error)
  then have "\<bar>x / quantum x - real_of_int n\<bar> * quantum x \<le> 1 / 2 * quantum x"
    using quantum_pos[of x] by (intro mult_right_mono) simp_all
  moreover have "\<bar>x / quantum x - real_of_int n\<bar> * quantum x
      = \<bar>(x / quantum x - real_of_int n) * quantum x\<bar>"
    using quantum_pos[of x] by (simp add: abs_mult)
  moreover have "(x / quantum x - real_of_int n) * quantum x = x - real_of_int n * quantum x"
    using quantum_pos[of x] by (simp add: left_diff_distrib)
  ultimately show ?thesis unfolding r by (simp add: abs_minus_commute)
qed

lemma f64_idem:
  assumes "f64 x = Fin r"
  shows "f64 r = Fin r"
proof (cases "x = 0")
  case True
  with assms show ?thesis by (simp add: f64_zero)
next
  case False
  define q where "q = max (ilog2 x - 52) (- 1074)"
  define n where "n = round_half_even (x / pow2 q)"
  have qx: "quantum x = pow2 q" by (simp add: quantum_def q_def)
  from assms False have r: "r = real_of_int n * pow2 q" and fin: "\<bar>r\<bar> < 2 ^ 1024"
    by (simp_all add: f64_def Let_def n_def qx split: if_splits)
  have "\<bar>x\<bar> < pow2 (ilog2 x + 1)" using ilog2_bounds[OF False] by simp
  also have "\<dots> \<le> pow2 (q + 53)" by (intro pow2_le) (simp add: q_def)
  also have "\<dots> = pow2 q * 2 ^ 53" unfolding pow2_add by (simp add: pow2_def)
  finally have "\<bar>x\<bar> / pow2 q < 2 ^ 53" using pow2_pos[of q] by (simp add: field_simps)
  then have y: "\<bar>x / pow2 q\<bar> < 2 ^ 53" using pow2_pos[of q] by simp
  have "\<bar>x / pow2 q - real_of_int n\<bar> \<le> 1 / 2" unfolding n_def by (rule round_half_even_error)
  with y have "\<bar>real_of_int n\<bar> < 2 ^ 53 + 1" by linarith
  then have "real_of_int \<bar>n\<bar> < real_of_int (2 ^ 53 + 1)" by simp
  then have "\<bar>n\<bar> < 2 ^ 53 + 1" by (simp only: of_int_less_iff)
  then have nb: "\<bar>n\<bar> \<le> 2 ^ 53" by simp
  have q1: "- 1074 \<le> q" by (simp add: q_def)
  show ?thesis
  proof (cases "\<bar>n\<bar> < 2 ^ 53")
    case True
    from f64_exact[OF True q1] fin show ?thesis by (simp add: r)
  next
    case False
    with nb have "\<bar>n\<bar> = 2 ^ 53" by simp
    then have "n = 2 * 2 ^ 52 \<or> n = - (2 * 2 ^ 52)" by (simp add: abs_if split: if_splits)
    moreover have "pow2 (q + 1) = pow2 q * 2" unfolding pow2_add by (simp add: pow2_def)
    ultimately have r2: "r = real_of_int (n div 2) * pow2 (q + 1)" and m: "\<bar>n div 2\<bar> < 2 ^ 53"
      by (auto simp: r)
    from q1 have "- 1074 \<le> q + 1" by simp
    from f64_exact[OF m this] fin show ?thesis by (simp add: r2)
  qed
qed

lemma is_binary64_dyadic:
  assumes "\<bar>m\<bar> < 2 ^ 53" "- 1074 \<le> e" "\<bar>real_of_int m * pow2 e\<bar> < 2 ^ 1024"
  shows "is_binary64 (real_of_int m * pow2 e)"
  unfolding is_binary64_def using assms by (rule f64_exact)

lemma is_binary64_zero: "is_binary64 0"
  by (simp add: is_binary64_def f64_zero)

lemma is_binary64_f64: "f64 x = Fin r \<Longrightarrow> is_binary64 r"
  unfolding is_binary64_def by (rule f64_idem)

subsection \<open>The normalization in binary64\<close>

lemma rnd_not_finite: "\<not> is_finite v \<Longrightarrow> rnd v = v"
  by (cases v) simp_all

lemma fdiv64_degenerate: "s = Fin 0 \<or> s = NaN \<Longrightarrow> \<not> is_finite (fdiv64 y s)"
  unfolding fdiv64_def using fdiv_degenerate[of s y] by (simp add: rnd_not_finite)

lemma scale_row_f64_nth:
  assumes "length mean = k" "length std = k" "length row = k" "j < k"
  shows "scale_row_f64 mean std row ! j = fdiv64 (fsub64 (row ! j) (mean ! j)) (std ! j)"
  using assms by (simp add: scale_row_f64_def)

lemma input_scaling_f64_nth:
  assumes "length mean = k" "length std = k" "i < length values" "length (values ! i) = k" "j < k"
  shows "input_scaling_f64 mean std values ! i ! j
       = fdiv64 (fsub64 (values ! i ! j) (mean ! j)) (std ! j)"
  using assms by (simp add: input_scaling_f64_def scale_row_f64_nth)

lemma normalize_regression_f64_nth:
  assumes "\<forall>row\<in>set train. length row = k" "\<forall>row\<in>set test. length row = k" "j < k"
  shows "(\<forall>i<length train. fst (normalize_regression_f64 k train test) ! i ! j
            = fdiv64 (fsub64 (train ! i ! j) (np_mean_f64 (column train j))) (np_std_f64 (column train j)))
       \<and> (\<forall>i<length test. snd (normalize_regression_f64 k train test) ! i ! j
            = fdiv64 (fsub64 (test ! i ! j) (np_mean_f64 (column train j))) (np_std_f64 (column train j)))"
  using assms
  by (simp add: normalize_regression_f64_def Let_def input_scaling_f64_nth[where k = k]
      length_axis0 axis0_nth)

lemma normalize_classification_f64_nth:
  assumes "\<forall>row\<in>set train. length row = k" "\<forall>row\<in>set test. length row = k" "j < k"
  shows "(\<forall>i<length train. fst (normalize_classification_f64 k train test) ! i ! j
            = fdiv64 (fsub64 (train ! i ! j) (np_nanmean_f64 (column train j))) (np_nanstd_f64 (column train j)))
       \<and> (\<forall>i<length test. snd (normalize_classification_f64 k train test) ! i ! j
            = fdiv64 (fsub64 (test ! i ! j) (np_nanmean_f64 (column train j))) (np_nanstd_f64 (column train j)))"
  using assms
  by (simp add: normalize_classification_f64_def Let_def input_scaling_f64_nth[where k = k]
      length_axis0 axis0_nth)

subsection \<open>Constant columns\<close>

text \<open>
  The running sums of a constant column are exact when all the multiples of the constant
  that occur are binary64 numbers; then the mean is the constant and the standard deviation
  is zero.
\<close>

lemma fsum64_snoc: "fsum64 (xs @ [x]) = fadd64 (fsum64 xs) x"
  by (simp add: fsum64_def)

lemma fsum64_replicate:
  assumes "\<forall>k\<le>n. is_binary64 (real k * c)"
  shows "fsum64 (replicate n (Fin c)) = Fin (real n * c)"
  using assms
proof (induction n)
  case 0
  show ?case by (simp add: fsum64_def)
next
  case (Suc n)
  then have IH: "fsum64 (replicate n (Fin c)) = Fin (real n * c)" by simp
  from Suc.prems have "f64 (real (Suc n) * c) = Fin (real (Suc n) * c)"
    unfolding is_binary64_def by blast
  moreover have "real n * c + c = real (Suc n) * c" by (simp add: algebra_simps)
  moreover have "replicate (Suc n) (Fin c) = replicate n (Fin c) @ [Fin c]"
    by (simp add: replicate_append_same)
  ultimately show ?case by (simp only: fsum64_snoc IH fadd64_def fadd.simps rnd.simps)
qed

lemma np_mean_f64_replicate:
  assumes "\<forall>k\<le>n. is_binary64 (real k * c)" "0 < n"
  shows "np_mean_f64 (replicate n (Fin c)) = Fin c"
proof -
  from assms have "is_binary64 (real 1 * c)" by (intro assms(1)[rule_format]) simp
  then have "f64 c = Fin c" by (simp add: is_binary64_def)
  then show ?thesis
    using assms(2) by (simp add: np_mean_f64_def fsum64_replicate[OF assms(1)] fdiv64_def)
qed

lemma np_std_f64_replicate:
  assumes "\<forall>k\<le>n. is_binary64 (real k * c)" "0 < n"
  shows "np_std_f64 (replicate n (Fin c)) = Fin 0"
proof -
  have z: "\<forall>k\<le>n. is_binary64 (real k * 0)" by (simp add: is_binary64_zero)
  have "fsq64 (fsub64 (Fin c) (Fin c)) = Fin 0"
    by (simp add: fsq64_def fsub64_def fsub_def f64_zero)
  then show ?thesis
    unfolding np_std_f64_def np_mean_f64_replicate[OF assms] Let_def map_replicate
    by (simp add: np_mean_f64_replicate[OF z assms(2)] fsqrt64_def f64_zero)
qed

lemma np_mean_f64_Nil: "np_mean_f64 [] = NaN"
  by (simp add: np_mean_f64_def fsum64_def fdiv64_def)

lemma np_std_f64_Nil: "np_std_f64 [] = NaN"
  by (simp add: np_std_f64_def np_mean_f64_Nil fsqrt64_def)

lemma np_std_f64_constant:
  assumes "\<forall>x\<in>set xs. x = Fin c" "\<forall>k\<le>length xs. is_binary64 (real k * c)"
  shows "np_std_f64 xs = Fin 0 \<or> np_std_f64 xs = NaN"
proof (cases "xs = []")
  case True
  then show ?thesis by (simp add: np_std_f64_Nil)
next
  case False
  from assms(1) have "xs = replicate (length xs) (Fin c)" by (rule constant_replicate)
  moreover have "np_std_f64 (replicate (length xs) (Fin c)) = Fin 0"
    using assms(2) False by (intro np_std_f64_replicate) simp_all
  ultimately show ?thesis by simp
qed

lemma np_nanstd_f64_constant:
  assumes "\<forall>x\<in>set xs. x = Fin c" "\<forall>k\<le>length xs. is_binary64 (real k * c)"
  shows "np_nanstd_f64 xs = Fin 0 \<or> np_nanstd_f64 xs = NaN"
proof -
  from assms(1) have "filter (\<lambda>x. x \<noteq> NaN) xs = xs" by (induction xs) simp_all
  then show ?thesis unfolding np_nanstd_f64_def using np_std_f64_constant[OF assms] by simp
qed

lemmas f64_eval = f64_def quantum_def ilog2_def pow2_def round_half_even_def Let_def bit_length.simps

lemma is_binary64_int: "\<bar>m\<bar> < 2 ^ 53 \<Longrightarrow> is_binary64 (real_of_int m)"
proof -
  assume m: "\<bar>m\<bar> < 2 ^ 53"
  then have "real_of_int \<bar>m\<bar> < real_of_int (2 ^ 53)" by (simp only: of_int_less_iff)
  then have "\<bar>real_of_int m * pow2 0\<bar> < 2 ^ 1024" by (simp add: pow2_def)
  with m have "is_binary64 (real_of_int m * pow2 0)" by (intro is_binary64_dyadic) simp_all
  then show ?thesis by (simp add: pow2_def)
qed

text \<open>
  Claim C4. When the standard deviation that NumPy computes for a column of the training
  rows is zero, the division leaves no finite number in that column: every entry of the
  column in the normalized training and testing features is NaN or an infinity, in both
  cells. The normalization does not fail; the non-finite value is the signal. A column that
  is constant over the training rows has a computed standard deviation of zero (NaN without
  a training row) when the multiples of its constant that occur as running sums are all
  binary64 numbers, as they are for an integer constant of moderate size.
\<close>

theorem zero_std_column_not_finite:
  assumes r1: "\<forall>row\<in>set train_values. length row = ncols"
    and r2: "\<forall>row\<in>set test_values. length row = ncols"
    and j: "j < ncols"
  shows "(np_std_f64 (column train_values j) = Fin 0
          \<or> (\<forall>row\<in>set train_values. row ! j = Fin c)
            \<and> (\<forall>k\<le>length train_values. is_binary64 (real k * c)) \<longrightarrow>
            (\<forall>i<length train_values.
               \<not> is_finite (fst (normalize_regression_f64 ncols train_values test_values) ! i ! j))
          \<and> (\<forall>i<length test_values.
               \<not> is_finite (snd (normalize_regression_f64 ncols train_values test_values) ! i ! j)))
       \<and> (np_nanstd_f64 (column train_values j) = Fin 0
          \<or> (\<forall>row\<in>set train_values. row ! j = Fin c)
            \<and> (\<forall>k\<le>length train_values. is_binary64 (real k * c)) \<longrightarrow>
            (\<forall>i<length train_values.
               \<not> is_finite (fst (normalize_classification_f64 ncols train_values test_values) ! i ! j))
          \<and> (\<forall>i<length test_values.
               \<not> is_finite (snd (normalize_classification_f64 ncols train_values test_values) ! i ! j)))"
proof -
  let ?const = "(\<forall>row\<in>set train_values. row ! j = Fin c)
      \<and> (\<forall>k\<le>length train_values. is_binary64 (real k * c))"
  have const: "?const \<Longrightarrow> (\<forall>x\<in>set (column train_values j). x = Fin c)
      \<and> (\<forall>k\<le>length (column train_values j). is_binary64 (real k * c))"
    by (simp add: column_def)
  have s1: "np_std_f64 (column train_values j) = Fin 0 \<or> ?const
      \<Longrightarrow> np_std_f64 (column train_values j) = Fin 0 \<or> np_std_f64 (column train_values j) = NaN"
    using const np_std_f64_constant by blast
  have s2: "np_nanstd_f64 (column train_values j) = Fin 0 \<or> ?const
      \<Longrightarrow> np_nanstd_f64 (column train_values j) = Fin 0 \<or> np_nanstd_f64 (column train_values j) = NaN"
    using const np_nanstd_f64_constant by blast
  note a = normalize_regression_f64_nth[OF r1 r2 j]
  note b = normalize_classification_f64_nth[OF r1 r2 j]
  show ?thesis
  proof (intro conjI impI)
    assume h: "np_std_f64 (column train_values j) = Fin 0 \<or> ?const"
    show "\<forall>i<length train_values.
            \<not> is_finite (fst (normalize_regression_f64 ncols train_values test_values) ! i ! j)"
      using a fdiv64_degenerate[OF s1[OF h]] by simp
    show "\<forall>i<length test_values.
            \<not> is_finite (snd (normalize_regression_f64 ncols train_values test_values) ! i ! j)"
      using a fdiv64_degenerate[OF s1[OF h]] by simp
  next
    assume h: "np_nanstd_f64 (column train_values j) = Fin 0 \<or> ?const"
    show "\<forall>i<length train_values.
            \<not> is_finite (fst (normalize_classification_f64 ncols train_values test_values) ! i ! j)"
      using b fdiv64_degenerate[OF s2[OF h]] by simp
    show "\<forall>i<length test_values.
            \<not> is_finite (snd (normalize_classification_f64 ncols train_values test_values) ! i ! j)"
      using b fdiv64_degenerate[OF s2[OF h]] by simp
  qed
qed

theorem zero_std_column_witness:
  "normalize_regression_f64 2 [[Fin 7, Fin 1], [Fin 7, Fin 3]] [[Fin 7, Fin 5], [Fin 9, Fin 4]]
     = ([[NaN, Fin (- 1)], [NaN, Fin 1]], [[NaN, Fin 3], [PInf, Fin 2]])
   \<and> \<not> is_finite (snd (normalize_regression_f64 2 [[Fin 7, Fin 1], [Fin 7, Fin 3]]
                          [[Fin 7, Fin 5], [Fin 9, Fin 4]]) ! 1 ! 0)"
proof -
  let ?tr = "[[Fin 7, Fin 1], [Fin 7, Fin 3]]"
  let ?te = "[[Fin 7, Fin 5], [Fin 9, Fin 4]]"
  have r1: "\<forall>row\<in>set ?tr. length row = 2" by simp
  have r2: "\<forall>row\<in>set ?te. length row = 2" by simp
  have j: "(0::nat) < 2" by simp
  have const: "\<forall>row\<in>set ?tr. row ! 0 = Fin 7" by simp
  have exact: "\<forall>k\<le>length ?tr. is_binary64 (real k * 7)"
  proof (intro allI impI)
    fix k :: nat
    assume "k \<le> length ?tr"
    then have "\<bar>int k * 7\<bar> < 2 ^ 53" by simp
    then have "is_binary64 (real_of_int (int k * 7))" by (rule is_binary64_int)
    then show "is_binary64 (real k * 7)" by simp
  qed
  have cols: "[0..<2] = [0, Suc 0]" by (simp add: numeral_2_eq_2)
  have out: "normalize_regression_f64 2 ?tr ?te
     = ([[NaN, Fin (- 1)], [NaN, Fin 1]], [[NaN, Fin 3], [PInf, Fin 2]])"
    unfolding normalize_regression_f64_def axis0_def cols
    by (simp add: column_def np_std_f64_def np_mean_f64_def
        fsum64_def fadd64_def fsub64_def fsq64_def fdiv64_def fsqrt64_def fsub_def
        input_scaling_f64_def scale_row_f64_def f64_eval)
  from zero_std_column_not_finite[OF r1 r2 j, of 7] const exact
  have "\<not> is_finite (snd (normalize_regression_f64 2 ?tr ?te) ! 1 ! 0)" by simp
  with out show ?thesis by simp
qed

subsection \<open>A constant column whose running sums are not exact\<close>

lemma is_binary64_fraction:
  assumes m: "\<bar>m\<bar> < 2 ^ 53" and e: "- 1074 \<le> e" "e \<le> 0"
  shows "is_binary64 (real_of_int m * pow2 e)"
proof -
  have "pow2 e \<le> pow2 0" using e(2) by (rule pow2_le)
  then have p: "pow2 e \<le> 1" by (simp add: pow2_def)
  have "real_of_int \<bar>m\<bar> < real_of_int (2 ^ 53)" using m by (simp only: of_int_less_iff)
  then have a: "\<bar>real_of_int m\<bar> < 2 ^ 53" by simp
  have "\<bar>real_of_int m * pow2 e\<bar> = \<bar>real_of_int m\<bar> * pow2 e"
    using pow2_pos[of e] by (simp add: abs_mult)
  also have "\<dots> \<le> \<bar>real_of_int m\<bar> * 1" using p by (intro mult_left_mono) simp_all
  also have "\<dots> < 2 ^ 1024" using a by simp
  finally show ?thesis using m e(1) by (intro is_binary64_dyadic)
qed

lemma replicate_numeral: "replicate (numeral k) x = x # replicate (pred_numeral k) x"
  by (simp add: numeral_eq_Suc)

lemma np_std_f64_replicate_eval:
  assumes m: "np_mean_f64 (replicate n (Fin c)) = Fin m"
    and d: "fsq64 (fsub64 (Fin c) (Fin m)) = Fin (d * d)"
    and exact: "\<forall>k\<le>n. is_binary64 (real k * (d * d))"
    and n: "0 < n" and d0: "0 \<le> d" and bd: "is_binary64 d"
  shows "np_std_f64 (replicate n (Fin c)) = Fin d"
proof -
  have "fsqrt (Fin (d * d)) = Fin d" using d0 by simp
  then have "fsqrt64 (Fin (d * d)) = Fin d"
    unfolding fsqrt64_def using bd by (simp only: rnd.simps is_binary64_def)
  then show ?thesis
    unfolding np_std_f64_def m Let_def map_replicate d np_mean_f64_replicate[OF exact n] .
qed

lemma two_columns:
  "axis0 f 2 (replicate n [x, y]) = [f (replicate n x), f (replicate n y)]"
proof -
  have "[0..<2] = [0, Suc 0]" by (simp add: numeral_2_eq_2)
  then show ?thesis by (simp add: axis0_def column_def)
qed

lemma input_scaling_f64_two_columns:
  "input_scaling_f64 [m, m'] [s, s'] (replicate n [x, y])
     = replicate n [fdiv64 (fsub64 x m) s, fdiv64 (fsub64 y m') s']"
  by (simp add: input_scaling_f64_def scale_row_f64_def)

lemma filter_replicate_Fin:
  "filter (\<lambda>x. x \<noteq> NaN) (replicate n (Fin c)) = replicate n (Fin c)"
  by (induction n) simp_all

text \<open>
  The constant 7 over \<open>n\<close> rows, \<open>n\<close> below \<open>2^50\<close>: the running sums are exact.
\<close>

lemma exact_multiples_of_7:
  assumes "n < 2 ^ 50"
  shows "\<forall>k\<le>n. is_binary64 (real k * 7)"
proof (intro allI impI)
  fix k :: nat
  assume "k \<le> n"
  with assms have "k < 2 ^ 50" by simp
  then have "int k < 2 ^ 50" by simp
  then have "\<bar>int k * 7\<bar> < 2 ^ 53" by simp
  then have "is_binary64 (real_of_int (int k * 7))" by (rule is_binary64_int)
  then show "is_binary64 (real k * 7)" by simp
qed

lemma zero_quotient: "fdiv64 (fsub64 (Fin 7) (Fin 7)) (Fin 0) = NaN"
  by (simp add: fdiv64_def fsub64_def fsub_def f64_zero)

text \<open>
  The constant 0.3 (the binary64 number nearest to it) over the 44 training rows of the
  regression notebook: the 44 additions round the sum to 13.20000000000001, the mean is
  0.3000000000000002, four spacings above the constant, and the standard deviation \<open>2^-52\<close>.
\<close>

lemma fsum64_44:
  "fsum64 (replicate 44 (Fin (5404319552844595 / 2 ^ 54))) = Fin (1857734846290331 / 2 ^ 47)"
  by (simp add: replicate_numeral fsum64_def fadd64_def f64_eval)

lemma np_mean_f64_44:
  "np_mean_f64 (replicate 44 (Fin (5404319552844595 / 2 ^ 54))) = Fin (5404319552844599 / 2 ^ 54)"
  unfolding np_mean_f64_def fsum64_44 by (simp add: fdiv64_def f64_eval)

lemma np_std_f64_44:
  "np_std_f64 (replicate 44 (Fin (5404319552844595 / 2 ^ 54))) = Fin (1 / 2 ^ 52)"
proof (rule np_std_f64_replicate_eval[OF np_mean_f64_44])
  show "fsq64 (fsub64 (Fin (5404319552844595 / 2 ^ 54)) (Fin (5404319552844599 / 2 ^ 54)))
      = Fin (1 / 2 ^ 52 * (1 / 2 ^ 52))"
    by (simp add: fsq64_def fsub64_def fsub_def f64_eval)
  have p: "real_of_int 1 * pow2 (- 52) = 1 / 2 ^ 52" by (simp add: pow2_def)
  show "\<forall>k\<le>44. is_binary64 (real k * (1 / 2 ^ 52 * (1 / 2 ^ 52)))"
  proof (intro allI impI)
    fix k :: nat
    assume "k \<le> 44"
    then have "\<bar>int k\<bar> < 2 ^ 53" by simp
    then have b: "is_binary64 (real_of_int (int k) * pow2 (- 104))"
      by (rule is_binary64_fraction) simp_all
    have eq: "real_of_int (int k) * pow2 (- 104) = real k * (1 / 2 ^ 52 * (1 / 2 ^ 52))"
      by (simp add: pow2_def)
    show "is_binary64 (real k * (1 / 2 ^ 52 * (1 / 2 ^ 52)))" using b unfolding eq .
  qed
  have "is_binary64 (real_of_int 1 * pow2 (- 52))" by (rule is_binary64_fraction) simp_all
  then show "is_binary64 (1 / 2 ^ 52)" unfolding p .
qed simp_all

lemma score_44:
  "fdiv64 (fsub64 (Fin (5404319552844595 / 2 ^ 54)) (Fin (5404319552844599 / 2 ^ 54)))
     (Fin (1 / 2 ^ 52)) = Fin (- 1)"
  by (simp add: fdiv64_def fsub64_def fsub_def f64_eval)

text \<open>
  The same constant over the 40 training rows of the classification notebook: the sum is
  12.000000000000007, the mean 0.30000000000000016, the standard deviation \<open>3 * 2^-54\<close>.
\<close>

lemma fsum64_40:
  "fsum64 (replicate 40 (Fin (5404319552844595 / 2 ^ 54))) = Fin (1688849860263937 / 2 ^ 47)"
  by (simp add: replicate_numeral fsum64_def fadd64_def f64_eval)

lemma np_mean_f64_40:
  "np_mean_f64 (replicate 40 (Fin (5404319552844595 / 2 ^ 54))) = Fin (2702159776422299 / 2 ^ 53)"
  unfolding np_mean_f64_def fsum64_40 by (simp add: fdiv64_def f64_eval)

lemma np_std_f64_40:
  "np_std_f64 (replicate 40 (Fin (5404319552844595 / 2 ^ 54))) = Fin (3 / 2 ^ 54)"
proof (rule np_std_f64_replicate_eval[OF np_mean_f64_40])
  show "fsq64 (fsub64 (Fin (5404319552844595 / 2 ^ 54)) (Fin (2702159776422299 / 2 ^ 53)))
      = Fin (3 / 2 ^ 54 * (3 / 2 ^ 54))"
    by (simp add: fsq64_def fsub64_def fsub_def f64_eval)
  have p: "real_of_int 3 * pow2 (- 54) = 3 / 2 ^ 54" by (simp add: pow2_def)
  show "\<forall>k\<le>40. is_binary64 (real k * (3 / 2 ^ 54 * (3 / 2 ^ 54)))"
  proof (intro allI impI)
    fix k :: nat
    assume "k \<le> 40"
    then have "\<bar>int k * 9\<bar> < 2 ^ 53" by simp
    then have b: "is_binary64 (real_of_int (int k * 9) * pow2 (- 108))"
      by (rule is_binary64_fraction) simp_all
    have eq: "real_of_int (int k * 9) * pow2 (- 108) = real k * (3 / 2 ^ 54 * (3 / 2 ^ 54))"
      by (simp add: pow2_def)
    show "is_binary64 (real k * (3 / 2 ^ 54 * (3 / 2 ^ 54)))" using b unfolding eq .
  qed
  have "is_binary64 (real_of_int 3 * pow2 (- 54))" by (rule is_binary64_fraction) simp_all
  then show "is_binary64 (3 / 2 ^ 54)" unfolding p .
qed simp_all

lemma score_40:
  "fdiv64 (fsub64 (Fin (5404319552844595 / 2 ^ 54)) (Fin (2702159776422299 / 2 ^ 53)))
     (Fin (3 / 2 ^ 54)) = Fin (- 1)"
  by (simp add: fdiv64_def fsub64_def fsub_def f64_eval)

text \<open>
  Claim C4 as stated covers every constant column. The tables below have two constant
  columns, 0.3 and 7, over the 44 training rows of the regression notebook and over the 40
  of the classification notebook. The column of 7 becomes NaN. The column of 0.3 does not:
  its computed mean lies four spacings (three, over 40 rows) above the constant, its
  computed standard deviation is that difference, and every entry of the column, training
  and testing, becomes -1, an ordinary finite number.
\<close>

theorem constant_column_finite_counterexample:
  "f64 (3 / 10) = Fin (5404319552844595 / 2 ^ 54)
   \<and> normalize_regression_f64 2 (replicate 44 [Fin (5404319552844595 / 2 ^ 54), Fin 7])
        (replicate 5 [Fin (5404319552844595 / 2 ^ 54), Fin 7])
     = (replicate 44 [Fin (- 1), NaN], replicate 5 [Fin (- 1), NaN])
   \<and> normalize_classification_f64 2 (replicate 40 [Fin (5404319552844595 / 2 ^ 54), Fin 7])
        (replicate 7 [Fin (5404319552844595 / 2 ^ 54), Fin 7])
     = (replicate 40 [Fin (- 1), NaN], replicate 7 [Fin (- 1), NaN])"
proof -
  have c: "f64 (3 / 10) = Fin (5404319552844595 / 2 ^ 54)" by (simp add: f64_eval)
  have e44: "\<forall>k\<le>44. is_binary64 (real k * 7)" by (rule exact_multiples_of_7) simp
  have e40: "\<forall>k\<le>40. is_binary64 (real k * 7)" by (rule exact_multiples_of_7) simp
  have m44: "np_mean_f64 (replicate 44 (Fin 7)) = Fin 7" using e44 by (rule np_mean_f64_replicate) simp
  have s44: "np_std_f64 (replicate 44 (Fin 7)) = Fin 0" using e44 by (rule np_std_f64_replicate) simp
  have m40: "np_mean_f64 (replicate 40 (Fin 7)) = Fin 7" using e40 by (rule np_mean_f64_replicate) simp
  have s40: "np_std_f64 (replicate 40 (Fin 7)) = Fin 0" using e40 by (rule np_std_f64_replicate) simp
  have r: "normalize_regression_f64 2 (replicate 44 [Fin (5404319552844595 / 2 ^ 54), Fin 7])
        (replicate 5 [Fin (5404319552844595 / 2 ^ 54), Fin 7])
     = (replicate 44 [Fin (- 1), NaN], replicate 5 [Fin (- 1), NaN])"
    unfolding normalize_regression_f64_def two_columns np_mean_f64_44 np_std_f64_44 m44 s44 Let_def
      input_scaling_f64_two_columns score_44 zero_quotient ..
  have k: "normalize_classification_f64 2 (replicate 40 [Fin (5404319552844595 / 2 ^ 54), Fin 7])
        (replicate 7 [Fin (5404319552844595 / 2 ^ 54), Fin 7])
     = (replicate 40 [Fin (- 1), NaN], replicate 7 [Fin (- 1), NaN])"
    unfolding normalize_classification_f64_def two_columns np_nanmean_f64_def np_nanstd_f64_def
      filter_replicate_Fin np_mean_f64_40 np_std_f64_40 m40 s40 Let_def
      input_scaling_f64_two_columns score_40 zero_quotient ..
  from c r k show ?thesis by (intro conjI)
qed

section \<open>Properties of the Builder\<close>

subsection \<open>Columns and patches\<close>

lemma get_loc_bound: "get_loc cs name = Inr k \<Longrightarrow> k < length cs \<and> cs ! k = name"
  by (induction cs arbitrary: k) (auto split: if_splits sum.splits)

lemma get_loc_mem: "name \<in> set cs \<Longrightarrow> \<exists>k. get_loc cs name = Inr k"
  by (induction cs) auto

lemma get_loc_inj:
  "get_loc cs a = Inr k \<Longrightarrow> get_loc cs b = Inr k \<Longrightarrow> a = b"
  using get_loc_bound by blast

lemma length_iloc_set: "length (iloc_set t index c v) = length t"
  unfolding iloc_set_def by (induction index arbitrary: t) simp_all

lemma iloc_set_nth:
  assumes "\<forall>i\<in>set index. i < length t" "i < length t"
  shows "iloc_set t index c v ! i = (if i \<in> set index then (t ! i)[c := v] else t ! i)"
  using assms unfolding iloc_set_def
proof (induction index arbitrary: t)
  case Nil
  then show ?case by simp
next
  case (Cons a index)
  let ?t' = "t[a := (t ! a)[c := v]]"
  have len: "length ?t' = length t" by simp
  from Cons.prems have a: "a < length t" and rest: "\<forall>i\<in>set index. i < length ?t'" by simp_all
  have "foldl (\<lambda>t i. t[i := (t ! i)[c := v]]) ?t' index ! i
      = (if i \<in> set index then (?t' ! i)[c := v] else ?t' ! i)"
    using Cons.IH[OF rest] Cons.prems(2) by simp
  then show ?case using a Cons.prems(2)
    by (auto simp: nth_list_update)
qed


lemma patch_step:
  assumes an: "get_loc (columns df) ''atomic_number'' = Inr an"
    and c: "get_loc (columns df) name = Inr c"
  shows "\<exists>df'. patch df z name v = Inr df' \<and> columns df' = columns df
     \<and> length (table df') = length (table df)
     \<and> (\<forall>i<length (table df). table df' ! i
            = (if table df ! i ! an = Fin z then (table df ! i)[c := Fin v] else table df ! i))"
proof -
  let ?index = "filter (\<lambda>i. table df ! i ! an = Fin z) [0..<length (table df)]"
  let ?df' = "df\<lparr>table := iloc_set (table df) ?index c (Fin v)\<rparr>"
  have p: "patch df z name v = Inr ?df'"
    by (simp add: patch_def an c)
  have bound: "\<forall>i\<in>set ?index. i < length (table df)" by simp
  have "\<forall>i<length (table df). table ?df' ! i
            = (if table df ! i ! an = Fin z then (table df ! i)[c := Fin v] else table df ! i)"
    using iloc_set_nth[OF bound] by simp
  with p show ?thesis by (simp add: length_iloc_set)
qed

lemma apply_patches_frame:
  assumes an: "get_loc (columns df) ''atomic_number'' = Inr an"
    and names: "\<forall>p\<in>set ps. fst (snd p) \<in> set (columns df) \<and> fst (snd p) \<noteq> ''atomic_number''"
  shows "\<exists>df'. apply_patches df ps = Inr df' \<and> columns df' = columns df
     \<and> length (table df') = length (table df)
     \<and> (\<forall>i<length (table df). length (table df' ! i) = length (table df ! i)
          \<and> table df' ! i ! an = table df ! i ! an
          \<and> (\<forall>k. \<not> (\<exists>p\<in>set ps. table df ! i ! an = Fin (fst p)
                         \<and> get_loc (columns df) (fst (snd p)) = Inr k)
                \<longrightarrow> table df' ! i ! k = table df ! i ! k))"
  using assms
proof (induction ps arbitrary: df)
  case Nil
  then show ?case by simp
next
  case (Cons p ps)
  obtain z name v where p: "p = (z, name, v)" by (cases p) auto
  from Cons.prems(2) p have nm: "name \<in> set (columns df)" "name \<noteq> ''atomic_number''" by auto
  from nm(1) obtain c where c: "get_loc (columns df) name = Inr c"
    using get_loc_mem by blast
  have c_an: "c \<noteq> an" using get_loc_inj[OF c] Cons.prems(1) nm(2) by blast
  from patch_step[OF Cons.prems(1) c, of z v] obtain df1 where
    df1: "patch df z name v = Inr df1" and cols1: "columns df1 = columns df"
    and len1: "length (table df1) = length (table df)"
    and rows1: "\<forall>i<length (table df). table df1 ! i
            = (if table df ! i ! an = Fin z then (table df ! i)[c := Fin v] else table df ! i)"
    by blast
  have an1: "get_loc (columns df1) ''atomic_number'' = Inr an" using Cons.prems(1) cols1 by simp
  have names1: "\<forall>p\<in>set ps. fst (snd p) \<in> set (columns df1) \<and> fst (snd p) \<noteq> ''atomic_number''"
    using Cons.prems(2) cols1 by simp
  from Cons.IH[OF an1 names1] obtain df' where
    r: "apply_patches df1 ps = Inr df'" and cols': "columns df' = columns df1"
    and len': "length (table df') = length (table df1)"
    and rows': "\<forall>i<length (table df1). length (table df' ! i) = length (table df1 ! i)
          \<and> table df' ! i ! an = table df1 ! i ! an
          \<and> (\<forall>k. \<not> (\<exists>p\<in>set ps. table df1 ! i ! an = Fin (fst p)
                         \<and> get_loc (columns df1) (fst (snd p)) = Inr k)
                \<longrightarrow> table df' ! i ! k = table df1 ! i ! k)"
    by blast
  have res: "apply_patches df (p # ps) = Inr df'" by (simp add: p df1 r)
  have "\<forall>i<length (table df). length (table df' ! i) = length (table df ! i)
          \<and> table df' ! i ! an = table df ! i ! an
          \<and> (\<forall>k. \<not> (\<exists>q\<in>set (p # ps). table df ! i ! an = Fin (fst q)
                         \<and> get_loc (columns df) (fst (snd q)) = Inr k)
                \<longrightarrow> table df' ! i ! k = table df ! i ! k)"
  proof (intro allI impI)
    fix i assume i: "i < length (table df)"
    then have i1: "i < length (table df1)" using len1 by simp
    have row1: "table df1 ! i
            = (if table df ! i ! an = Fin z then (table df ! i)[c := Fin v] else table df ! i)"
      using rows1 i by simp
    have l1: "length (table df1 ! i) = length (table df ! i)" by (simp add: row1)
    have a1: "table df1 ! i ! an = table df ! i ! an" using c_an by (simp add: row1)
    from rows' i1 have
      l': "length (table df' ! i) = length (table df1 ! i)" and
      a': "table df' ! i ! an = table df1 ! i ! an" and
      f': "\<And>k. \<not> (\<exists>p\<in>set ps. table df1 ! i ! an = Fin (fst p)
                         \<and> get_loc (columns df1) (fst (snd p)) = Inr k)
                \<Longrightarrow> table df' ! i ! k = table df1 ! i ! k"
      by blast+
    have "\<forall>k. \<not> (\<exists>q\<in>set (p # ps). table df ! i ! an = Fin (fst q)
                         \<and> get_loc (columns df) (fst (snd q)) = Inr k)
                \<longrightarrow> table df' ! i ! k = table df ! i ! k"
    proof (intro allI impI)
      fix k
      assume nt: "\<not> (\<exists>q\<in>set (p # ps). table df ! i ! an = Fin (fst q)
                         \<and> get_loc (columns df) (fst (snd q)) = Inr k)"
      then have "\<not> (\<exists>p\<in>set ps. table df1 ! i ! an = Fin (fst p)
                         \<and> get_loc (columns df1) (fst (snd p)) = Inr k)"
        by (simp add: a1 cols1)
      then have "table df' ! i ! k = table df1 ! i ! k" by (rule f')
      moreover from nt p c have "\<not> (table df ! i ! an = Fin z \<and> c = k)" by auto
      then have "table df1 ! i ! k = table df ! i ! k" by (auto simp: row1)
      ultimately show "table df' ! i ! k = table df ! i ! k" by simp
    qed
    with l' l1 a' a1 show "length (table df' ! i) = length (table df ! i)
          \<and> table df' ! i ! an = table df ! i ! an
          \<and> (\<forall>k. \<not> (\<exists>q\<in>set (p # ps). table df ! i ! an = Fin (fst q)
                         \<and> get_loc (columns df) (fst (snd q)) = Inr k)
                \<longrightarrow> table df' ! i ! k = table df ! i ! k)"
      by simp
  qed
  with res cols' cols1 len' len1 show ?case by auto
qed


lemma apply_patches_hit:
  assumes an: "get_loc (columns df) ''atomic_number'' = Inr an"
    and names: "\<forall>p\<in>set ps. fst (snd p) \<in> set (columns df) \<and> fst (snd p) \<noteq> ''atomic_number''"
    and widths: "\<forall>i<length (table df). length (table df ! i) = length (columns df)"
    and dist: "distinct (map (\<lambda>p. (fst p, fst (snd p))) ps)"
    and q: "(z, name, v) \<in> set ps"
    and i: "i < length (table df)"
    and row: "table df ! i ! an = Fin z"
  shows "\<exists>df' k. apply_patches df ps = Inr df' \<and> get_loc (columns df) name = Inr k
           \<and> table df' ! i ! k = Fin v"
  using assms
proof (induction ps arbitrary: df)
  case Nil
  then show ?case by simp
next
  case (Cons p ps)
  obtain z0 name0 v0 where p: "p = (z0, name0, v0)" by (cases p) auto
  from Cons.prems(2) p have nm: "name0 \<in> set (columns df)" "name0 \<noteq> ''atomic_number''" by auto
  from nm(1) obtain c where c: "get_loc (columns df) name0 = Inr c"
    using get_loc_mem by blast
  have c_an: "c \<noteq> an" using get_loc_inj[OF c] Cons.prems(1) nm(2) by blast
  have c_lt: "c < length (columns df)" using get_loc_bound[OF c] by simp
  from patch_step[OF Cons.prems(1) c, of z0 v0] obtain df1 where
    df1: "patch df z0 name0 v0 = Inr df1" and cols1: "columns df1 = columns df"
    and len1: "length (table df1) = length (table df)"
    and rows1: "\<forall>i<length (table df). table df1 ! i
            = (if table df ! i ! an = Fin z0 then (table df ! i)[c := Fin v0] else table df ! i)"
    by blast
  have an1: "get_loc (columns df1) ''atomic_number'' = Inr an" using Cons.prems(1) cols1 by simp
  have names1: "\<forall>p\<in>set ps. fst (snd p) \<in> set (columns df1) \<and> fst (snd p) \<noteq> ''atomic_number''"
    using Cons.prems(2) cols1 by simp
  have i1: "i < length (table df1)" using Cons.prems(6) len1 by simp
  have row1: "table df1 ! i
            = (if table df ! i ! an = Fin z0 then (table df ! i)[c := Fin v0] else table df ! i)"
    using rows1 Cons.prems(6) by simp
  have a1: "table df1 ! i ! an = Fin z" using c_an Cons.prems(7) by (simp add: row1)
  have widths1: "\<forall>i<length (table df1). length (table df1 ! i) = length (columns df1)"
    using Cons.prems(3) rows1 len1 cols1 by simp
  have dist1: "distinct (map (\<lambda>p. (fst p, fst (snd p))) ps)" using Cons.prems(4) by simp
  show ?case
  proof (cases "(z, name, v) = p")
    case True
    then have eq: "z0 = z" "name0 = name" "v0 = v" using p by simp_all
    have wi: "length (table df ! i) = length (columns df)" using Cons.prems(3,6) by simp
    have cell1: "table df1 ! i ! c = Fin v"
      using Cons.prems(7) c_lt wi by (simp add: row1 eq)
    from apply_patches_frame[OF an1 names1] obtain df' where
      r: "apply_patches df1 ps = Inr df'"
      and fr: "\<forall>i<length (table df1). length (table df' ! i) = length (table df1 ! i)
          \<and> table df' ! i ! an = table df1 ! i ! an
          \<and> (\<forall>k. \<not> (\<exists>p\<in>set ps. table df1 ! i ! an = Fin (fst p)
                         \<and> get_loc (columns df1) (fst (snd p)) = Inr k)
                \<longrightarrow> table df' ! i ! k = table df1 ! i ! k)"
      by blast
    have untouched: "\<not> (\<exists>p'\<in>set ps. table df1 ! i ! an = Fin (fst p')
                         \<and> get_loc (columns df1) (fst (snd p')) = Inr c)"
    proof
      assume "\<exists>p'\<in>set ps. table df1 ! i ! an = Fin (fst p')
                         \<and> get_loc (columns df1) (fst (snd p')) = Inr c"
      then obtain p' where p': "p' \<in> set ps" "table df1 ! i ! an = Fin (fst p')"
        "get_loc (columns df1) (fst (snd p')) = Inr c" by blast
      from p'(2) a1 have "fst p' = z" by simp
      moreover from p'(3) c cols1 have "fst (snd p') = name0" using get_loc_inj by metis
      ultimately have "(fst p', fst (snd p')) = (fst p, fst (snd p))" using p eq by simp
      with p'(1) have "(fst p, fst (snd p)) \<in> set (map (\<lambda>p. (fst p, fst (snd p))) ps)"
        by (metis (mono_tags, lifting) image_eqI list.set_map)
      with Cons.prems(4) show False by simp
    qed
    from fr i1 untouched have "table df' ! i ! c = table df1 ! i ! c" by blast
    with cell1 have "table df' ! i ! c = Fin v" by simp
    moreover have "apply_patches df (p # ps) = Inr df'" by (simp add: p df1 r)
    moreover have "get_loc (columns df) name = Inr c" using c eq by simp
    ultimately show ?thesis by blast
  next
    case False
    with Cons.prems(5) have q1: "(z, name, v) \<in> set ps" by auto
    from Cons.IH[OF an1 names1 widths1 dist1 q1 i1 a1] obtain df' k where
      r: "apply_patches df1 ps = Inr df'" and k: "get_loc (columns df1) name = Inr k"
      and cell: "table df' ! i ! k = Fin v" by blast
    have "apply_patches df (p # ps) = Inr df'" by (simp add: p df1 r)
    with k cell cols1 show ?thesis by auto
  qed
qed

lemma query_loop_regression_eq:
  "query_loop_regression mendel pymat elements all_values
     = all_values @ map (element_values mendel pymat querable_mendeleev_regression querable_pymatgen) elements"
  by (induction elements arbitrary: all_values) simp_all

lemma query_loop_classification_fst:
  "fst (query_loop_classification mendel pymat elements (all_values, all_labels))
     = all_values @ map (element_values mendel pymat querable_mendeleev_classification querable_pymatgen) elements"
  by (induction elements arbitrary: all_values all_labels) simp_all

lemma query_loop_classification_snd:
  assumes "set elements \<subseteq> set fcc_elements \<union> set bcc_elements_classification
             \<union> set hcp_elements_classification"
  shows "snd (query_loop_classification mendel pymat elements (all_values, all_labels))
     = all_labels @ map (\<lambda>item. if item \<in> set fcc_elements then [1, 0, 0]
                          else if item \<in> set bcc_elements_classification then [0, 1, 0]
                          else [0, 0, 1]) elements"
  using assms
proof (induction elements arbitrary: all_values all_labels)
  case Nil
  then show ?case by simp
next
  case (Cons item rest)
  from Cons.prems have item: "item \<in> set fcc_elements \<or> item \<in> set bcc_elements_classification
      \<or> item \<in> set hcp_elements_classification"
    and rest: "set rest \<subseteq> set fcc_elements \<union> set bcc_elements_classification
             \<union> set hcp_elements_classification" by auto
  show ?case using item by (auto simp: Cons.IH[OF rest])
qed

lemma length_element_values:
  "length (element_values mendel pymat qm qp item) = length qm + length qp"
  by (simp add: element_values_def)

lemma regression_columns:
  "get_loc (querable_mendeleev_regression @ querable_pymatgen) ''atomic_number'' = Inr 0"
  "length (querable_mendeleev_regression @ querable_pymatgen) = 17"
  "distinct (querable_mendeleev_regression @ querable_pymatgen)"
  by (simp_all add: querable_mendeleev_regression_def querable_pymatgen_def)

lemma classification_columns:
  "get_loc (querable_mendeleev_classification @ querable_pymatgen) ''atomic_number'' = Inr 0"
  "length (querable_mendeleev_classification @ querable_pymatgen) = 18"
  "distinct (querable_mendeleev_classification @ querable_pymatgen)"
  by (simp_all add: querable_mendeleev_classification_def querable_pymatgen_def)

lemma patches_classification_names:
  "\<forall>p\<in>set patches_classification.
      fst (snd p) \<in> set (querable_mendeleev_classification @ querable_pymatgen)
      \<and> fst (snd p) \<noteq> ''atomic_number''"
  by (simp add: patches_classification_def querable_mendeleev_classification_def querable_pymatgen_def)

lemma patches_regression_names:
  "\<forall>p\<in>set patches_regression.
      fst (snd p) \<in> set (querable_mendeleev_regression @ querable_pymatgen)
      \<and> fst (snd p) \<noteq> ''atomic_number''"
  by (simp add: patches_regression_def patches_classification_def
      querable_mendeleev_regression_def querable_pymatgen_def)

lemma patches_distinct:
  "distinct (map (\<lambda>p. (fst p, fst (snd p))) patches_classification)"
  "distinct (map (\<lambda>p. (fst p, fst (snd p))) patches_regression)"
  by (simp_all add: patches_regression_def patches_classification_def)

lemma apply_patches_cells:
  assumes an: "get_loc (columns df) ''atomic_number'' = Inr an"
    and names: "\<forall>p\<in>set ps. fst (snd p) \<in> set (columns df) \<and> fst (snd p) \<noteq> ''atomic_number''"
    and widths: "\<forall>i<length (table df). length (table df ! i) = length (columns df)"
    and dist: "distinct (map (\<lambda>p. (fst p, fst (snd p))) ps)"
  shows "\<exists>df'. apply_patches df ps = Inr df' \<and> columns df' = columns df
     \<and> length (table df') = length (table df)
     \<and> (\<forall>i<length (table df). length (table df' ! i) = length (table df ! i)
          \<and> (\<forall>p\<in>set ps. table df ! i ! an = Fin (fst p) \<longrightarrow>
                (\<exists>k. get_loc (columns df) (fst (snd p)) = Inr k
                     \<and> table df' ! i ! k = Fin (snd (snd p))))
          \<and> (\<forall>k. \<not> (\<exists>p\<in>set ps. table df ! i ! an = Fin (fst p)
                         \<and> get_loc (columns df) (fst (snd p)) = Inr k)
                \<longrightarrow> table df' ! i ! k = table df ! i ! k))"
proof -
  from apply_patches_frame[OF an names] obtain df' where
    r: "apply_patches df ps = Inr df'" and cols: "columns df' = columns df"
    and len: "length (table df') = length (table df)"
    and fr: "\<forall>i<length (table df). length (table df' ! i) = length (table df ! i)
          \<and> table df' ! i ! an = table df ! i ! an
          \<and> (\<forall>k. \<not> (\<exists>p\<in>set ps. table df ! i ! an = Fin (fst p)
                         \<and> get_loc (columns df) (fst (snd p)) = Inr k)
                \<longrightarrow> table df' ! i ! k = table df ! i ! k)"
    by blast
  have hit: "\<forall>i<length (table df). \<forall>p\<in>set ps. table df ! i ! an = Fin (fst p) \<longrightarrow>
                (\<exists>k. get_loc (columns df) (fst (snd p)) = Inr k
                     \<and> table df' ! i ! k = Fin (snd (snd p)))"
  proof (intro allI impI ballI)
    fix i p
    assume i: "i < length (table df)" and p: "p \<in> set ps" and row: "table df ! i ! an = Fin (fst p)"
    from p have q: "(fst p, fst (snd p), snd (snd p)) \<in> set ps" by simp
    from apply_patches_hit[OF an names widths dist q i row] r
    show "\<exists>k. get_loc (columns df) (fst (snd p)) = Inr k \<and> table df' ! i ! k = Fin (snd (snd p))"
      by auto
  qed
  from r cols len fr hit show ?thesis by blast
qed

lemma element_values_atomic_number_regression:
  "element_values mendel pymat querable_mendeleev_regression querable_pymatgen item ! 0
     = mendel item ''atomic_number''"
  by (simp add: element_values_def querable_mendeleev_regression_def)

lemma element_values_atomic_number_classification:
  "element_values mendel pymat querable_mendeleev_classification querable_pymatgen item ! 0
     = mendel item ''atomic_number''"
  by (simp add: element_values_def querable_mendeleev_classification_def)

lemma length_element_values_regression:
  "length (element_values mendel pymat querable_mendeleev_regression querable_pymatgen item) = 17"
  using regression_columns(2) by (simp add: length_element_values)

lemma length_element_values_classification:
  "length (element_values mendel pymat querable_mendeleev_classification querable_pymatgen item) = 18"
  using classification_columns(2) by (simp add: length_element_values)

lemma builder_regression_cells:
  "\<exists>df. builder_regression mendel pymat elements = Inr df
     \<and> columns df = querable_mendeleev_regression @ querable_pymatgen
     \<and> length (table df) = length elements
     \<and> (\<forall>i<length elements. length (table df ! i) = 17
          \<and> (\<forall>p\<in>set patches_regression. mendel (elements ! i) ''atomic_number'' = Fin (fst p) \<longrightarrow>
                (\<exists>k. get_loc (columns df) (fst (snd p)) = Inr k
                     \<and> table df ! i ! k = Fin (snd (snd p))))
          \<and> (\<forall>k. \<not> (\<exists>p\<in>set patches_regression. mendel (elements ! i) ''atomic_number'' = Fin (fst p)
                         \<and> get_loc (columns df) (fst (snd p)) = Inr k)
                \<longrightarrow> table df ! i ! k
                    = element_values mendel pymat querable_mendeleev_regression querable_pymatgen
                        (elements ! i) ! k))"
proof -
  let ?cols = "querable_mendeleev_regression @ querable_pymatgen"
  let ?df = "\<lparr>columns = ?cols, table = query_loop_regression mendel pymat elements []\<rparr>"
  have tab: "query_loop_regression mendel pymat elements []
      = map (element_values mendel pymat querable_mendeleev_regression querable_pymatgen) elements"
    by (simp add: query_loop_regression_eq)
  have an: "get_loc (columns ?df) ''atomic_number'' = Inr 0" using regression_columns(1) by simp
  have names: "\<forall>p\<in>set patches_regression. fst (snd p) \<in> set (columns ?df)
      \<and> fst (snd p) \<noteq> ''atomic_number''"
    using patches_regression_names by simp
  have widths: "\<forall>i<length (table ?df). length (table ?df ! i) = length (columns ?df)"
    using regression_columns(2) by (simp add: tab length_element_values)
  from apply_patches_cells[OF an names widths patches_distinct(2)] obtain df where
    r: "apply_patches ?df patches_regression = Inr df" and cols: "columns df = columns ?df"
    and len: "length (table df) = length (table ?df)"
    and cells: "\<forall>i<length (table ?df). length (table df ! i) = length (table ?df ! i)
          \<and> (\<forall>p\<in>set patches_regression. table ?df ! i ! 0 = Fin (fst p) \<longrightarrow>
                (\<exists>k. get_loc (columns ?df) (fst (snd p)) = Inr k
                     \<and> table df ! i ! k = Fin (snd (snd p))))
          \<and> (\<forall>k. \<not> (\<exists>p\<in>set patches_regression. table ?df ! i ! 0 = Fin (fst p)
                         \<and> get_loc (columns ?df) (fst (snd p)) = Inr k)
                \<longrightarrow> table df ! i ! k = table ?df ! i ! k)"
    by blast
  have b: "builder_regression mendel pymat elements = Inr df"
    using r by (simp add: builder_regression_def)
  have cols': "columns df = ?cols" using cols by simp
  have len': "length (table df) = length elements" using len by (simp add: tab)
  have cells': "\<forall>i<length elements. length (table df ! i) = 17
          \<and> (\<forall>p\<in>set patches_regression. mendel (elements ! i) ''atomic_number'' = Fin (fst p) \<longrightarrow>
                (\<exists>k. get_loc (columns df) (fst (snd p)) = Inr k
                     \<and> table df ! i ! k = Fin (snd (snd p))))
          \<and> (\<forall>k. \<not> (\<exists>p\<in>set patches_regression. mendel (elements ! i) ''atomic_number'' = Fin (fst p)
                         \<and> get_loc (columns df) (fst (snd p)) = Inr k)
                \<longrightarrow> table df ! i ! k
                    = element_values mendel pymat querable_mendeleev_regression querable_pymatgen
                        (elements ! i) ! k)"
    using cells
    by (simp add: tab cols' element_values_atomic_number_regression length_element_values_regression
        del: One_nat_def)
  from b cols' len' cells' show ?thesis by blast
qed

lemma builder_classification_cells:
  "\<exists>df. builder_classification mendel pymat elements = Inr df
     \<and> columns df = querable_mendeleev_classification @ querable_pymatgen
     \<and> length (table df) = length elements
     \<and> (\<forall>i<length elements. length (table df ! i) = 18
          \<and> (\<forall>p\<in>set patches_classification. mendel (elements ! i) ''atomic_number'' = Fin (fst p) \<longrightarrow>
                (\<exists>k. get_loc (columns df) (fst (snd p)) = Inr k
                     \<and> table df ! i ! k = Fin (snd (snd p))))
          \<and> (\<forall>k. \<not> (\<exists>p\<in>set patches_classification. mendel (elements ! i) ''atomic_number'' = Fin (fst p)
                         \<and> get_loc (columns df) (fst (snd p)) = Inr k)
                \<longrightarrow> table df ! i ! k
                    = element_values mendel pymat querable_mendeleev_classification querable_pymatgen
                        (elements ! i) ! k))"
proof -
  let ?cols = "querable_mendeleev_classification @ querable_pymatgen"
  let ?df = "\<lparr>columns = ?cols, table = fst (query_loop_classification mendel pymat elements ([], []))\<rparr>"
  have tab: "fst (query_loop_classification mendel pymat elements ([], []))
      = map (element_values mendel pymat querable_mendeleev_classification querable_pymatgen) elements"
    by (simp add: query_loop_classification_fst)
  have an: "get_loc (columns ?df) ''atomic_number'' = Inr 0" using classification_columns(1) by simp
  have names: "\<forall>p\<in>set patches_classification. fst (snd p) \<in> set (columns ?df)
      \<and> fst (snd p) \<noteq> ''atomic_number''"
    using patches_classification_names by simp
  have widths: "\<forall>i<length (table ?df). length (table ?df ! i) = length (columns ?df)"
    using classification_columns(2) by (simp add: tab length_element_values)
  from apply_patches_cells[OF an names widths patches_distinct(1)] obtain df where
    r: "apply_patches ?df patches_classification = Inr df" and cols: "columns df = columns ?df"
    and len: "length (table df) = length (table ?df)"
    and cells: "\<forall>i<length (table ?df). length (table df ! i) = length (table ?df ! i)
          \<and> (\<forall>p\<in>set patches_classification. table ?df ! i ! 0 = Fin (fst p) \<longrightarrow>
                (\<exists>k. get_loc (columns ?df) (fst (snd p)) = Inr k
                     \<and> table df ! i ! k = Fin (snd (snd p))))
          \<and> (\<forall>k. \<not> (\<exists>p\<in>set patches_classification. table ?df ! i ! 0 = Fin (fst p)
                         \<and> get_loc (columns ?df) (fst (snd p)) = Inr k)
                \<longrightarrow> table df ! i ! k = table ?df ! i ! k)"
    by blast
  have b: "builder_classification mendel pymat elements = Inr df"
    using r by (simp add: builder_classification_def)
  have cols': "columns df = ?cols" using cols by simp
  have len': "length (table df) = length elements" using len by (simp add: tab)
  have cells': "\<forall>i<length elements. length (table df ! i) = 18
          \<and> (\<forall>p\<in>set patches_classification. mendel (elements ! i) ''atomic_number'' = Fin (fst p) \<longrightarrow>
                (\<exists>k. get_loc (columns df) (fst (snd p)) = Inr k
                     \<and> table df ! i ! k = Fin (snd (snd p))))
          \<and> (\<forall>k. \<not> (\<exists>p\<in>set patches_classification. mendel (elements ! i) ''atomic_number'' = Fin (fst p)
                         \<and> get_loc (columns df) (fst (snd p)) = Inr k)
                \<longrightarrow> table df ! i ! k
                    = element_values mendel pymat querable_mendeleev_classification querable_pymatgen
                        (elements ! i) ! k)"
    using cells
    by (simp add: tab cols' element_values_atomic_number_classification length_element_values_classification
        del: One_nat_def)
  from b cols' len' cells' show ?thesis by blast
qed

text \<open>
  Claim C2. Whatever the two databases return, the Builder of either notebook succeeds, and
  for every entry (atomic number, property, value) of its patch list and every row whose
  element has that atomic number, the cell of that property holds exactly the literal value
  of the patch list. The lookups are arbitrary functions here: the cell holds the literal
  also when the lookup returned a value for it.
\<close>

theorem patched_cells_hold_literal_values:
  "(\<exists>df. builder_regression mendel pymat elements = Inr df
      \<and> (\<forall>p\<in>set patches_regression. \<forall>i<length elements.
            mendel (elements ! i) ''atomic_number'' = Fin (fst p) \<longrightarrow>
            (\<exists>k. get_loc (columns df) (fst (snd p)) = Inr k
                 \<and> table df ! i ! k = Fin (snd (snd p)))))
   \<and> (\<exists>df. builder_classification mendel pymat elements = Inr df
      \<and> (\<forall>p\<in>set patches_classification. \<forall>i<length elements.
            mendel (elements ! i) ''atomic_number'' = Fin (fst p) \<longrightarrow>
            (\<exists>k. get_loc (columns df) (fst (snd p)) = Inr k
                 \<and> table df ! i ! k = Fin (snd (snd p)))))"
proof
  from builder_regression_cells[of mendel pymat elements]
  show "\<exists>df. builder_regression mendel pymat elements = Inr df
      \<and> (\<forall>p\<in>set patches_regression. \<forall>i<length elements.
            mendel (elements ! i) ''atomic_number'' = Fin (fst p) \<longrightarrow>
            (\<exists>k. get_loc (columns df) (fst (snd p)) = Inr k
                 \<and> table df ! i ! k = Fin (snd (snd p))))"
    by blast
next
  from builder_classification_cells[of mendel pymat elements]
  show "\<exists>df. builder_classification mendel pymat elements = Inr df
      \<and> (\<forall>p\<in>set patches_classification. \<forall>i<length elements.
            mendel (elements ! i) ''atomic_number'' = Fin (fst p) \<longrightarrow>
            (\<exists>k. get_loc (columns df) (fst (snd p)) = Inr k
                 \<and> table df ! i ! k = Fin (snd (snd p))))"
    by blast
qed


theorem patched_cells_witness:
  "element_values (\<lambda>e p. Fin 55) (\<lambda>e p. Fin 1) querable_mendeleev_regression querable_pymatgen ''Cs'' ! 16
     = Fin 1
   \<and> (case builder_regression (\<lambda>e p. Fin 55) (\<lambda>e p. Fin 1) [''Cs''] of
        Inl e \<Rightarrow> False
      | Inr df \<Rightarrow> table df ! 0 ! 16 = Fin (97 / 1000000))"
proof -
  have looked_up: "element_values (\<lambda>e p. Fin 55) (\<lambda>e p. Fin 1)
      querable_mendeleev_regression querable_pymatgen ''Cs'' ! 16 = Fin 1"
    by (simp add: element_values_def querable_mendeleev_regression_def querable_pymatgen_def)
  have p: "(55, ''coefficient_of_linear_thermal_expansion'', 97 / 1000000) \<in> set patches_regression"
    by (simp add: patches_regression_def patches_classification_def)
  have loc: "get_loc (querable_mendeleev_regression @ querable_pymatgen)
      ''coefficient_of_linear_thermal_expansion'' = Inr 16"
    by (simp add: querable_mendeleev_regression_def querable_pymatgen_def)
  from patched_cells_hold_literal_values[of "\<lambda>e p. Fin 55" "\<lambda>e p. Fin 1" "[''Cs'']"]
  obtain df where b: "builder_regression (\<lambda>e p. Fin 55) (\<lambda>e p. Fin 1) [''Cs''] = Inr df"
    and cells: "\<forall>p\<in>set patches_regression. \<forall>i<length [''Cs''].
            (\<lambda>e p. Fin 55) ([''Cs''] ! i) ''atomic_number'' = Fin (fst p) \<longrightarrow>
            (\<exists>k. get_loc (columns df) (fst (snd p)) = Inr k
                 \<and> table df ! i ! k = Fin (snd (snd p)))"
    by blast
  from builder_regression_cells[of "\<lambda>e p. Fin 55" "\<lambda>e p. Fin 1" "[''Cs'']"] b
  have cols: "columns df = querable_mendeleev_regression @ querable_pymatgen" by auto
  from cells p have "\<exists>k. get_loc (columns df) ''coefficient_of_linear_thermal_expansion'' = Inr k
                 \<and> table df ! 0 ! k = Fin (97 / 1000000)"
    by fastforce
  then have "table df ! 0 ! 16 = Fin (97 / 1000000)" by (simp add: cols loc)
  with b looked_up show ?thesis by simp
qed


subsection \<open>Missing values after the patches\<close>

lemma no_missing_iff:
  "no_missing t \<longleftrightarrow> (\<forall>i<length t. \<forall>k<length (t ! i). t ! i ! k \<noteq> NaN)"
  by (simp add: no_missing_def list_all_length)

lemma no_missing_characterised:
  fixes G :: "real \<times> string \<times> real \<Rightarrow> error + nat"
  assumes len: "length t = n"
    and cells: "\<forall>i<n. length (t ! i) = w
          \<and> (\<forall>p\<in>set ps. A i p \<longrightarrow> (\<exists>k. G p = Inr k \<and> t ! i ! k = Fin (snd (snd p))))
          \<and> (\<forall>k. \<not> (\<exists>p\<in>set ps. A i p \<and> G p = Inr k) \<longrightarrow> t ! i ! k = raw i k)"
  shows "no_missing t \<longleftrightarrow> (\<forall>i<n. \<forall>k<w. raw i k = NaN \<longrightarrow> (\<exists>p\<in>set ps. A i p \<and> G p = Inr k))"
proof
  assume nm: "no_missing t"
  show "\<forall>i<n. \<forall>k<w. raw i k = NaN \<longrightarrow> (\<exists>p\<in>set ps. A i p \<and> G p = Inr k)"
  proof (intro allI impI)
    fix i k
    assume i: "i < n" and k: "k < w" and gap: "raw i k = NaN"
    show "\<exists>p\<in>set ps. A i p \<and> G p = Inr k"
    proof (rule ccontr)
      assume "\<not> (\<exists>p\<in>set ps. A i p \<and> G p = Inr k)"
      with cells i have "t ! i ! k = raw i k" by blast
      moreover from nm i k len cells have "t ! i ! k \<noteq> NaN"
        by (simp add: no_missing_iff)
      ultimately show False using gap by simp
    qed
  qed
next
  assume cov: "\<forall>i<n. \<forall>k<w. raw i k = NaN \<longrightarrow> (\<exists>p\<in>set ps. A i p \<and> G p = Inr k)"
  have "\<forall>i<length t. \<forall>k<length (t ! i). t ! i ! k \<noteq> NaN"
  proof (intro allI impI)
    fix i k
    assume "i < length t" and "k < length (t ! i)"
    with len cells have i: "i < n" and k: "k < w" by auto
    show "t ! i ! k \<noteq> NaN"
    proof (cases "\<exists>p\<in>set ps. A i p \<and> G p = Inr k")
      case True
      then obtain p where p: "p \<in> set ps" "A i p" "G p = Inr k" by blast
      with cells i obtain k' where "G p = Inr k'" "t ! i ! k' = Fin (snd (snd p))" by blast
      with p(3) show ?thesis by simp
    next
      case False
      with cells i have "t ! i ! k = raw i k" by blast
      moreover from False cov i k have "raw i k \<noteq> NaN" by blast
      ultimately show ?thesis by simp
    qed
  qed
  then show "no_missing t" by (simp add: no_missing_iff)
qed


text \<open>
  Claim C6, as amended. The patch pass overwrites the patched cells and leaves every other
  cell as the lookup returned it; the Builder checks nothing. So the table has no missing
  value after the patch pass if and only if every gap left by the lookups lies at a cell of
  the patch list (a row whose atomic number, and a column whose name, a patch entry names).
\<close>

theorem no_missing_iff_gaps_patched:
  "(\<exists>df. builder_regression mendel pymat elements = Inr df
      \<and> (no_missing (table df) \<longleftrightarrow>
          (\<forall>i<length elements. \<forall>k<17.
             element_values mendel pymat querable_mendeleev_regression querable_pymatgen
               (elements ! i) ! k = NaN \<longrightarrow>
             (\<exists>p\<in>set patches_regression. mendel (elements ! i) ''atomic_number'' = Fin (fst p)
                \<and> get_loc (querable_mendeleev_regression @ querable_pymatgen) (fst (snd p)) = Inr k))))
   \<and> (\<exists>df. builder_classification mendel pymat elements = Inr df
      \<and> (no_missing (table df) \<longleftrightarrow>
          (\<forall>i<length elements. \<forall>k<18.
             element_values mendel pymat querable_mendeleev_classification querable_pymatgen
               (elements ! i) ! k = NaN \<longrightarrow>
             (\<exists>p\<in>set patches_classification. mendel (elements ! i) ''atomic_number'' = Fin (fst p)
                \<and> get_loc (querable_mendeleev_classification @ querable_pymatgen) (fst (snd p)) = Inr k))))"
proof
  from builder_regression_cells[of mendel pymat elements] obtain df where
    b: "builder_regression mendel pymat elements = Inr df"
    and cols: "columns df = querable_mendeleev_regression @ querable_pymatgen"
    and len: "length (table df) = length elements"
    and cells: "\<forall>i<length elements. length (table df ! i) = 17
          \<and> (\<forall>p\<in>set patches_regression. mendel (elements ! i) ''atomic_number'' = Fin (fst p) \<longrightarrow>
                (\<exists>k. get_loc (columns df) (fst (snd p)) = Inr k
                     \<and> table df ! i ! k = Fin (snd (snd p))))
          \<and> (\<forall>k. \<not> (\<exists>p\<in>set patches_regression. mendel (elements ! i) ''atomic_number'' = Fin (fst p)
                         \<and> get_loc (columns df) (fst (snd p)) = Inr k)
                \<longrightarrow> table df ! i ! k
                    = element_values mendel pymat querable_mendeleev_regression querable_pymatgen
                        (elements ! i) ! k)"
    by blast
  have "no_missing (table df) \<longleftrightarrow>
          (\<forall>i<length elements. \<forall>k<17.
             element_values mendel pymat querable_mendeleev_regression querable_pymatgen
               (elements ! i) ! k = NaN \<longrightarrow>
             (\<exists>p\<in>set patches_regression. mendel (elements ! i) ''atomic_number'' = Fin (fst p)
                \<and> get_loc (querable_mendeleev_regression @ querable_pymatgen) (fst (snd p)) = Inr k))"
    using len cells unfolding cols by (rule no_missing_characterised)
  with b show "\<exists>df. builder_regression mendel pymat elements = Inr df
      \<and> (no_missing (table df) \<longleftrightarrow>
          (\<forall>i<length elements. \<forall>k<17.
             element_values mendel pymat querable_mendeleev_regression querable_pymatgen
               (elements ! i) ! k = NaN \<longrightarrow>
             (\<exists>p\<in>set patches_regression. mendel (elements ! i) ''atomic_number'' = Fin (fst p)
                \<and> get_loc (querable_mendeleev_regression @ querable_pymatgen) (fst (snd p)) = Inr k)))"
    by blast
next
  from builder_classification_cells[of mendel pymat elements] obtain df where
    b: "builder_classification mendel pymat elements = Inr df"
    and cols: "columns df = querable_mendeleev_classification @ querable_pymatgen"
    and len: "length (table df) = length elements"
    and cells: "\<forall>i<length elements. length (table df ! i) = 18
          \<and> (\<forall>p\<in>set patches_classification. mendel (elements ! i) ''atomic_number'' = Fin (fst p) \<longrightarrow>
                (\<exists>k. get_loc (columns df) (fst (snd p)) = Inr k
                     \<and> table df ! i ! k = Fin (snd (snd p))))
          \<and> (\<forall>k. \<not> (\<exists>p\<in>set patches_classification. mendel (elements ! i) ''atomic_number'' = Fin (fst p)
                         \<and> get_loc (columns df) (fst (snd p)) = Inr k)
                \<longrightarrow> table df ! i ! k
                    = element_values mendel pymat querable_mendeleev_classification querable_pymatgen
                        (elements ! i) ! k)"
    by blast
  have "no_missing (table df) \<longleftrightarrow>
          (\<forall>i<length elements. \<forall>k<18.
             element_values mendel pymat querable_mendeleev_classification querable_pymatgen
               (elements ! i) ! k = NaN \<longrightarrow>
             (\<exists>p\<in>set patches_classification. mendel (elements ! i) ''atomic_number'' = Fin (fst p)
                \<and> get_loc (querable_mendeleev_classification @ querable_pymatgen) (fst (snd p)) = Inr k))"
    using len cells unfolding cols by (rule no_missing_characterised)
  with b show "\<exists>df. builder_classification mendel pymat elements = Inr df
      \<and> (no_missing (table df) \<longleftrightarrow>
          (\<forall>i<length elements. \<forall>k<18.
             element_values mendel pymat querable_mendeleev_classification querable_pymatgen
               (elements ! i) ! k = NaN \<longrightarrow>
             (\<exists>p\<in>set patches_classification. mendel (elements ! i) ''atomic_number'' = Fin (fst p)
                \<and> get_loc (querable_mendeleev_classification @ querable_pymatgen) (fst (snd p)) = Inr k)))"
    by blast
qed

theorem no_missing_witness:
  "(case builder_regression (\<lambda>e p. Fin 55)
           (\<lambda>e p. if p = ''coefficient_of_linear_thermal_expansion'' then NaN else Fin 1) [''Cs''] of
      Inl e \<Rightarrow> False
    | Inr df \<Rightarrow> no_missing (table df))"
proof -
  let ?m = "\<lambda>(e::string) (p::string). Fin 55"
  let ?p = "\<lambda>(e::string) p. if p = ''coefficient_of_linear_thermal_expansion'' then NaN else Fin 1"
  have raw: "element_values ?m ?p querable_mendeleev_regression querable_pymatgen ''Cs''
      = [Fin 55, Fin 55, Fin 55, Fin 55, Fin 55, Fin 55, Fin 55, Fin 55,
         Fin 1, Fin 1, Fin 1, Fin 1, Fin 1, Fin 1, Fin 1, Fin 1, NaN]"
    by (simp add: element_values_def querable_mendeleev_regression_def querable_pymatgen_def)
  have loc: "get_loc (querable_mendeleev_regression @ querable_pymatgen)
      ''coefficient_of_linear_thermal_expansion'' = Inr 16"
    by (simp add: querable_mendeleev_regression_def querable_pymatgen_def)
  have p: "(55, ''coefficient_of_linear_thermal_expansion'', 97 / 1000000) \<in> set patches_regression"
    by (simp add: patches_regression_def patches_classification_def)
  have only: "\<forall>k<17. [Fin 55, Fin 55, Fin 55, Fin 55, Fin 55, Fin 55, Fin 55, Fin 55,
         Fin 1, Fin 1, Fin 1, Fin 1, Fin 1, Fin 1, Fin 1, Fin 1, NaN] ! k = NaN \<longrightarrow> k = 16"
    by (simp add: nth_Cons' All_less_Suc eval_nat_numeral)
  have covered: "\<forall>i<length [''Cs'']. \<forall>k<17.
      element_values ?m ?p querable_mendeleev_regression querable_pymatgen ([''Cs''] ! i) ! k = NaN \<longrightarrow>
      (\<exists>q\<in>set patches_regression. ?m ([''Cs''] ! i) ''atomic_number'' = Fin (fst q)
          \<and> get_loc (querable_mendeleev_regression @ querable_pymatgen) (fst (snd q)) = Inr k)"
  proof (intro allI impI)
    fix i k
    assume "i < length [''Cs'']" and k: "k < 17"
      and "element_values ?m ?p querable_mendeleev_regression querable_pymatgen ([''Cs''] ! i) ! k = NaN"
    then have "k = 16" using only by (simp add: raw)
    with p loc show "\<exists>q\<in>set patches_regression. ?m ([''Cs''] ! i) ''atomic_number'' = Fin (fst q)
          \<and> get_loc (querable_mendeleev_regression @ querable_pymatgen) (fst (snd q)) = Inr k"
      by force
  qed
  from no_missing_iff_gaps_patched[of ?m ?p "[''Cs'']"] covered
  show ?thesis by auto
qed

text \<open>
  Claim C6 as stated fails when a lookup leaves a gap that no patch entry covers: here the
  boiling point of iron is unknown, the Builder returns the table all the same, and the
  missing value is still in it.
\<close>

theorem missing_value_survives_counterexample:
  "builder_regression (\<lambda>e p. if p = ''boiling_point'' then NaN else Fin 26) (\<lambda>e p. Fin 1) [''Fe'']
     = Inr \<lparr>columns = querable_mendeleev_regression @ querable_pymatgen,
            table = [[Fin 26, Fin 26, NaN, Fin 26, Fin 26, Fin 26, Fin 26, Fin 26,
                      Fin 1, Fin 1, Fin 1, Fin 1, Fin 1, Fin 1, Fin 1, Fin 1, Fin 1]]\<rparr>
   \<and> \<not> no_missing [[Fin 26, Fin 26, NaN, Fin 26, Fin 26, Fin 26, Fin 26, Fin 26,
                      Fin 1, Fin 1, Fin 1, Fin 1, Fin 1, Fin 1, Fin 1, Fin 1, Fin 1]]"
  by (simp add: builder_regression_def patches_regression_def patches_classification_def
      patch_def iloc_set_def element_values_def querable_mendeleev_regression_def
      querable_pymatgen_def no_missing_def)


subsection \<open>The labels of the classification notebook\<close>

lemma crystal_lists_disjoint:
  "set fcc_elements \<inter> set bcc_elements_classification = {}"
  "set fcc_elements \<inter> set hcp_elements_classification = {}"
  "set bcc_elements_classification \<inter> set hcp_elements_classification = {}"
  by (simp_all add: fcc_elements_def bcc_elements_classification_def hcp_elements_classification_def)

lemma set_elements_classification:
  "set elements_classification
     = set fcc_elements \<union> set bcc_elements_classification \<union> set hcp_elements_classification"
  by (simp add: elements_classification_def Un_assoc)


text \<open>
  Claim C10. The three crystal-structure lists are pairwise disjoint and the element list,
  in any order the shuffle leaves it, is their union. So every iteration of the query loop
  appends one feature row and one label row (after \<open>n\<close> iterations both lists hold
  \<open>n\<close> rows), the labels are aligned with the features by position, and the label of an
  element is the one-hot vector of its list: one of \<open>[1,0,0]\<close>, \<open>[0,1,0]\<close>,
  \<open>[0,0,1]\<close>, with entries summing to 1.
\<close>

theorem one_hot_label_per_element:
  assumes shuffled: "mset elements = mset elements_classification"
  shows "set fcc_elements \<inter> set bcc_elements_classification = {}
     \<and> set fcc_elements \<inter> set hcp_elements_classification = {}
     \<and> set bcc_elements_classification \<inter> set hcp_elements_classification = {}
     \<and> set elements = set fcc_elements \<union> set bcc_elements_classification
                         \<union> set hcp_elements_classification
     \<and> (\<forall>n\<le>length elements.
           length (fst (query_loop_classification mendel pymat (take n elements) ([], []))) = n
         \<and> length (snd (query_loop_classification mendel pymat (take n elements) ([], []))) = n)
     \<and> (\<forall>i<length elements.
           fst (query_loop_classification mendel pymat elements ([], [])) ! i
             = element_values mendel pymat querable_mendeleev_classification querable_pymatgen
                 (elements ! i)
         \<and> snd (query_loop_classification mendel pymat elements ([], [])) ! i
             \<in> {[1, 0, 0], [0, 1, 0], [0, 0, 1]}
         \<and> sum_list (snd (query_loop_classification mendel pymat elements ([], [])) ! i) = 1
         \<and> (snd (query_loop_classification mendel pymat elements ([], [])) ! i = [1, 0, 0]
              \<longleftrightarrow> elements ! i \<in> set fcc_elements)
         \<and> (snd (query_loop_classification mendel pymat elements ([], [])) ! i = [0, 1, 0]
              \<longleftrightarrow> elements ! i \<in> set bcc_elements_classification)
         \<and> (snd (query_loop_classification mendel pymat elements ([], [])) ! i = [0, 0, 1]
              \<longleftrightarrow> elements ! i \<in> set hcp_elements_classification))"
proof -
  let ?U = "set fcc_elements \<union> set bcc_elements_classification \<union> set hcp_elements_classification"
  let ?lab = "\<lambda>item. if item \<in> set fcc_elements then [1, 0, 0]
                          else if item \<in> set bcc_elements_classification then [0, 1, 0]
                          else [0, 0, 1::int]"
  from shuffled have "set elements = set elements_classification" by (rule mset_eq_setD)
  then have cover: "set elements = ?U" by (simp only: set_elements_classification)
  have sub: "\<And>n. set (take n elements) \<subseteq> ?U"
    using cover set_take_subset by fastforce
  have vals: "\<And>es. fst (query_loop_classification mendel pymat es ([], []))
      = map (element_values mendel pymat querable_mendeleev_classification querable_pymatgen) es"
    by (simp add: query_loop_classification_fst)
  have labs: "\<And>es. set es \<subseteq> ?U \<Longrightarrow>
      snd (query_loop_classification mendel pymat es ([], [])) = map ?lab es"
    using query_loop_classification_snd[where all_labels = "[]"] by simp
  have lockstep: "\<forall>n\<le>length elements.
           length (fst (query_loop_classification mendel pymat (take n elements) ([], []))) = n
         \<and> length (snd (query_loop_classification mendel pymat (take n elements) ([], []))) = n"
    by (simp add: vals labs[OF sub])
  have full: "snd (query_loop_classification mendel pymat elements ([], [])) = map ?lab elements"
    using labs[of elements] cover by simp
  have rows: "\<forall>i<length elements.
           fst (query_loop_classification mendel pymat elements ([], [])) ! i
             = element_values mendel pymat querable_mendeleev_classification querable_pymatgen
                 (elements ! i)
         \<and> snd (query_loop_classification mendel pymat elements ([], [])) ! i
             \<in> {[1, 0, 0], [0, 1, 0], [0, 0, 1]}
         \<and> sum_list (snd (query_loop_classification mendel pymat elements ([], [])) ! i) = 1
         \<and> (snd (query_loop_classification mendel pymat elements ([], [])) ! i = [1, 0, 0]
              \<longleftrightarrow> elements ! i \<in> set fcc_elements)
         \<and> (snd (query_loop_classification mendel pymat elements ([], [])) ! i = [0, 1, 0]
              \<longleftrightarrow> elements ! i \<in> set bcc_elements_classification)
         \<and> (snd (query_loop_classification mendel pymat elements ([], [])) ! i = [0, 0, 1]
              \<longleftrightarrow> elements ! i \<in> set hcp_elements_classification)"
  proof (intro allI impI)
    fix i assume i: "i < length elements"
    then have mem: "elements ! i \<in> ?U" using cover nth_mem by blast
    have l: "snd (query_loop_classification mendel pymat elements ([], [])) ! i = ?lab (elements ! i)"
      using i by (simp add: full)
    have v: "fst (query_loop_classification mendel pymat elements ([], [])) ! i
             = element_values mendel pymat querable_mendeleev_classification querable_pymatgen
                 (elements ! i)"
      using i by (simp add: vals)
    show "fst (query_loop_classification mendel pymat elements ([], [])) ! i
             = element_values mendel pymat querable_mendeleev_classification querable_pymatgen
                 (elements ! i)
         \<and> snd (query_loop_classification mendel pymat elements ([], [])) ! i
             \<in> {[1, 0, 0], [0, 1, 0], [0, 0, 1]}
         \<and> sum_list (snd (query_loop_classification mendel pymat elements ([], [])) ! i) = 1
         \<and> (snd (query_loop_classification mendel pymat elements ([], [])) ! i = [1, 0, 0]
              \<longleftrightarrow> elements ! i \<in> set fcc_elements)
         \<and> (snd (query_loop_classification mendel pymat elements ([], [])) ! i = [0, 1, 0]
              \<longleftrightarrow> elements ! i \<in> set bcc_elements_classification)
         \<and> (snd (query_loop_classification mendel pymat elements ([], [])) ! i = [0, 0, 1]
              \<longleftrightarrow> elements ! i \<in> set hcp_elements_classification)"
      unfolding l v using mem crystal_lists_disjoint by auto
  qed
  from crystal_lists_disjoint cover lockstep rows show ?thesis by blast
qed


theorem one_hot_label_witness:
  "mset (rev elements_classification) = mset elements_classification
   \<and> rev elements_classification ! 0 = ''Zr''
   \<and> snd (query_loop_classification (\<lambda>e p. NaN) (\<lambda>e p. NaN) (rev elements_classification) ([], [])) ! 0
       = [0, 0, 1]
   \<and> length (snd (query_loop_classification (\<lambda>e p. NaN) (\<lambda>e p. NaN)
                (rev elements_classification) ([], []))) = 47"
proof -
  have sh: "mset (rev elements_classification) = mset elements_classification" by simp
  have len: "length (rev elements_classification) = 47"
    by (simp add: elements_classification_def fcc_elements_def bcc_elements_classification_def
        hcp_elements_classification_def)
  have first: "rev elements_classification ! 0 = ''Zr''"
    by (simp add: elements_classification_def fcc_elements_def bcc_elements_classification_def
        hcp_elements_classification_def)
  have hcp: "''Zr'' \<in> set hcp_elements_classification"
    by (simp add: hcp_elements_classification_def)
  note t = one_hot_label_per_element[OF sh, of "\<lambda>e p. NaN" "\<lambda>e p. NaN"]
  from t have lock: "\<forall>n\<le>length (rev elements_classification).
      length (snd (query_loop_classification (\<lambda>e p. NaN) (\<lambda>e p. NaN)
         (take n (rev elements_classification)) ([], []))) = n" by blast
  from lock have l47: "length (snd (query_loop_classification (\<lambda>e p. NaN) (\<lambda>e p. NaN)
                (rev elements_classification) ([], []))) = 47"
    using len by (metis order_refl take_all)
  from t have "\<forall>i<length (rev elements_classification).
      (snd (query_loop_classification (\<lambda>e p. NaN) (\<lambda>e p. NaN) (rev elements_classification) ([], [])) ! i
          = [0, 0, 1] \<longleftrightarrow> rev elements_classification ! i \<in> set hcp_elements_classification)"
    by blast
  then have "snd (query_loop_classification (\<lambda>e p. NaN) (\<lambda>e p. NaN) (rev elements_classification) ([], [])) ! 0
          = [0, 0, 1]"
    using len first hcp by (metis zero_less_numeral)
  with sh first l47 show ?thesis by blast
qed

section \<open>Properties of the charts\<close>

lemma take_rows_upt:
  assumes "n \<le> length xs"
  shows "take_rows xs [0..<n] = Inr (take n xs)"
proof -
  have "list_all (\<lambda>i. i < length xs) [0..<n]" using assms by (simp add: list_all_iff)
  moreover have "map (\<lambda>i. xs ! i) [0..<n] = take n xs"
    using assms by (simp add: list_eq_iff_nth_eq)
  ultimately show ?thesis by (simp add: take_rows_def)
qed

lemma take_rows_upt_suffix:
  assumes "n \<le> length xs" "m \<le> n"
  shows "take_rows xs [m..<n] = Inr (drop m (take n xs))"
proof -
  have "list_all (\<lambda>i. i < length xs) [m..<n]" using assms by (simp add: list_all_iff)
  moreover have "map (\<lambda>i. xs ! i) [m..<n] = drop m (take n xs)"
    using assms by (simp add: list_eq_iff_nth_eq)
  ultimately show ?thesis by (simp add: take_rows_def)
qed

lemma partition_rows_exact:
  assumes "0 < testing_count" "length xs = training_count + testing_count"
  shows "partition_rows training_count testing_count xs
           = (take training_count xs, drop training_count xs)"
  using assms by (simp add: partition_rows_def slice_to_nat slice_from_neg)

lemma organize_regression_result:
  assumes pos: "0 < testing_count"
    and n: "nrows = training_count + testing_count"
    and lv: "nrows \<le> length values" and ll: "nrows \<le> length labels"
    and le: "nrows \<le> length elems"
  shows "organize_regression nrows training_count testing_count ncols elems values labels
    = Inr \<lparr>rs_all_labels = take nrows labels,
           rs_train_labels = take training_count labels,
           rs_test_labels = drop training_count (take nrows labels),
           rs_train_values = fst (normalize_regression ncols (take training_count values)
                                    (drop training_count (take nrows values))),
           rs_test_values = snd (normalize_regression ncols (take training_count values)
                                    (drop training_count (take nrows values))),
           rs_elements = take nrows elems,
           rs_labeled_elements = drop training_count (take nrows elems)\<rparr>"
proof -
  have sl: "slice_from [0..<nrows] (- int testing_count) = [training_count..<nrows]"
    using pos n by (simp add: slice_from_neg)
  have tl: "training_count \<le> nrows" using n by simp
  have pl: "partition_rows training_count testing_count (take nrows labels)
      = (take training_count (take nrows labels), drop training_count (take nrows labels))"
    using pos n ll by (intro partition_rows_exact) simp_all
  have pv: "partition_rows training_count testing_count (take nrows values)
      = (take training_count (take nrows values), drop training_count (take nrows values))"
    using pos n lv by (intro partition_rows_exact) simp_all
  have t1: "take training_count (take nrows labels) = take training_count labels"
    using tl by (simp add: min_def)
  have t2: "take training_count (take nrows values) = take training_count values"
    using tl by (simp add: min_def)
  show ?thesis
    unfolding organize_regression_def Let_def sl
    by (simp add: take_rows_upt[OF lv] take_rows_upt[OF ll] take_rows_upt[OF le]
        take_rows_upt_suffix[OF le tl] pl pv t1 t2 split_beta min.absorb1[OF tl])
qed

text \<open>
  Claim C9. In the chart of the regression notebook the series named "Training" is not the
  training partition: it is built from \<open>all_labels\<close> and from the predictions over the
  training rows followed by the testing rows, so it holds every point, the training points
  first and then the same testing points that the series named "Testing" holds. (The
  \<open>plot\<close> function of the linear-regression notebook builds its training series from
  the training data alone.)
\<close>

theorem training_series_holds_testing_points:
  assumes pos: "0 < testing_count"
    and n: "nrows = training_count + testing_count"
    and lv: "nrows \<le> length values" and ll: "nrows \<le> length labels"
    and le: "nrows \<le> length elems"
  shows "\<exists>d. organize_regression nrows training_count testing_count ncols elems values labels = Inr d
     \<and> length (rs_train_labels d) = training_count
     \<and> length (rs_test_labels d) = testing_count
     \<and> trace_name (fst (plot_regression net d)) = ''Young's Modulus (Training)''
     \<and> trace_name (snd (plot_regression net d)) = ''Young's Modulus (Testing)''
     \<and> trace_x (fst (plot_regression net d)) = rs_train_labels d @ rs_test_labels d
     \<and> trace_y (fst (plot_regression net d))
          = predict net (rs_train_values d) @ predict net (rs_test_values d)
     \<and> length (trace_x (fst (plot_regression net d))) = training_count + testing_count
     \<and> trace_x (snd (plot_regression net d)) = rs_test_labels d
     \<and> trace_y (snd (plot_regression net d)) = predict net (rs_test_values d)
     \<and> trace_text (snd (plot_regression net d)) = rs_labeled_elements d
     \<and> drop training_count (trace_x (fst (plot_regression net d)))
          = trace_x (snd (plot_regression net d))
     \<and> drop training_count (trace_y (fst (plot_regression net d)))
          = trace_y (snd (plot_regression net d))
     \<and> drop training_count (trace_text (fst (plot_regression net d)))
          = trace_text (snd (plot_regression net d))
     \<and> trace_x (fst (plot_linreg x_train x_test y_train y_test predictions)) = x_train
     \<and> trace_y (fst (plot_linreg x_train x_test y_train y_test predictions)) = y_train
     \<and> trace_x (fst (snd (plot_linreg x_train x_test y_train y_test predictions))) = x_test
     \<and> trace_y (fst (snd (plot_linreg x_train x_test y_train y_test predictions))) = y_test"
proof -
  let ?d = "\<lparr>rs_all_labels = take nrows labels,
           rs_train_labels = take training_count labels,
           rs_test_labels = drop training_count (take nrows labels),
           rs_train_values = fst (normalize_regression ncols (take training_count values)
                                    (drop training_count (take nrows values))),
           rs_test_values = snd (normalize_regression ncols (take training_count values)
                                    (drop training_count (take nrows values))),
           rs_elements = take nrows elems,
           rs_labeled_elements = drop training_count (take nrows elems)\<rparr>"
  have r: "organize_regression nrows training_count testing_count ncols elems values labels = Inr ?d"
    using assms by (rule organize_regression_result)
  have tl: "training_count \<le> nrows" using n by simp
  have l1: "length (rs_train_labels ?d) = training_count" using tl ll by simp
  have l2: "length (rs_test_labels ?d) = testing_count" using n ll by simp
  have x0: "take nrows labels = take training_count labels @ drop training_count (take nrows labels)"
    using tl by (metis append_take_drop_id min.absorb1 take_take)
  have ltr: "length (fst (normalize_regression ncols (take training_count values)
                                    (drop training_count (take nrows values)))) = training_count"
    using tl lv by (simp add: normalize_regression_def Let_def input_scaling_def)
  have "trace_x (fst (plot_regression net ?d)) = rs_train_labels ?d @ rs_test_labels ?d"
    using x0 by (simp add: plot_regression_def Let_def)
  moreover have "trace_y (fst (plot_regression net ?d))
          = predict net (rs_train_values ?d) @ predict net (rs_test_values ?d)"
    by (simp add: plot_regression_def Let_def predict_def)
  moreover have "length (trace_x (fst (plot_regression net ?d))) = training_count + testing_count"
    using n ll by (simp add: plot_regression_def Let_def)
  moreover have "drop training_count (trace_x (fst (plot_regression net ?d)))
          = trace_x (snd (plot_regression net ?d))"
    by (simp add: plot_regression_def Let_def)
  moreover have "drop training_count (trace_y (fst (plot_regression net ?d)))
          = trace_y (snd (plot_regression net ?d))"
    using ltr by (simp add: plot_regression_def Let_def predict_def)
  moreover have "drop training_count (trace_text (fst (plot_regression net ?d)))
          = trace_text (snd (plot_regression net ?d))"
    by (simp add: plot_regression_def Let_def)
  moreover have "trace_name (fst (plot_regression net ?d)) = ''Young's Modulus (Training)''"
    "trace_name (snd (plot_regression net ?d)) = ''Young's Modulus (Testing)''"
    "trace_x (snd (plot_regression net ?d)) = rs_test_labels ?d"
    "trace_y (snd (plot_regression net ?d)) = predict net (rs_test_values ?d)"
    "trace_text (snd (plot_regression net ?d)) = rs_labeled_elements ?d"
    by (simp_all add: plot_regression_def Let_def)
  moreover have "trace_x (fst (plot_linreg x_train x_test y_train y_test predictions)) = x_train"
    "trace_y (fst (plot_linreg x_train x_test y_train y_test predictions)) = y_train"
    "trace_x (fst (snd (plot_linreg x_train x_test y_train y_test predictions))) = x_test"
    "trace_y (fst (snd (plot_linreg x_train x_test y_train y_test predictions))) = y_test"
    by (simp_all add: plot_linreg_def Let_def)
  ultimately show ?thesis using r l1 l2 by blast
qed

theorem training_series_witness:
  "organize_regression 3 2 1 1 [''Ag'', ''Al'', ''Au''] [[Fin 1], [Fin 3], [Fin 5]]
       [Fin 10, Fin 20, Fin 30]
     = Inr \<lparr>rs_all_labels = [Fin 10, Fin 20, Fin 30], rs_train_labels = [Fin 10, Fin 20],
            rs_test_labels = [Fin 30], rs_train_values = [[Fin (- 1)], [Fin 1]],
            rs_test_values = [[Fin 3]], rs_elements = [''Ag'', ''Al'', ''Au''],
            rs_labeled_elements = [''Au'']\<rparr>
   \<and> trace_x (fst (plot_regression fsum
        \<lparr>rs_all_labels = [Fin 10, Fin 20, Fin 30], rs_train_labels = [Fin 10, Fin 20],
            rs_test_labels = [Fin 30], rs_train_values = [[Fin (- 1)], [Fin 1]],
            rs_test_values = [[Fin 3]], rs_elements = [''Ag'', ''Al'', ''Au''],
            rs_labeled_elements = [''Au'']\<rparr>)) = [Fin 10, Fin 20, Fin 30]
   \<and> trace_y (fst (plot_regression fsum
        \<lparr>rs_all_labels = [Fin 10, Fin 20, Fin 30], rs_train_labels = [Fin 10, Fin 20],
            rs_test_labels = [Fin 30], rs_train_values = [[Fin (- 1)], [Fin 1]],
            rs_test_values = [[Fin 3]], rs_elements = [''Ag'', ''Al'', ''Au''],
            rs_labeled_elements = [''Au'']\<rparr>)) = [Fin (- 1), Fin 1, Fin 3]"
proof -
  let ?d = "\<lparr>rs_all_labels = [Fin 10, Fin 20, Fin 30], rs_train_labels = [Fin 10, Fin 20],
            rs_test_labels = [Fin 30], rs_train_values = [[Fin (- 1)], [Fin 1]],
            rs_test_values = [[Fin 3]], rs_elements = [''Ag'', ''Al'', ''Au''],
            rs_labeled_elements = [''Au'']\<rparr>"
  have n: "normalize_regression 1 [[Fin 1], [Fin 3]] [[Fin 5]] = ([[Fin (- 1)], [Fin 1]], [[Fin 3]])"
    by (simp add: normalize_regression_def axis0_def column_def np_std_def np_mean_def fsub_def
        input_scaling_def scale_row_def)
  have r: "organize_regression 3 2 1 1 [''Ag'', ''Al'', ''Au''] [[Fin 1], [Fin 3], [Fin 5]]
       [Fin 10, Fin 20, Fin 30] = Inr ?d"
    using organize_regression_result[of 1 3 2 "[[Fin 1], [Fin 3], [Fin 5]]" "[Fin 10, Fin 20, Fin 30]"
        "[''Ag'', ''Al'', ''Au'']" 1] n
    by simp
  have h1: "(0::nat) < 1" and h2: "(3::nat) = 2 + 1"
    and h3: "3 \<le> length [[Fin 1], [Fin 3], [Fin 5]]" and h4: "3 \<le> length [Fin 10, Fin 20, Fin 30]"
    and h5: "3 \<le> length [''Ag'', ''Al'', ''Au'']" by simp_all
  from training_series_holds_testing_points[OF h1 h2 h3 h4 h5, of 1 fsum] r
  have "trace_x (fst (plot_regression fsum ?d)) = rs_train_labels ?d @ rs_test_labels ?d
     \<and> trace_y (fst (plot_regression fsum ?d))
          = predict fsum (rs_train_values ?d) @ predict fsum (rs_test_values ?d)"
    by auto
  then have "trace_x (fst (plot_regression fsum ?d)) = [Fin 10, Fin 20, Fin 30]
     \<and> trace_y (fst (plot_regression fsum ?d)) = [Fin (- 1), Fin 1, Fin 3]"
    by (simp add: predict_def)
  with r show ?thesis by blast
qed

section \<open>Properties of the aggregate errors\<close>

lemma finite_values_map_Fin: "finite_values (map Fin rs) = Inr rs"
  by (induction rs) simp_all

lemma sum_list_map2_nth:
  fixes f :: "'a \<Rightarrow> 'b \<Rightarrow> real"
  assumes "length xs = length ys"
  shows "sum_list (map2 f xs ys) = (\<Sum>i<length xs. f (xs ! i) (ys ! i))"
proof -
  have "sum_list (map2 f xs ys) = (\<Sum>i = 0..<length (map2 f xs ys). map2 f xs ys ! i)"
    by (rule sum_list_sum_nth)
  also have "\<dots> = (\<Sum>i = 0..<length xs. f (xs ! i) (ys ! i))"
    using assms by (intro sum.cong) simp_all
  finally show ?thesis by (simp add: lessThan_atLeast0)
qed

lemma regression_report_finite:
  assumes ne: "xtr \<noteq> []" and ltr: "length xtr = length ytr" and lte: "length xte = length yte"
  shows "regression (map Fin xtr) (map Fin xte) (map Fin ytr) (map Fin yte)
      = Inr \<lparr>printed_equation = ols_fit xtr ytr,
             printed_mean_squared_error
               = mean_squared_error (ytr @ yte) (linear_predict (ols_fit xtr ytr) (xtr @ xte)),
             returned_predictions = linear_predict (ols_fit xtr ytr) (xtr @ xte)\<rparr>"
proof -
  have a: "finite_values (map Fin xtr @ map Fin xte) = Inr (xtr @ xte)"
    using finite_values_map_Fin[of "xtr @ xte"] by simp
  have b: "finite_values (map Fin ytr @ map Fin yte) = Inr (ytr @ yte)"
    using finite_values_map_Fin[of "ytr @ yte"] by simp
  show ?thesis
    using assms
    by (simp add: regression_def finite_values_map_Fin a b Let_def linear_predict_def)
qed

lemma mean_squared_error_sum:
  assumes "length y_true = length y_pred"
  shows "mean_squared_error y_true y_pred
     = (\<Sum>i<length y_true. (y_true ! i - y_pred ! i) * (y_true ! i - y_pred ! i))
         / real (length y_true)"
  using assms by (simp add: mean_squared_error_def mean_list_def sum_list_map2_nth)

subsection \<open>The mean absolute error of a network\<close>

lemma fsum_map_Fin_fun: "fsum (map (\<lambda>i. Fin (g i)) is) = Fin (sum_list (map g is))"
  by (induction "is") simp_all

lemma keras_mae_finite:
  assumes len: "length values = n" "length labels = n" and pos: "0 < n"
    and fin: "\<forall>i<n. net (values ! i) = Fin (p i) \<and> labels ! i = Fin (t i)"
  shows "keras_mae net values labels = Fin ((\<Sum>i<n. \<bar>t i - p i\<bar>) / real n)"
proof -
  have "map2 (\<lambda>p t. fabs (fsub t p)) (predict net values) labels
      = map (\<lambda>i. Fin \<bar>t i - p i\<bar>) [0..<n]"
    using len fin by (simp add: list_eq_iff_nth_eq predict_def fsub_def)
  then have "keras_mae net values labels
      = fdiv (Fin (sum_list (map (\<lambda>i. \<bar>t i - p i\<bar>) [0..<n]))) (Fin (real n))"
    by (simp add: keras_mae_def np_mean_def fsum_map_Fin_fun)
  also have "sum_list (map (\<lambda>i. \<bar>t i - p i\<bar>) [0..<n]) = (\<Sum>i<n. \<bar>t i - p i\<bar>)"
    by (simp add: interv_sum_list_conv_sum_set_nat lessThan_atLeast0)
  finally show ?thesis using pos by simp
qed

subsection \<open>The accuracy of a classifier\<close>

lemma sum_list_indicator:
  "sum_list (map (\<lambda>i. if P i then 1 else (0::real)) [0..<n]) = real (card {i. i < n \<and> P i})"
proof (induction n)
  case 0
  then show ?case by simp
next
  case (Suc n)
  have fin: "finite {i. i < n \<and> P i}" by simp
  have "{i. i < Suc n \<and> P i} = (if P n then insert n {i. i < n \<and> P i} else {i. i < n \<and> P i})"
    by (auto simp: less_Suc_eq)
  moreover have "n \<notin> {i. i < n \<and> P i}" by simp
  ultimately have "card {i. i < Suc n \<and> P i} = (if P n then Suc (card {i. i < n \<and> P i}) else card {i. i < n \<and> P i})"
    using fin by simp
  with Suc show ?case by simp
qed

lemma keras_accuracy_count:
  assumes len: "length values = n" "length labels = n" and pos: "0 < n"
  shows "keras_accuracy net values labels
     = Fin (real (card {i. i < n \<and> argmax (net (values ! i))
                                  = argmax (map (\<lambda>z. Fin (real_of_int z)) (labels ! i))}) / real n)"
proof -
  let ?P = "\<lambda>i. argmax (net (values ! i)) = argmax (map (\<lambda>z. Fin (real_of_int z)) (labels ! i))"
  have "map2 (\<lambda>p t. if argmax p = argmax (map (\<lambda>z. Fin (real_of_int z)) t) then Fin 1 else Fin 0)
          (predict net values) labels
      = map (\<lambda>i. Fin (if ?P i then 1 else 0)) [0..<n]"
    using len by (simp add: list_eq_iff_nth_eq predict_def)
  then have "keras_accuracy net values labels
      = fdiv (Fin (sum_list (map (\<lambda>i. if ?P i then 1 else 0) [0..<n]))) (Fin (real n))"
    by (simp add: keras_accuracy_def np_mean_def fsum_map_Fin_fun)
  then show ?thesis using pos by (simp add: sum_list_indicator)
qed

lemma argmax_one_hot:
  "argmax (map (\<lambda>z. Fin (real_of_int z)) [1, 0, 0]) = 0"
  "argmax (map (\<lambda>z. Fin (real_of_int z)) [0, 1, 0]) = 1"
  "argmax (map (\<lambda>z. Fin (real_of_int z)) [0, 0, 1]) = 2"
  by (simp_all add: argmax_def)

lemma fless_irrefl: "\<not> fless x x"
  by (cases x) simp_all

lemma fless_trans: "fless x y \<Longrightarrow> fless y z \<Longrightarrow> fless x z"
  by (cases x; cases y; cases z) simp_all

lemma fless_total: "x \<noteq> NaN \<Longrightarrow> y \<noteq> NaN \<Longrightarrow> fless x y \<or> x = y \<or> fless y x"
  by (cases x; cases y) auto

lemma argmax_scan_greatest:
  assumes "\<forall>v\<in>set pre. v \<noteq> NaN" "\<forall>v\<in>set vs. v \<noteq> NaN"
    and "best < length pre" "pre ! best = bv"
    and "\<forall>j<length pre. \<not> fless bv (pre ! j)"
    and "\<forall>j<best. fless (pre ! j) bv"
  shows "argmax_scan best bv (length pre) vs < length (pre @ vs)
     \<and> (\<forall>j<length (pre @ vs). \<not> fless ((pre @ vs) ! argmax_scan best bv (length pre) vs) ((pre @ vs) ! j))
     \<and> (\<forall>j<argmax_scan best bv (length pre) vs.
           fless ((pre @ vs) ! j) ((pre @ vs) ! argmax_scan best bv (length pre) vs))"
  using assms
proof (induction vs arbitrary: pre best bv)
  case Nil
  then show ?case by simp
next
  case (Cons v vs)
  let ?pre = "pre @ [v]"
  have bv: "bv \<noteq> NaN" using Cons.prems(1,3,4) nth_mem by blast
  have v: "v \<noteq> NaN" using Cons.prems(2) by simp
  have nn: "\<forall>u\<in>set ?pre. u \<noteq> NaN" using Cons.prems(1) v by simp
  have nn': "\<forall>u\<in>set vs. u \<noteq> NaN" using Cons.prems(2) by simp
  have app: "?pre @ vs = pre @ v # vs" by simp
  have len: "length ?pre = Suc (length pre)" by simp
  show ?case
  proof (cases "fless bv v")
    case True
    have a: "length pre < length ?pre" by simp
    have b: "?pre ! length pre = v" by simp
    have c: "\<forall>j<length ?pre. \<not> fless v (?pre ! j)"
    proof (intro allI impI)
      fix j assume "j < length ?pre"
      then consider "j < length pre" | "j = length pre" by fastforce
      then show "\<not> fless v (?pre ! j)"
      proof cases
        case 1
        then have "\<not> fless bv (pre ! j)" using Cons.prems(5) by simp
        with True fless_trans have "\<not> fless v (pre ! j)" by blast
        with 1 show ?thesis by (simp add: nth_append)
      next
        case 2
        then show ?thesis by (simp add: fless_irrefl)
      qed
    qed
    have d: "\<forall>j<length pre. fless (?pre ! j) v"
    proof (intro allI impI)
      fix j assume j: "j < length pre"
      then have "\<not> fless bv (pre ! j)" using Cons.prems(5) by simp
      moreover have "pre ! j \<noteq> NaN" using Cons.prems(1) j nth_mem by blast
      ultimately have "pre ! j = bv \<or> fless (pre ! j) bv" using fless_total bv by blast
      with True fless_trans have "fless (pre ! j) v" by blast
      with j show "fless (?pre ! j) v" by (simp add: nth_append)
    qed
    from Cons.IH[OF nn nn' a b c d] True bv show ?thesis
      unfolding app len by simp
  next
    case False
    have a: "best < length ?pre" using Cons.prems(3) by simp
    have b: "?pre ! best = bv" using Cons.prems(3,4) by (simp add: nth_append)
    have c: "\<forall>j<length ?pre. \<not> fless bv (?pre ! j)"
      using Cons.prems(5) False by (auto simp: nth_append less_Suc_eq)
    have d: "\<forall>j<best. fless (?pre ! j) bv"
      using Cons.prems(3,6) by (simp add: nth_append)
    from Cons.IH[OF nn nn' a b c d] False v show ?thesis
      unfolding app len by simp
  qed
qed

lemma argmax_greatest:
  assumes ne: "xs \<noteq> []" and nn: "\<forall>v\<in>set xs. v \<noteq> NaN"
  shows "argmax xs < length xs
     \<and> (\<forall>j<length xs. \<not> fless (xs ! argmax xs) (xs ! j))
     \<and> (\<forall>j<argmax xs. fless (xs ! j) (xs ! argmax xs))"
proof -
  from ne obtain v vs where xs: "xs = v # vs" by (cases xs) auto
  have "argmax_scan 0 v (length [v]) vs < length ([v] @ vs)
     \<and> (\<forall>j<length ([v] @ vs). \<not> fless (([v] @ vs) ! argmax_scan 0 v (length [v]) vs) (([v] @ vs) ! j))
     \<and> (\<forall>j<argmax_scan 0 v (length [v]) vs.
           fless (([v] @ vs) ! j) (([v] @ vs) ! argmax_scan 0 v (length [v]) vs))"
    using nn xs by (intro argmax_scan_greatest) (simp_all add: fless_irrefl)
  then show ?thesis by (simp add: xs argmax_def)
qed

text \<open>
  Claim C8, as amended. The \<open>regression\<close> function of the linear-regression notebook
  returns one prediction per row of the training rows followed by the testing rows and
  reports the mean squared error of these predictions, not a mean absolute error. The
  \<open>evaluate\<close> of the neural-network regression returns (as loss and as metric) the mean
  absolute error over the rows it is given. The \<open>evaluate\<close> of the classification
  returns the fraction of rows where the arg-max of the predicted scores is the arg-max of
  the one-hot label, which is the index of the true class; the arg-max is the index of the
  first greatest score.
\<close>

theorem aggregate_errors_of_the_three_notebooks:
  "(xtr \<noteq> [] \<and> length xtr = length ytr \<and> length xte = length yte \<longrightarrow>
      (\<exists>r. regression (map Fin xtr) (map Fin xte) (map Fin ytr) (map Fin yte) = Inr r
         \<and> returned_predictions r
             = map (\<lambda>x. coef (ols_fit xtr ytr) * x + intercept (ols_fit xtr ytr)) (xtr @ xte)
         \<and> printed_mean_squared_error r
             = (\<Sum>i<length (xtr @ xte).
                  ((ytr @ yte) ! i - returned_predictions r ! i)
                  * ((ytr @ yte) ! i - returned_predictions r ! i))
               / real (length (xtr @ xte))))
   \<and> (length features = n \<and> length labels = n \<and> 0 < n
        \<and> (\<forall>i<n. net (features ! i) = Fin (p i) \<and> labels ! i = Fin (t i)) \<longrightarrow>
      evaluate_regression net features labels
        = Inr (Fin ((\<Sum>i<n. \<bar>t i - p i\<bar>) / real n), Fin ((\<Sum>i<n. \<bar>t i - p i\<bar>) / real n)))
   \<and> (length features = n \<and> length class_labels = n \<and> 0 < n \<longrightarrow>
      evaluate_classification cnet features class_labels
        = Inr (Fin (real (card {i. i < n \<and> argmax (cnet (features ! i))
                 = argmax (map (\<lambda>z. Fin (real_of_int z)) (class_labels ! i))}) / real n)))
   \<and> argmax (map (\<lambda>z. Fin (real_of_int z)) [1, 0, 0]) = 0
   \<and> argmax (map (\<lambda>z. Fin (real_of_int z)) [0, 1, 0]) = 1
   \<and> argmax (map (\<lambda>z. Fin (real_of_int z)) [0, 0, 1]) = 2
   \<and> (scores \<noteq> [] \<and> (\<forall>v\<in>set scores. v \<noteq> NaN) \<longrightarrow>
        argmax scores < length scores
        \<and> (\<forall>j<length scores. \<not> fless (scores ! argmax scores) (scores ! j))
        \<and> (\<forall>j<argmax scores. fless (scores ! j) (scores ! argmax scores)))"
proof (intro conjI impI)
  assume a: "xtr \<noteq> [] \<and> length xtr = length ytr \<and> length xte = length yte"
  let ?pred = "linear_predict (ols_fit xtr ytr) (xtr @ xte)"
  let ?r = "\<lparr>printed_equation = ols_fit xtr ytr,
             printed_mean_squared_error = mean_squared_error (ytr @ yte) ?pred,
             returned_predictions = ?pred\<rparr>"
  from a have r: "regression (map Fin xtr) (map Fin xte) (map Fin ytr) (map Fin yte) = Inr ?r"
    by (intro regression_report_finite) simp_all
  have l: "length (ytr @ yte) = length ?pred" using a by (simp add: linear_predict_def)
  have m: "mean_squared_error (ytr @ yte) ?pred
     = (\<Sum>i<length (xtr @ xte). ((ytr @ yte) ! i - ?pred ! i) * ((ytr @ yte) ! i - ?pred ! i))
         / real (length (xtr @ xte))"
    using mean_squared_error_sum[OF l] a by simp
  show "\<exists>r. regression (map Fin xtr) (map Fin xte) (map Fin ytr) (map Fin yte) = Inr r
         \<and> returned_predictions r
             = map (\<lambda>x. coef (ols_fit xtr ytr) * x + intercept (ols_fit xtr ytr)) (xtr @ xte)
         \<and> printed_mean_squared_error r
             = (\<Sum>i<length (xtr @ xte).
                  ((ytr @ yte) ! i - returned_predictions r ! i)
                  * ((ytr @ yte) ! i - returned_predictions r ! i))
               / real (length (xtr @ xte))"
    using r m by (intro exI[of _ ?r]) (simp add: linear_predict_def)
next
  assume a: "length features = n \<and> length labels = n \<and> 0 < n
        \<and> (\<forall>i<n. net (features ! i) = Fin (p i) \<and> labels ! i = Fin (t i))"
  then have "keras_mae net features labels = Fin ((\<Sum>i<n. \<bar>t i - p i\<bar>) / real n)"
    by (intro keras_mae_finite) simp_all
  with a show "evaluate_regression net features labels
        = Inr (Fin ((\<Sum>i<n. \<bar>t i - p i\<bar>) / real n), Fin ((\<Sum>i<n. \<bar>t i - p i\<bar>) / real n))"
    by (simp add: evaluate_regression_def)
next
  assume a: "length features = n \<and> length class_labels = n \<and> 0 < n"
  then have "keras_accuracy cnet features class_labels
     = Fin (real (card {i. i < n \<and> argmax (cnet (features ! i))
                 = argmax (map (\<lambda>z. Fin (real_of_int z)) (class_labels ! i))}) / real n)"
    by (intro keras_accuracy_count) simp_all
  with a show "evaluate_classification cnet features class_labels
        = Inr (Fin (real (card {i. i < n \<and> argmax (cnet (features ! i))
                 = argmax (map (\<lambda>z. Fin (real_of_int z)) (class_labels ! i))}) / real n))"
    by (simp add: evaluate_classification_def)
next
  show "argmax (map (\<lambda>z. Fin (real_of_int z)) [1, 0, 0]) = 0" by (rule argmax_one_hot)
  show "argmax (map (\<lambda>z. Fin (real_of_int z)) [0, 1, 0]) = 1" by (rule argmax_one_hot)
  show "argmax (map (\<lambda>z. Fin (real_of_int z)) [0, 0, 1]) = 2" by (rule argmax_one_hot)
next
  assume "scores \<noteq> [] \<and> (\<forall>v\<in>set scores. v \<noteq> NaN)"
  then have "argmax scores < length scores
        \<and> (\<forall>j<length scores. \<not> fless (scores ! argmax scores) (scores ! j))
        \<and> (\<forall>j<argmax scores. fless (scores ! j) (scores ! argmax scores))"
    by (intro argmax_greatest) simp_all
  then show "argmax scores < length scores"
    "\<forall>j<length scores. \<not> fless (scores ! argmax scores) (scores ! j)"
    "\<forall>j<argmax scores. fless (scores ! j) (scores ! argmax scores)"
    by blast+
qed


theorem aggregate_errors_witness:
  "(\<exists>r. regression [Fin 0, Fin 1] [Fin 2] [Fin 0, Fin 1] [Fin 4] = Inr r
        \<and> returned_predictions r = [0, 1, 2]
        \<and> printed_mean_squared_error r = 4 / 3)
   \<and> evaluate_regression fsum [[Fin 1], [Fin 2]] [Fin 3, Fin 5] = Inr (Fin (5 / 2), Fin (5 / 2))
   \<and> evaluate_classification (\<lambda>row. [row ! 0, Fin (3 / 2), Fin 0]) [[Fin 1], [Fin 2]]
        [[0, 1, 0], [0, 0, 1]] = Inr (Fin (1 / 2))
   \<and> argmax [Fin 1, Fin (3 / 2), Fin 0] = 1"
proof -
  note t = aggregate_errors_of_the_three_notebooks[where xtr = "[0, 1]" and ytr = "[0, 1]"
      and xte = "[2]" and yte = "[4]"
      and features = "[[Fin 1], [Fin 2]]" and n = 2 and labels = "[Fin 3, Fin 5]" and net = fsum
      and p = "\<lambda>i. [1, 2] ! i" and t = "\<lambda>i. [3, 5] ! i"
      and cnet = "\<lambda>row. [row ! 0, Fin (3 / 2), Fin 0]" and class_labels = "[[0, 1, 0], [0, 0, 1]]"
      and scores = "[Fin 1, Fin (3 / 2), Fin 0]"]
  have ols: "ols_fit [0, 1] [0, 1] = \<lparr>coef = 1, intercept = 0\<rparr>"
    by (simp add: ols_fit_def mean_list_def)
  from t have "\<exists>r. regression (map Fin [0, 1]) (map Fin [2]) (map Fin [0, 1]) (map Fin [4]) = Inr r
         \<and> returned_predictions r
             = map (\<lambda>x. coef (ols_fit [0, 1] [0, 1]) * x + intercept (ols_fit [0, 1] [0, 1])) ([0, 1] @ [2])
         \<and> printed_mean_squared_error r
             = (\<Sum>i<length ([0, 1] @ [2::real]).
                  (([0, 1] @ [4]) ! i - returned_predictions r ! i)
                  * (([0, 1] @ [4]) ! i - returned_predictions r ! i))
               / real (length ([0, 1] @ [2::real]))"
    by simp
  then obtain r where r0: "regression (map Fin [0, 1]) (map Fin [2]) (map Fin [0, 1]) (map Fin [4]) = Inr r"
    and pr0: "returned_predictions r
             = map (\<lambda>x. coef (ols_fit [0, 1] [0, 1]) * x + intercept (ols_fit [0, 1] [0, 1])) ([0, 1] @ [2])"
    and ms0: "printed_mean_squared_error r
             = (\<Sum>i<length ([0, 1] @ [2::real]).
                  (([0, 1] @ [4]) ! i - returned_predictions r ! i)
                  * (([0, 1] @ [4]) ! i - returned_predictions r ! i))
               / real (length ([0, 1] @ [2::real]))"
    by blast
  from r0 have r: "regression [Fin 0, Fin 1] [Fin 2] [Fin 0, Fin 1] [Fin 4] = Inr r" by simp
  from pr0 have pr: "returned_predictions r = [0, 1, 2]" by (simp add: ols)
  have "printed_mean_squared_error r = 4 / 3"
    unfolding ms0 pr by (simp add: lessThan_nat_numeral lessThan_Suc)
  with r pr have a: "\<exists>r. regression [Fin 0, Fin 1] [Fin 2] [Fin 0, Fin 1] [Fin 4] = Inr r
        \<and> returned_predictions r = [0, 1, 2]
        \<and> printed_mean_squared_error r = 4 / 3"
    by blast
  have fin: "\<forall>i<2. fsum ([[Fin 1], [Fin 2]] ! i) = Fin ([1, 2] ! i) \<and> [Fin 3, Fin 5] ! i = Fin ([3, 5] ! i)"
    by (simp add: All_less_Suc numeral_2_eq_2)
  from t fin have "evaluate_regression fsum [[Fin 1], [Fin 2]] [Fin 3, Fin 5]
        = Inr (Fin ((\<Sum>i<2. \<bar>[3, 5] ! i - [1, 2] ! i\<bar>) / real 2),
               Fin ((\<Sum>i<2. \<bar>[3, 5] ! i - [1, 2] ! i\<bar>) / real 2))"
    by simp
  then have b: "evaluate_regression fsum [[Fin 1], [Fin 2]] [Fin 3, Fin 5] = Inr (Fin (5 / 2), Fin (5 / 2))"
    by (simp add: lessThan_nat_numeral lessThan_Suc)
  have direct: "evaluate_classification (\<lambda>row. [row ! 0, Fin (3 / 2), Fin 0]) [[Fin 1], [Fin 2]]
        [[0, 1, 0], [0, 0, 1]] = Inr (Fin (1 / 2))"
    by (simp add: evaluate_classification_def keras_accuracy_def predict_def argmax_def np_mean_def)
  from t have d: "argmax [Fin 1, Fin (3 / 2), Fin 0] < length [Fin 1, Fin (3 / 2), Fin 0]
        \<and> (\<forall>j<length [Fin 1, Fin (3 / 2), Fin 0].
              \<not> fless ([Fin 1, Fin (3 / 2), Fin 0] ! argmax [Fin 1, Fin (3 / 2), Fin 0])
                       ([Fin 1, Fin (3 / 2), Fin 0] ! j))"
    by simp
  have e: "argmax [Fin 1, Fin (3 / 2), Fin 0] = 1"
  proof -
    from d have lt: "argmax [Fin 1, Fin (3 / 2), Fin 0] < 3"
      and mx: "\<not> fless ([Fin 1, Fin (3 / 2), Fin 0] ! argmax [Fin 1, Fin (3 / 2), Fin 0]) (Fin (3 / 2))"
      by (simp, force)
    from lt consider "argmax [Fin 1, Fin (3 / 2), Fin 0] = 0" | "argmax [Fin 1, Fin (3 / 2), Fin 0] = 1"
      | "argmax [Fin 1, Fin (3 / 2), Fin 0] = 2" by linarith
    then show ?thesis using mx by cases simp_all
  qed
  from a b direct e show ?thesis by blast
qed


text \<open>
  Claim C8 as stated names the mean absolute error for every regression variant. On two
  training rows that the line fits exactly and one testing row that it misses by 2, the
  linear-regression notebook reports \<open>4/3\<close>, the mean squared error; the mean absolute
  error of the same predictions is \<open>2/3\<close>.
\<close>

theorem regression_reports_mse_counterexample:
  "regression [Fin 0, Fin 1] [Fin 2] [Fin 0, Fin 1] [Fin 4]
     = Inr \<lparr>printed_equation = \<lparr>coef = 1, intercept = 0\<rparr>,
            printed_mean_squared_error = 4 / 3,
            returned_predictions = [0, 1, 2]\<rparr>
   \<and> mean_absolute_error [0, 1, 4] [0, 1, 2] = 2 / 3
   \<and> mean_squared_error [0, 1, 4] [0, 1, 2] \<noteq> mean_absolute_error [0, 1, 4] [0, 1, 2]"
  by (simp add: regression_def ols_fit_def mean_list_def linear_predict_def
      mean_squared_error_def mean_absolute_error_def)

section \<open>Properties of the training\<close>

lemma make_batches_single:
  assumes "0 < length xs" "length xs \<le> batch_size"
  shows "make_batches batch_size xs = [xs]"
proof -
  from assms(1) have one: "1 \<le> length xs" by (simp add: Suc_le_eq)
  have a: "batch_size \<le> length xs + batch_size - 1" using one by arith
  have b: "length xs + batch_size - 1 < 2 * batch_size" using one assms(2) by arith
  have lo: "batch_size * 1 \<le> length xs + batch_size - 1" using a by simp
  have hi: "length xs + batch_size - 1 < batch_size * Suc 1" using b by simp
  have "(length xs + batch_size - 1) div batch_size = 1"
    using lo hi by (rule div_nat_eqI)
  then show ?thesis using assms by (simp add: make_batches_def)
qed

lemma run_batches_single:
  "run_batches step epoch [(b_x, b_y)] st
     = st\<lparr>weights := step (weights st) b_x b_y, update_log := update_log st @ [(epoch, b_x, b_y)]\<rparr>"
  by (simp add: run_batches_def)

text \<open>The loop with the callback of the notebooks and one batch per epoch.\<close>

lemma fit_loop_PrintEpNum:
  assumes single: "\<forall>e. 0 < length (order e) \<and> length (order e) \<le> batch_size"
    and go: "\<not> stop_training st"
  shows "\<not> stop_training (fit_loop step vm order batch_size [PrintEpNum] x y xv yv epoch k st)
     \<and> history_epoch (fit_loop step vm order batch_size [PrintEpNum] x y xv yv epoch k st)
         = history_epoch st @ [epoch..<epoch + k]
     \<and> stdout (fit_loop step vm order batch_size [PrintEpNum] x y xv yv epoch k st)
         = stdout st @ map Suc [epoch..<epoch + k]
     \<and> update_log (fit_loop step vm order batch_size [PrintEpNum] x y xv yv epoch k st)
         = update_log st @ map (\<lambda>e. (e, map (\<lambda>i. x ! i) (order e), map (\<lambda>i. y ! i) (order e)))
                              [epoch..<epoch + k]
     \<and> weights (fit_loop step vm order batch_size [PrintEpNum] x y xv yv epoch k st)
         = foldl (\<lambda>w e. step w (map (\<lambda>i. x ! i) (order e)) (map (\<lambda>i. y ! i) (order e)))
             (weights st) [epoch..<epoch + k]
     \<and> history_val (fit_loop step vm order batch_size [PrintEpNum] x y xv yv epoch k st)
         = history_val st @ map (\<lambda>e. vm (foldl (\<lambda>w e. step w (map (\<lambda>i. x ! i) (order e))
                                                       (map (\<lambda>i. y ! i) (order e)))
                                           (weights st) [epoch..<Suc e]) xv yv)
                               [epoch..<epoch + k]"
  using go
proof (induction k arbitrary: epoch st)
  case 0
  then show ?case by simp
next
  case (Suc k)
  let ?xs = "map (\<lambda>i. x ! i) (order epoch)"
  let ?ys = "map (\<lambda>i. y ! i) (order epoch)"
  let ?st3 = "st\<lparr>weights := step (weights st) ?xs ?ys,
                 update_log := update_log st @ [(epoch, ?xs, ?ys)],
                 history_epoch := history_epoch st @ [epoch],
                 history_val := history_val st @ [vm (step (weights st) ?xs ?ys) xv yv],
                 stdout := stdout st @ [epoch + 1]\<rparr>"
  have bx: "make_batches batch_size ?xs = [?xs]" using single by (intro make_batches_single) simp_all
  have byy: "make_batches batch_size ?ys = [?ys]" using single by (intro make_batches_single) simp_all
  have go3: "\<not> stop_training ?st3" using Suc.prems by simp
  have unfold: "fit_loop step vm order batch_size [PrintEpNum] x y xv yv epoch (Suc k) st
      = fit_loop step vm order batch_size [PrintEpNum] x y xv yv (Suc epoch) k ?st3"
    using Suc.prems by (simp add: bx byy run_batches_single PrintEpNum_def Let_def)
  have upt: "[epoch..<epoch + Suc k] = epoch # [Suc epoch..<Suc epoch + k]"
    by (simp add: upt_rec)
  have hv: "map (\<lambda>e. vm (foldl (\<lambda>w e. step w (map (\<lambda>i. x ! i) (order e)) (map (\<lambda>i. y ! i) (order e)))
                          (weights ?st3) [Suc epoch..<Suc e]) xv yv) [Suc epoch..<Suc epoch + k]
      = map (\<lambda>e. vm (foldl (\<lambda>w e. step w (map (\<lambda>i. x ! i) (order e)) (map (\<lambda>i. y ! i) (order e)))
                          (weights st) [epoch..<Suc e]) xv yv) [Suc epoch..<Suc epoch + k]"
  proof (rule map_cong[OF refl])
    fix e assume "e \<in> set [Suc epoch..<Suc epoch + k]"
    then have "Suc epoch \<le> e" by (simp only: set_upt atLeastLessThan_iff)
    then have "epoch < Suc e" by arith
    then have c: "[epoch..<Suc e] = epoch # [Suc epoch..<Suc e]" by (rule upt_conv_Cons)
    show "vm (foldl (\<lambda>w e. step w (map (\<lambda>i. x ! i) (order e)) (map (\<lambda>i. y ! i) (order e)))
                          (weights ?st3) [Suc epoch..<Suc e]) xv yv
        = vm (foldl (\<lambda>w e. step w (map (\<lambda>i. x ! i) (order e)) (map (\<lambda>i. y ! i) (order e)))
                          (weights st) [epoch..<Suc e]) xv yv"
      unfolding c by (simp del: upt_Suc)
  qed
  show ?case
    unfolding unfold upt using Suc.IH[OF go3, of "Suc epoch"] hv by simp
qed

lemma foldl_const_funpow: "foldl (\<lambda>w e. f w) w0 xs = (f ^^ length xs) w0"
  by (induction xs arbitrary: w0) (simp_all add: funpow_swap1)

lemma fit_PrintEpNum:
  fixes step :: "'m \<Rightarrow> matrix \<Rightarrow> 'l list \<Rightarrow> 'm" and vm :: "'m \<Rightarrow> matrix \<Rightarrow> 'l list \<Rightarrow> 'v"
  assumes len: "length x = length y"
    and split: "split = validation_split_at vs (length x)"
    and ok: "0 < split" "split < length x"
    and single: "\<forall>e. 0 < length (order e) \<and> length (order e) \<le> batch_size"
  shows "\<exists>st. fit step vm w0 x y batch_size epochs vs order [PrintEpNum] = Inr st
     \<and> \<not> stop_training st
     \<and> history_epoch st = [0..<epochs]
     \<and> stdout st = map Suc [0..<epochs]
     \<and> update_log st = map (\<lambda>e. (e, map (\<lambda>i. take split x ! i) (order e),
                                      map (\<lambda>i. take split y ! i) (order e))) [0..<epochs]
     \<and> weights st = foldl (\<lambda>w e. step w (map (\<lambda>i. take split x ! i) (order e))
                                          (map (\<lambda>i. take split y ! i) (order e))) w0 [0..<epochs]
     \<and> history_val st
         = map (\<lambda>e. vm (foldl (\<lambda>w e. step w (map (\<lambda>i. take split x ! i) (order e))
                                              (map (\<lambda>i. take split y ! i) (order e))) w0 [0..<Suc e])
                        (drop split x) (drop split y)) [0..<epochs]"
proof -
  let ?st0 = "\<lparr>weights = w0, stop_training = False, stdout = [], history_epoch = [],
                   history_val = [], update_log = []\<rparr> :: ('m, 'l, 'v) fit_state"
  have go: "\<not> stop_training ?st0" by simp
  have f: "fit step vm w0 x y batch_size epochs vs order [PrintEpNum]
      = Inr (fit_loop step vm order batch_size [PrintEpNum] (take split x) (take split y)
               (drop split x) (drop split y) 0 epochs ?st0)"
    unfolding fit_def Let_def split[symmetric] using len ok by simp
  from fit_loop_PrintEpNum[OF single go, of step vm "take split x" "take split y"
      "drop split x" "drop split y" 0 epochs]
  show ?thesis unfolding f by simp
qed

lemma split_at_notebooks:
  "validation_split_at (1 / 10) 44 = 39" "validation_split_at (1 / 10) 40 = 36"
  by (simp_all add: validation_split_at_def)

lemma map_nth_take_upt: "n \<le> length xs \<Longrightarrow> map (\<lambda>i. take n xs ! i) [0..<n] = take n xs"
  by (simp add: list_eq_iff_nth_eq)

lemma train_regression_closed_form:
  assumes len: "length train_values = length train_labels"
    and split: "split = validation_split_at (1 / 10) (length train_values)"
    and ok: "0 < split" "split < length train_values"
  shows "\<exists>st. train_regression step vm w0 train_values train_labels = Inr st
     \<and> \<not> stop_training st
     \<and> history_epoch st = [0..<2000]
     \<and> stdout st = map Suc [0..<2000]
     \<and> update_log st = map (\<lambda>e. (e, take split train_values, take split train_labels)) [0..<2000]
     \<and> weights st = ((\<lambda>w. step w (take split train_values) (take split train_labels)) ^^ 2000) w0
     \<and> history_val st
         = map (\<lambda>e. vm (((\<lambda>w. step w (take split train_values) (take split train_labels)) ^^ Suc e) w0)
                        (drop split train_values) (drop split train_labels)) [0..<2000]"
proof -
  have single: "\<forall>e::nat. 0 < length [0..<split] \<and> length [0..<split] \<le> length train_values"
    using ok by simp
  have mx: "map (\<lambda>i. take split train_values ! i) [0..<split] = take split train_values"
    using ok by (intro map_nth_take_upt) simp
  have my: "map (\<lambda>i. take split train_labels ! i) [0..<split] = take split train_labels"
    using ok len by (intro map_nth_take_upt) simp
  from fit_PrintEpNum[OF len split ok single, of step vm w0 2000]
  show ?thesis
    unfolding train_regression_def split[symmetric] mx my foldl_const_funpow
    by (simp del: funpow.simps)
qed

lemma mset_map_nth_permutation:
  assumes "mset order = mset [0..<length xs]"
  shows "mset (map (\<lambda>i. xs ! i) order) = mset xs"
proof -
  have "mset (map (\<lambda>i. xs ! i) order) = image_mset (\<lambda>i. xs ! i) (mset order)" by simp
  also have "\<dots> = image_mset (\<lambda>i. xs ! i) (mset [0..<length xs])" using assms by simp
  also have "\<dots> = mset (map (\<lambda>i. xs ! i) [0..<length xs])" by simp
  also have "map (\<lambda>i. xs ! i) [0..<length xs] = xs" by (rule map_nth)
  finally show ?thesis .
qed

lemma train_classification_closed_form:
  assumes len: "length train_values = length class_labels"
    and split: "split = validation_split_at (1 / 10) (length train_values)"
    and ok: "0 < split" "split < length train_values"
    and perm: "\<forall>e. mset (shuffled e) = mset [0..<split]"
  shows "\<exists>st. train_classification step vm w0 shuffled train_values class_labels = Inr st
     \<and> \<not> stop_training st
     \<and> history_epoch st = [0..<300]
     \<and> stdout st = map Suc [0..<300]
     \<and> length (history_val st) = 300
     \<and> length (update_log st) = 300
     \<and> (\<forall>e<300. fst (update_log st ! e) = e
           \<and> mset (fst (snd (update_log st ! e))) = mset (take split train_values)
           \<and> mset (snd (snd (update_log st ! e))) = mset (take split class_labels))"
proof -
  have l: "\<And>e. length (shuffled e) = split"
    using perm by (metis length_upt mset_eq_length minus_nat.diff_0)
  have single: "\<forall>e. 0 < length (shuffled e) \<and> length (shuffled e) \<le> length train_values"
    using ok l by simp
  have px: "\<And>e. mset (map (\<lambda>i. take split train_values ! i) (shuffled e)) = mset (take split train_values)"
    using perm ok by (intro mset_map_nth_permutation) simp
  have py: "\<And>e. mset (map (\<lambda>i. take split class_labels ! i) (shuffled e)) = mset (take split class_labels)"
    using perm ok len by (intro mset_map_nth_permutation) simp
  from fit_PrintEpNum[OF len split ok single, of step vm w0 300]
  obtain st where r: "fit step vm w0 train_values class_labels (length train_values) 300 (1 / 10)
        shuffled [PrintEpNum] = Inr st"
    and s: "\<not> stop_training st" "history_epoch st = [0..<300]" "stdout st = map Suc [0..<300]"
    and u: "update_log st = map (\<lambda>e. (e, map (\<lambda>i. take split train_values ! i) (shuffled e),
                                      map (\<lambda>i. take split class_labels ! i) (shuffled e))) [0..<300]"
    and h: "history_val st
         = map (\<lambda>e. vm (foldl (\<lambda>w e. step w (map (\<lambda>i. take split train_values ! i) (shuffled e))
                                              (map (\<lambda>i. take split class_labels ! i) (shuffled e))) w0 [0..<Suc e])
                        (drop split train_values) (drop split class_labels)) [0..<300]"
    unfolding split[symmetric] by blast
  have "length (history_val st) = 300" unfolding h by simp
  moreover have "length (update_log st) = 300" unfolding u by simp
  moreover have "\<forall>e<300. fst (update_log st ! e) = e
           \<and> mset (fst (snd (update_log st ! e))) = mset (take split train_values)
           \<and> mset (snd (snd (update_log st ! e))) = mset (take split class_labels)"
    unfolding u using px py by simp
  ultimately show ?thesis using r s by (auto simp: train_classification_def)
qed

text \<open>
  Claim C7, as amended. Whenever the split leaves rows on both sides, \<open>fit\<close> runs
  every one of its epochs (2000 in the regression notebook, 300 in the classification
  notebook): the callback of the notebooks writes a line and never sets
  \<open>stop_training\<close>. The rows of the training partition from position
  \<open>floor(0.9 * n)\<close> on are set apart (\<open>validation_split = 0.1\<close>); they
  only feed the validation entry of the history. Every epoch is a single update of the
  weights, on one batch that holds all the other training rows (in their own order in the
  regression notebook, in the epoch's shuffled order in the classification notebook): 39 of
  the 44 training rows, 36 of the 40. The testing partition is no argument of \<open>fit\<close>.
\<close>

theorem fit_runs_every_epoch_on_one_batch:
  assumes split: "split = validation_split_at (1 / 10) (length train_values)"
    and ok: "0 < split" "split < length train_values"
  shows "(length train_values = length train_labels \<longrightarrow>
           (\<exists>st. train_regression step vm w0 train_values train_labels = Inr st
              \<and> \<not> stop_training st
              \<and> history_epoch st = [0..<2000]
              \<and> stdout st = map Suc [0..<2000]
              \<and> update_log st
                  = map (\<lambda>e. (e, take split train_values, take split train_labels)) [0..<2000]
              \<and> weights st
                  = ((\<lambda>w. step w (take split train_values) (take split train_labels)) ^^ 2000) w0
              \<and> history_val st
                  = map (\<lambda>e. vm (((\<lambda>w. step w (take split train_values) (take split train_labels))
                                     ^^ Suc e) w0)
                                 (drop split train_values) (drop split train_labels)) [0..<2000]))
       \<and> (length train_values = length class_labels \<and> (\<forall>e. mset (shuffled e) = mset [0..<split]) \<longrightarrow>
           (\<exists>st. train_classification cstep cvm cw0 shuffled train_values class_labels = Inr st
              \<and> \<not> stop_training st
              \<and> history_epoch st = [0..<300]
              \<and> stdout st = map Suc [0..<300]
              \<and> length (history_val st) = 300
              \<and> length (update_log st) = 300
              \<and> (\<forall>e<300. fst (update_log st ! e) = e
                    \<and> mset (fst (snd (update_log st ! e))) = mset (take split train_values)
                    \<and> mset (snd (snd (update_log st ! e))) = mset (take split class_labels))))
       \<and> validation_split_at (1 / 10) 44 = 39
       \<and> validation_split_at (1 / 10) 40 = 36"
proof (intro conjI impI)
  assume len: "length train_values = length train_labels"
  show "\<exists>st. train_regression step vm w0 train_values train_labels = Inr st
              \<and> \<not> stop_training st
              \<and> history_epoch st = [0..<2000]
              \<and> stdout st = map Suc [0..<2000]
              \<and> update_log st
                  = map (\<lambda>e. (e, take split train_values, take split train_labels)) [0..<2000]
              \<and> weights st
                  = ((\<lambda>w. step w (take split train_values) (take split train_labels)) ^^ 2000) w0
              \<and> history_val st
                  = map (\<lambda>e. vm (((\<lambda>w. step w (take split train_values) (take split train_labels))
                                     ^^ Suc e) w0)
                                 (drop split train_values) (drop split train_labels)) [0..<2000]"
    using len split ok by (rule train_regression_closed_form)
next
  assume a: "length train_values = length class_labels \<and> (\<forall>e. mset (shuffled e) = mset [0..<split])"
  then have len: "length train_values = length class_labels"
    and perm: "\<forall>e. mset (shuffled e) = mset [0..<split]" by simp_all
  show "\<exists>st. train_classification cstep cvm cw0 shuffled train_values class_labels = Inr st
              \<and> \<not> stop_training st
              \<and> history_epoch st = [0..<300]
              \<and> stdout st = map Suc [0..<300]
              \<and> length (history_val st) = 300
              \<and> length (update_log st) = 300
              \<and> (\<forall>e<300. fst (update_log st ! e) = e
                    \<and> mset (fst (snd (update_log st ! e))) = mset (take split train_values)
                    \<and> mset (snd (snd (update_log st ! e))) = mset (take split class_labels))"
    using len split ok perm by (rule train_classification_closed_form)
next
  show "validation_split_at (1 / 10) 44 = 39" by (rule split_at_notebooks)
  show "validation_split_at (1 / 10) 40 = 36" by (rule split_at_notebooks)
qed


theorem fit_witness:
  "(case train_regression (\<lambda>w b_x b_y. Suc w) (\<lambda>w v_x v_y. w) 0
           (replicate 44 [Fin 0]) (replicate 44 (Fin 0)) of
      Inl e \<Rightarrow> False
    | Inr st \<Rightarrow> weights st = 2000 \<and> history_epoch st = [0..<2000] \<and> \<not> stop_training st
        \<and> update_log st ! 0 = (0, replicate 39 [Fin 0], replicate 39 (Fin 0)))"
proof -
  have split: "39 = validation_split_at (1 / 10) (length (replicate 44 [Fin 0]))"
    by (simp add: split_at_notebooks)
  have ok: "(0::nat) < 39" "39 < length (replicate 44 [Fin 0])" by simp_all
  have len: "length (replicate 44 [Fin 0]) = length (replicate 44 (Fin 0))" by simp
  note t = fit_runs_every_epoch_on_one_batch[OF split ok,
      of "replicate 44 (Fin 0)" "\<lambda>w b_x b_y. Suc w" "\<lambda>w v_x v_y. w" 0]
  from t[THEN conjunct1, THEN mp, OF len]
  obtain st where r: "train_regression (\<lambda>w b_x b_y. Suc w) (\<lambda>w v_x v_y. w) 0
           (replicate 44 [Fin 0]) (replicate 44 (Fin 0)) = Inr st"
    and s: "\<not> stop_training st" "history_epoch st = [0..<2000]"
    and u: "update_log st = map (\<lambda>e. (e, take 39 (replicate 44 [Fin 0]), take 39 (replicate 44 (Fin 0))))
                                [0..<2000]"
    and w: "weights st = ((\<lambda>w. Suc w) ^^ 2000) 0"
    by (elim exE conjE) (rule that)
  have "weights st = 2000" unfolding w by simp
  moreover have "update_log st ! 0 = (0, replicate 39 [Fin 0], replicate 39 (Fin 0))"
    unfolding u by (simp del: upt_Suc)
  ultimately show ?thesis using r s by simp
qed


text \<open>
  Claim C7 as stated makes the entire training partition the single batch. With the 44
  training rows of the regression notebook the batch of every epoch has 39 rows: the 5 rows
  set apart for validation are never trained on.
\<close>

theorem batch_leaves_out_validation_rows_counterexample:
  "length (replicate 44 [Fin 0]) = 44
   \<and> (case train_regression (\<lambda>w b_x b_y. w) (\<lambda>w v_x v_y. w) ()
           (replicate 44 [Fin 0]) (replicate 44 (Fin 0)) of
        Inl e \<Rightarrow> False
      | Inr st \<Rightarrow> length (update_log st) = 2000
          \<and> length (fst (snd (update_log st ! 0))) = 39
          \<and> length (fst (snd (update_log st ! 0))) \<noteq> length (replicate 44 [Fin 0]))"
proof -
  have split: "39 = validation_split_at (1 / 10) (length (replicate 44 [Fin 0]))"
    by (simp add: split_at_notebooks)
  have ok: "(0::nat) < 39" "39 < length (replicate 44 [Fin 0])" by simp_all
  have len: "length (replicate 44 [Fin 0]) = length (replicate 44 (Fin 0))" by simp
  from train_regression_closed_form[OF len split ok, of "\<lambda>w b_x b_y. w" "\<lambda>w v_x v_y. w" "()"]
  obtain st where r: "train_regression (\<lambda>w b_x b_y. w) (\<lambda>w v_x v_y. w) ()
           (replicate 44 [Fin 0]) (replicate 44 (Fin 0)) = Inr st"
    and u: "update_log st = map (\<lambda>e. (e, take 39 (replicate 44 [Fin 0]), take 39 (replicate 44 (Fin 0))))
                                [0..<2000]"
    by (elim exE conjE) (rule that)
  have "length (update_log st) = 2000" unfolding u by simp
  moreover have "length (fst (snd (update_log st ! 0))) = 39" unfolding u by (simp del: upt_Suc)
  ultimately show ?thesis using r by simp
qed

end
